(* ===== verification/GW_Prelude.thy ===== *)
theory GW_Prelude
  imports Complex_Main "HOL-Library.Word"
begin

text \<open>
  Shared vocabulary of the gateway model: Go's string helpers from the \<open>strings\<close>
  package as they are used by the sources (\<open>HasPrefix\<close>, \<open>HasSuffix\<close>,
  \<open>TrimPrefix\<close>, \<open>EqualFold\<close>, \<open>ToUpper\<close>), HTTP header lists, Go's truncating
  integer division and float-to-int conversion, and the timestamps of \<open>time.Time\<close>
  read as nanoseconds. The generic lemmas about them are collected in \<open>gw_simps\<close>
  so that the component theories can use them with \<open>simp add: gw_simps\<close>.
\<close>

named_theorems gw_simps "rewrite rules on the shared string, header and time helpers"

section \<open>Types\<close>

text \<open>
  A Go \<open>string\<close> is a byte string; Isabelle's \<open>string\<close> is a list of 8-bit
  \<open>char\<close>s. Headers are kept as an association list, in the order the HTTP
  library visits them. A \<open>time.Time\<close> of the monotonic clock is a count of
  nanoseconds.
\<close>

type_synonym header = "string \<times> string"
type_synonym headers = "header list"
type_synonym nanos = int

definition second :: int where
  "second = 1000000000"

section \<open>The strings package\<close>

definition HasPrefix :: "string \<Rightarrow> string \<Rightarrow> bool" where
  "HasPrefix s p \<longleftrightarrow> take (length p) s = p"

definition HasSuffix :: "string \<Rightarrow> string \<Rightarrow> bool" where
  "HasSuffix s p \<longleftrightarrow> length p \<le> length s \<and> drop (length s - length p) s = p"

definition TrimPrefix :: "string \<Rightarrow> string \<Rightarrow> string" where
  "TrimPrefix s p = (if HasPrefix s p then drop (length p) s else s)"

text \<open>
  \<open>strings.EqualFold\<close> and \<open>strings.ToUpper\<close> fold Unicode case. The model folds
  the ASCII letters only, which is what both functions do on ASCII input (HTTP method
  names and header names are ASCII tokens).
\<close>

definition ascii_lower :: "char \<Rightarrow> char" where
  "ascii_lower c =
     (let n = (of_char c :: nat) in if 65 \<le> n \<and> n \<le> 90 then char_of (n + 32) else c)"

definition ascii_upper :: "char \<Rightarrow> char" where
  "ascii_upper c =
     (let n = (of_char c :: nat) in if 97 \<le> n \<and> n \<le> 122 then char_of (n - 32) else c)"

definition EqualFold :: "string \<Rightarrow> string \<Rightarrow> bool" where
  "EqualFold s t \<longleftrightarrow> map ascii_lower s = map ascii_lower t"

definition ToUpper :: "string \<Rightarrow> string" where
  "ToUpper s = map ascii_upper s"

section \<open>Go arithmetic\<close>

text \<open>
  Go's integer \<open>/\<close> truncates towards zero and panics on a zero divisor; the
  conversion \<open>int(f)\<close> of a float truncates towards zero. Both are written out.
\<close>

definition go_div :: "int \<Rightarrow> int \<Rightarrow> int option" where
  "go_div a b = (if b = 0 then None else Some (sgn a * sgn b * (\<bar>a\<bar> div \<bar>b\<bar>)))"

definition go_trunc :: "real \<Rightarrow> int" where
  "go_trunc x = (if 0 \<le> x then \<lfloor>x\<rfloor> else - \<lfloor>- x\<rfloor>)"

text \<open>\<open>t.Unix()\<close>: whole seconds of a timestamp, rounded down.\<close>

definition unix_secs :: "nanos \<Rightarrow> int" where
  "unix_secs t = t div second"

text \<open>\<open>fmt.Sprintf("%d", i)\<close>: the decimal digits of an integer, with a minus sign.\<close>

fun nat_digits :: "nat \<Rightarrow> string" where
  "nat_digits n =
     (if n < 10 then [char_of (48 + n)] else nat_digits (n div 10) @ [char_of (48 + n mod 10)])"

definition Itoa :: "int \<Rightarrow> string" where
  "Itoa i = (if i < 0 then ''-'' @ nat_digits (nat (- i)) else nat_digits (nat i))"

section \<open>Header lists\<close>

text \<open>
  \<open>Header.Set(k, v)\<close> replaces every value stored under \<open>k\<close> by \<open>v\<close>; keys are
  compared by the header library's normalisation, passed in as \<open>nk\<close>.
\<close>

definition hdr_set :: "(string \<Rightarrow> string) \<Rightarrow> string \<Rightarrow> string \<Rightarrow> headers \<Rightarrow> headers" where
  "hdr_set nk k v hs = filter (\<lambda>(k', _). nk k' \<noteq> nk k) hs @ [(k, v)]"

definition hdr_get :: "(string \<Rightarrow> string) \<Rightarrow> string \<Rightarrow> headers \<Rightarrow> string" where
  "hdr_get nk k hs =
     (case filter (\<lambda>(k', _). nk k' = nk k) hs of [] \<Rightarrow> [] | (_, v) # _ \<Rightarrow> v)"

text \<open>\<open>strings.Split\<close> on a one-byte separator and \<open>strings.Join\<close>.\<close>

fun Split :: "char \<Rightarrow> string \<Rightarrow> string list" where
  "Split d [] = [[]]"
| "Split d (c # cs) =
     (if c = d then [] # Split d cs
      else (case Split d cs of p # ps \<Rightarrow> (c # p) # ps | [] \<Rightarrow> [[c]]))"

fun Join :: "string list \<Rightarrow> string \<Rightarrow> string" where
  "Join [] sep = []"
| "Join [x] sep = x"
| "Join (x # xs) sep = x @ sep @ Join xs sep"

section \<open>Lemmas\<close>

declare nat_digits.simps [simp del]

text \<open>Evaluation of \<open>char_of\<close> on numerals, for the case-folding helpers.\<close>

lemmas char_eval = char_of_def bit_0

lemma HasPrefix_iff [gw_simps]: "HasPrefix s p \<longleftrightarrow> (\<exists>r. s = p @ r)"
  unfolding HasPrefix_def by (metis append_take_drop_id append_eq_conv_conj)

lemma HasPrefix_append [gw_simps]: "HasPrefix (p @ r) p"
  by (simp add: HasPrefix_def)

lemma TrimPrefix_append [gw_simps]: "TrimPrefix (p @ r) p = r"
  by (simp add: TrimPrefix_def HasPrefix_def)

lemma TrimPrefix_self [gw_simps]: "TrimPrefix s s = []"
  using TrimPrefix_append [of s "[]"] by simp

lemma TrimPrefix_not [gw_simps]: "\<not> HasPrefix s p \<Longrightarrow> TrimPrefix s p = s"
  by (simp add: TrimPrefix_def)

lemma TrimPrefix_Nil [gw_simps]: "TrimPrefix s [] = s"
  by (simp add: TrimPrefix_def HasPrefix_def)

lemma EqualFold_refl [gw_simps]: "EqualFold s s"
  by (simp add: EqualFold_def)

lemma EqualFold_sym: "EqualFold s t \<longleftrightarrow> EqualFold t s"
  by (auto simp: EqualFold_def)

lemma hdr_set_keys [gw_simps]:
  "set (hdr_set nk k v hs) = {h \<in> set hs. nk (fst h) \<noteq> nk k} \<union> {(k, v)}"
  by (auto simp: hdr_set_def)

lemma hdr_set_preserves:
  "(\<forall>h \<in> set hs. P h) \<Longrightarrow> P (k, v) \<Longrightarrow> \<forall>h \<in> set (hdr_set nk k v hs). P h"
  by (auto simp: hdr_set_def)

lemma hdr_get_set [gw_simps]: "hdr_get nk k (hdr_set nk k v hs) = v"
proof -
  have "filter (\<lambda>(k', _). nk k' = nk k) (hdr_set nk k v hs) = [(k, v)]"
    by (induction hs) (auto simp: hdr_set_def)
  then show ?thesis by (simp add: hdr_get_def)
qed

lemma go_trunc_nonneg [gw_simps]: "0 \<le> x \<Longrightarrow> go_trunc x = \<lfloor>x\<rfloor>"
  by (simp add: go_trunc_def)

lemma go_div_pos [gw_simps]: "0 \<le> a \<Longrightarrow> 0 < b \<Longrightarrow> go_div a b = Some (a div b)"
  by (auto simp: go_div_def sgn_if)

lemma hdr_get_set_other [gw_simps]:
  assumes "nk k \<noteq> nk k'"
  shows "hdr_get nk k (hdr_set nk k' v hs) = hdr_get nk k hs"
proof -
  have "filter (\<lambda>(k'', _). nk k'' = nk k) (hdr_set nk k' v hs) = filter (\<lambda>(k'', _). nk k'' = nk k) hs"
    using assms by (induction hs) (auto simp: hdr_set_def)
  then show ?thesis by (simp add: hdr_get_def)
qed

text \<open>Updating the entries of one key in an association list, as a map.\<close>

lemma map_of_map_update_key [gw_simps]:
  "map_of (map (\<lambda>(n, s). if n = name then (n, f s) else (n, s)) xs) k =
   (if k = name then map_option f (map_of xs k) else map_of xs k)"
  by (induction xs) auto

lemma Split_ne [gw_simps]: "Split d s \<noteq> []"
  by (induction s) (auto split: list.splits)

end
