(* ===== verification/Router.thy ===== *)
theory Router
  imports GW_Prelude
begin

text \<open>
  The route table: the \<open>config.Route\<close> record of the routes document
  (\<open>src/Dockerfile\<close>, which holds the \<open>config\<close> package), the built-in
  \<open>DefaultRoutes\<close>, and the lookups of \<open>internal/router\<close>
  (\<open>src/unnamed/part_002\<close>): \<open>matchesPath\<close>, \<open>containsMethod\<close>,
  \<open>GetRouteForPath\<close>, \<open>IsPublicRoute\<close>, and the registration of routes with the
  HTTP framework in \<open>setupRoute\<close>. The lemmas show that path matching is the
  segment-boundary prefix match of the specification, that lookup is first match in
  declared order, that the public flag is read from the matched route, and what the
  registration produces.
\<close>

section \<open>Route records\<close>

record RouteLimit =
  RequestsPerSec :: int
  BurstSize :: int

record RetryConfig =
  MaxAttempts :: int
  WaitTime :: string

record CacheConfig =
  CacheEnabled :: bool
  CacheTTL :: string
  CacheMethods :: "string list"

record Route =
  Path :: string
  Service :: string
  StripPrefix :: bool
  Methods :: "string list"
  Public :: bool
  RateLimit :: "RouteLimit option"
  Timeout :: string
  CircuitBreaker :: bool
  Retry :: "RetryConfig option"
  Cache :: "CacheConfig option"

text \<open>A route literal of the routes document; omitted YAML fields take Go's zero values.\<close>

definition mk_route ::
  "string \<Rightarrow> string \<Rightarrow> string list \<Rightarrow> bool \<Rightarrow> bool \<Rightarrow> RouteLimit option \<Rightarrow> Route" where
  "mk_route p s ms pub cb rl =
     \<lparr>Path = p, Service = s, StripPrefix = False, Methods = ms, Public = pub,
      RateLimit = rl, Timeout = [], CircuitBreaker = cb, Retry = None, Cache = None\<rparr>"

definition DefaultRoutes :: "Route list" where
  "DefaultRoutes = [
     mk_route ''/api/v1/auth'' ''auth'' [''GET'', ''POST'', ''PUT'', ''DELETE'', ''PATCH''] False True None,
     mk_route ''/api/v1/auth/login'' ''auth'' [''POST''] True True
       (Some \<lparr>RequestsPerSec = 10, BurstSize = 20\<rparr>),
     mk_route ''/api/v1/auth/register'' ''auth'' [''POST''] True True
       (Some \<lparr>RequestsPerSec = 5, BurstSize = 10\<rparr>),
     mk_route ''/api/v1/auth/refresh'' ''auth'' [''POST''] True True None,
     mk_route ''/api/v1/auth/verify-email'' ''auth'' [''POST'', ''GET''] True True None,
     mk_route ''/api/v1/auth/forgot-password'' ''auth'' [''POST''] True True
       (Some \<lparr>RequestsPerSec = 3, BurstSize = 5\<rparr>),
     mk_route ''/api/v1/auth/reset-password'' ''auth'' [''POST''] True True None,
     mk_route ''/api/v1/users'' ''auth'' [''GET'', ''POST'', ''PUT'', ''DELETE'', ''PATCH''] False True None,
     mk_route ''/api/v1/roles'' ''auth'' [''GET'', ''POST'', ''PUT'', ''DELETE''] False True None,
     mk_route ''/api/v1/permissions'' ''auth'' [''GET'', ''POST'', ''PUT'', ''DELETE''] False True None,
     mk_route ''/api/v1/admin'' ''auth'' [''GET'', ''POST'', ''PUT'', ''DELETE'', ''PATCH''] False True None,
     mk_route ''/api/v1/notifications'' ''notifier'' [''GET'', ''POST'', ''PUT'', ''DELETE''] False True None,
     mk_route ''/api/v1/templates'' ''notifier'' [''GET'', ''POST'', ''PUT'', ''DELETE''] False True None,
     mk_route ''/api/v1/preferences'' ''notifier'' [''GET'', ''POST'', ''PUT'', ''DELETE''] False True None,
     mk_route ''/health'' ''gateway'' [''GET''] True False None,
     mk_route ''/ready'' ''gateway'' [''GET''] True False None,
     mk_route ''/metrics'' ''gateway'' [''GET''] True False None]"

section \<open>Lookup\<close>

definition matchesPath :: "string \<Rightarrow> string \<Rightarrow> bool" where
  "matchesPath requestPath routePath =
     (if requestPath = routePath then True
      else if HasPrefix requestPath routePath then
        (let remaining = TrimPrefix requestPath routePath
         in remaining = [] \<or> HasPrefix remaining ''/'')
      else False)"

fun containsMethod :: "string list \<Rightarrow> string \<Rightarrow> bool" where
  "containsMethod [] method = False"
| "containsMethod (m # ms) method = (EqualFold m method \<or> containsMethod ms method)"

text \<open>The condition both loops of the router test on each route.\<close>

definition route_matches :: "string \<Rightarrow> string \<Rightarrow> Route \<Rightarrow> bool" where
  "route_matches path method route \<longleftrightarrow>
     matchesPath path (Path route) \<and> containsMethod (Methods route) method"

fun GetRouteForPath :: "Route list \<Rightarrow> string \<Rightarrow> string \<Rightarrow> Route option" where
  "GetRouteForPath [] path method = None"
| "GetRouteForPath (route # routes) path method =
     (if route_matches path method route then Some route
      else GetRouteForPath routes path method)"

fun IsPublicRoute :: "Route list \<Rightarrow> string \<Rightarrow> string \<Rightarrow> bool" where
  "IsPublicRoute [] path method = False"
| "IsPublicRoute (route # routes) path method =
     (if route_matches path method route then Public route
      else IsPublicRoute routes path method)"

section \<open>Registration with the framework\<close>

text \<open>
  \<open>setupRoute\<close> registers each route under its exact path and under a wildcard
  pattern, once per supported method; a registration is the triple
  (method, pattern, route) handed to \<open>app.Get\<close>, \<open>app.Post\<close>, \<dots>
  The handler of the registration is \<open>createProxyHandler route\<close>.
\<close>

type_synonym registration = "string \<times> string \<times> Route"

definition supported_methods :: "string list" where
  "supported_methods = [''GET'', ''POST'', ''PUT'', ''DELETE'', ''PATCH'', ''OPTIONS'']"

definition register_method :: "string \<Rightarrow> Route \<Rightarrow> string \<Rightarrow> registration list" where
  "register_method pattern route method =
     (let m = ToUpper method in
      if m \<in> set supported_methods then [(m, pattern, route), (m, Path route, route)] else [])"

definition setupRoute :: "Route \<Rightarrow> registration list" where
  "setupRoute route =
     (if Service route = ''gateway'' then []
      else
        (let pattern = (if HasSuffix (Path route) ''*'' then Path route else Path route @ ''/*'')
         in concat (map (register_method pattern route) (Methods route))))"

definition SetupRoutes :: "Route list \<Rightarrow> registration list" where
  "SetupRoutes routes = concat (map setupRoute routes)"

text \<open>\<open>createProxyHandler\<close>: the prefix the proxy strips for this route.\<close>

definition strip_prefix_of :: "Route \<Rightarrow> string" where
  "strip_prefix_of route = (if StripPrefix route then Path route else [])"

section \<open>Lemmas\<close>

lemma GetRouteForPath_find:
  "GetRouteForPath routes path method = find (route_matches path method) routes"
  by (induction routes) auto

lemma IsPublicRoute_find:
  "IsPublicRoute routes path method =
     (case find (route_matches path method) routes of None \<Rightarrow> False | Some r \<Rightarrow> Public r)"
  by (induction routes) auto

lemma register_method_set:
  "set (register_method pattern route method) =
     (if ToUpper method \<in> set supported_methods
      then {(ToUpper method, pattern, route), (ToUpper method, Path route, route)} else {})"
  by (auto simp: register_method_def Let_def)

lemmas route_eval = DefaultRoutes_def mk_route_def route_matches_def matchesPath_def
  HasPrefix_def TrimPrefix_def EqualFold_def ascii_lower_def char_eval

section \<open>Properties\<close>

text \<open>
  C12: a request path matches a route path exactly when it equals it or continues it
  past a segment boundary: it is the route path followed by \<open>/\<close> and any rest
  (specification 4.1). A route \<open>/api\<close> matches \<open>/api/x\<close> but not \<open>/apix\<close>.
\<close>

theorem matchesPath_iff:
  "matchesPath requestPath routePath \<longleftrightarrow>
     requestPath = routePath \<or> (\<exists>rest. requestPath = routePath @ ''/'' @ rest)"
  by (auto simp: matchesPath_def gw_simps Let_def)

text \<open>
  Route lookup is first match in declared order: \<open>GetRouteForPath\<close> returns the
  route at position \<open>i\<close> exactly when that route matches the path and method and no
  earlier route does.
\<close>

lemma GetRouteForPath_first:
  "GetRouteForPath routes path method = Some r \<longleftrightarrow>
     (\<exists>i < length routes. routes ! i = r \<and> route_matches path method r \<and>
        (\<forall>j < i. \<not> route_matches path method (routes ! j)))"
  by (auto simp: GetRouteForPath_find find_Some_iff)

text \<open>
  C13: \<open>IsPublicRoute\<close> answers with the public flag of the route that
  \<open>GetRouteForPath\<close> resolves, and with false when no route matches: both loops
  of the router agree.
\<close>

theorem IsPublicRoute_GetRouteForPath:
  "IsPublicRoute routes path method =
     (case GetRouteForPath routes path method of None \<Rightarrow> False | Some r \<Rightarrow> Public r)"
  by (simp add: GetRouteForPath_find IsPublicRoute_find)


text \<open>
  \<open>setupRoute\<close> registers a route only when its service is not the gateway
  itself, and then exactly under its exact path and its wildcard pattern, for each
  listed method whose upper-case form is one of GET, POST, PUT, DELETE, PATCH, OPTIONS;
  other methods (HEAD, for instance) are dropped.
\<close>

lemma setupRoute_registrations:
  "(m, pat, r) \<in> set (setupRoute route) \<longleftrightarrow>
     Service route \<noteq> ''gateway'' \<and> r = route \<and> m \<in> set supported_methods \<and>
     (\<exists>x \<in> set (Methods route). ToUpper x = m) \<and>
     (pat = Path route \<or>
      pat = (if HasSuffix (Path route) ''*'' then Path route else Path route @ ''/*''))"
  by (auto simp: setupRoute_def register_method_set Let_def split: if_splits)

end
