(* ===== verification/Proxy.thy ===== *)
theory Proxy
  imports Router
begin

text \<open>
  The service proxy of \<open>internal/proxy\<close> (\<open>src/unnamed/part_001\<close>): the registry of
  upstream services (\<open>ServiceProxy\<close>, \<open>ServiceClient\<close>), \<open>Forward\<close> with its
  target URL, header copying without hop-by-hop headers and the forwarding headers, the
  health probe \<open>HealthCheck\<close> with \<open>setServiceHealth\<close>, one tick of
  \<open>StartHealthChecks\<close>, and \<open>GetServicesHealth\<close>. The HTTP client is not
  modelled: the outcome of \<open>Client.Do\<close> (a transport error or the upstream
  response) is a function of the request the proxy built, given as a parameter.
  Header keys are compared the way \<open>fasthttp\<close> stores them (\<open>normalizeHeaderKey\<close>)
  and hop-by-hop headers are recognised through \<open>http.CanonicalHeaderKey\<close>; both
  library functions are modelled from their documented behaviour.
\<close>

section \<open>Configuration and registry\<close>

record ServiceConfig =
  SC_URL :: string
  SC_Timeout :: nanos
  SC_MaxIdleConns :: int
  SC_MaxConnsPerHost :: int
  SC_HealthPath :: string

record ServicesConfig =
  AuthService :: ServiceConfig
  NotifierService :: ServiceConfig

text \<open>
  A \<open>ServiceClient\<close>; of its \<open>fasthttp.Client\<close> the model keeps the connection cap and
  the read/write timeout it is configured with.
\<close>

record ServiceClient =
  Name :: string
  URL :: string
  HealthPath :: string
  Healthy :: bool
  LastCheck :: "nanos option"
  MaxConnsPerHost :: int
  ClientTimeout :: nanos

text \<open>
  The Go map of services, as an association list with distinct keys; Go iterates it in
  an unspecified order, and no result below depends on the order of the list.
\<close>

record ServiceProxy =
  services :: "(string \<times> ServiceClient) list"

definition new_client :: "string \<Rightarrow> ServiceConfig \<Rightarrow> ServiceClient" where
  "new_client name sc =
     \<lparr>Name = name, URL = SC_URL sc, HealthPath = SC_HealthPath sc, Healthy = True,
      LastCheck = None, MaxConnsPerHost = SC_MaxConnsPerHost sc, ClientTimeout = SC_Timeout sc\<rparr>"

definition NewServiceProxy :: "ServicesConfig \<Rightarrow> ServiceProxy" where
  "NewServiceProxy cfg =
     \<lparr>services = [(''auth'', new_client ''auth'' (AuthService cfg)),
                 (''notifier'', new_client ''notifier'' (NotifierService cfg))]\<rparr>"

definition GetService :: "string \<Rightarrow> ServiceProxy \<Rightarrow> ServiceClient option" where
  "GetService name p = map_of (services p) name"

text \<open>
  A route fit for this registry (invariant I2 of the specification): its path is
  absolute, its service is a registered upstream or the reserved name \<open>gateway\<close>,
  and it lists at least one method, each of which \<open>setupRoute\<close> registers.
\<close>

definition route_wf :: "ServiceProxy \<Rightarrow> Route \<Rightarrow> bool" where
  "route_wf p r \<longleftrightarrow>
     HasPrefix (Path r) ''/'' \<and> (Service r = ''gateway'' \<or> Service r \<in> fst ` set (services p)) \<and>
     Methods r \<noteq> [] \<and> list_all (\<lambda>m. ToUpper m \<in> set supported_methods) (Methods r)"

section \<open>Header keys\<close>

text \<open>
  \<open>textproto.CanonicalMIMEHeaderKey\<close> (behind \<open>http.CanonicalHeaderKey\<close>): a key
  made of token bytes has its first letter and every letter after a hyphen upper-cased
  and the other letters lower-cased; a key with any other byte is returned unchanged.
\<close>

definition header_token_punct :: "nat list" where
  "header_token_punct = [33, 35, 36, 37, 38, 39, 42, 43, 45, 46, 94, 95, 96, 124, 126]"

definition validHeaderFieldByte :: "char \<Rightarrow> bool" where
  "validHeaderFieldByte c =
     (let n = (of_char c :: nat)
      in (48 \<le> n \<and> n \<le> 57) \<or> (65 \<le> n \<and> n \<le> 90) \<or> (97 \<le> n \<and> n \<le> 122) \<or>
         n \<in> set header_token_punct)"

fun canonical_chars :: "bool \<Rightarrow> string \<Rightarrow> string" where
  "canonical_chars upper [] = []"
| "canonical_chars upper (c # cs) =
     (let c' = (if upper then ascii_upper c else ascii_lower c)
      in c' # canonical_chars (c' = CHR ''-'') cs)"

definition CanonicalHeaderKey :: "string \<Rightarrow> string" where
  "CanonicalHeaderKey s = (if list_all validHeaderFieldByte s then canonical_chars True s else s)"

text \<open>
  \<open>fasthttp\<close>'s \<open>normalizeHeaderKey\<close>, applied to every key it stores and looks up:
  the first byte and the byte after each hyphen upper-cased, every other byte lower-cased.
\<close>

fun normalize_rest :: "string \<Rightarrow> string" where
  "normalize_rest [] = []"
| "normalize_rest (c # cs) =
     (if c = CHR ''-''
      then (case cs of [] \<Rightarrow> [c] | d # ds \<Rightarrow> c # ascii_upper d # normalize_rest ds)
      else ascii_lower c # normalize_rest cs)"

definition normalizeHeaderKey :: "string \<Rightarrow> string" where
  "normalizeHeaderKey k = (case k of [] \<Rightarrow> [] | c # cs \<Rightarrow> ascii_upper c # normalize_rest cs)"

definition hopByHopHeaders :: "string list" where
  "hopByHopHeaders = [''Connection'', ''Keep-Alive'', ''Proxy-Authenticate'', ''Proxy-Authorization'',
                      ''Te'', ''Trailers'', ''Transfer-Encoding'', ''Upgrade'']"

definition isHopByHopHeader :: "string \<Rightarrow> bool" where
  "isHopByHopHeader header = (CanonicalHeaderKey header \<in> set hopByHopHeaders)"

section \<open>Forwarding\<close>

text \<open>What \<open>Forward\<close> reads of the client request held by the \<open>fiber.Ctx\<close>.\<close>

record ClientRequest =
  rq_method :: string
  rq_path :: string
  rq_query :: string
  rq_headers :: headers
  rq_body :: string
  rq_ip :: string
  rq_host :: string
  rq_protocol :: string

record UpstreamRequest =
  up_uri :: string
  up_method :: string
  up_headers :: headers
  up_body :: string

record UpstreamResponse =
  ur_status :: int
  ur_headers :: headers
  ur_body :: string

text \<open>
  Response bodies: the JSON objects \<open>fiber.Map\<close> renders (the two of \<open>Forward\<close>, and
  any other as its list of fields with their values printed), a raw body, or none.
\<close>

datatype RespBody =
  JsonError string | JsonErrorDetails string string | JsonMap "(string \<times> string) list"
| RawBody string | NoBody

text \<open>The response written on the \<open>fiber.Ctx\<close>: status, headers, body.\<close>

record HttpResponse =
  hr_status :: int
  hr_headers :: headers
  hr_body :: RespBody

text \<open>\<open>c.Status(s).JSON(body)\<close> on a response that already carries \<open>hs\<close>.\<close>

definition json_response :: "int \<Rightarrow> RespBody \<Rightarrow> headers \<Rightarrow> HttpResponse" where
  "json_response s b hs =
     \<lparr>hr_status = s, hr_headers = hdr_set normalizeHeaderKey ''Content-Type'' ''application/json'' hs,
      hr_body = b\<rparr>"

text \<open>The upstream path: the prefix stripped, an empty result replaced by \<open>/\<close>.\<close>

definition forward_path :: "string \<Rightarrow> string \<Rightarrow> string" where
  "forward_path path stripPrefix =
     (if stripPrefix \<noteq> []
      then (let p = TrimPrefix path stripPrefix in if p = [] then ''/'' else p)
      else path)"

definition targetURL :: "string \<Rightarrow> string \<Rightarrow> string \<Rightarrow> string" where
  "targetURL base path queryString = base @ path @ (if queryString \<noteq> [] then ''?'' @ queryString else [])"

text \<open>\<open>VisitAll\<close> over a header list, skipping hop-by-hop keys and storing the others.\<close>

definition copy_headers :: "headers \<Rightarrow> headers \<Rightarrow> headers" where
  "copy_headers src dst =
     fold (\<lambda>(k, v) hs. if isHopByHopHeader k then hs else hdr_set normalizeHeaderKey k v hs) src dst"

definition forwarding_headers :: "ClientRequest \<Rightarrow> headers \<Rightarrow> headers \<Rightarrow> headers" where
  "forwarding_headers rq respHeaders hs =
     hdr_set normalizeHeaderKey ''X-Request-ID'' (hdr_get normalizeHeaderKey ''X-Request-ID'' respHeaders)
      (hdr_set normalizeHeaderKey ''X-Real-IP'' (rq_ip rq)
        (hdr_set normalizeHeaderKey ''X-Forwarded-Proto'' (rq_protocol rq)
          (hdr_set normalizeHeaderKey ''X-Forwarded-Host'' (rq_host rq)
            (hdr_set normalizeHeaderKey ''X-Forwarded-For'' (rq_ip rq) hs))))"

definition build_upstream :: "ServiceClient \<Rightarrow> string \<Rightarrow> ClientRequest \<Rightarrow> headers \<Rightarrow> UpstreamRequest" where
  "build_upstream svc stripPrefix rq respHeaders =
     (let path = forward_path (rq_path rq) stripPrefix
      in \<lparr>up_uri = targetURL (URL svc) path (rq_query rq), up_method = rq_method rq,
          up_headers = forwarding_headers rq respHeaders (copy_headers (rq_headers rq) []),
          up_body = (if rq_body rq \<noteq> [] then rq_body rq else [])\<rparr>)"

text \<open>
  \<open>ServiceProxy.Forward\<close>. \<open>respHeaders\<close> are the response headers set by the
  middleware before the handler ran; \<open>do\<close> is the outcome of \<open>svc.Client.Do\<close>
  on the request built. The result is the response and the upstream request, if one
  was sent.
\<close>

definition Forward ::
  "ServiceProxy \<Rightarrow> string \<Rightarrow> string \<Rightarrow> ClientRequest \<Rightarrow> headers \<Rightarrow>
   (UpstreamRequest \<Rightarrow> string + UpstreamResponse) \<Rightarrow> HttpResponse \<times> UpstreamRequest option" where
  "Forward p serviceName stripPrefix rq respHeaders do =
     (case GetService serviceName p of
        None \<Rightarrow> (json_response 502 (JsonError (''service '' @ serviceName @ '' not found'')) respHeaders, None)
      | Some svc \<Rightarrow>
          if \<not> Healthy svc
          then (json_response 503 (JsonError (''service '' @ serviceName @ '' is unavailable'')) respHeaders, None)
          else
            (let req = build_upstream svc stripPrefix rq respHeaders
             in case do req of
                  Inl err \<Rightarrow>
                    (json_response 502 (JsonErrorDetails ''upstream request failed'' err) respHeaders, Some req)
                | Inr resp \<Rightarrow>
                    (\<lparr>hr_status = ur_status resp, hr_headers = copy_headers (ur_headers resp) respHeaders,
                      hr_body = RawBody (ur_body resp)\<rparr>, Some req)))"

section \<open>Health probing\<close>

definition setServiceHealth :: "string \<Rightarrow> bool \<Rightarrow> nanos \<Rightarrow> ServiceProxy \<Rightarrow> ServiceProxy" where
  "setServiceHealth name healthy now p =
     p\<lparr>services := map (\<lambda>(n, svc). if n = name then (n, svc\<lparr>Healthy := healthy, LastCheck := Some now\<rparr>)
                                   else (n, svc)) (services p)\<rparr>"

definition health_request :: "ServiceClient \<Rightarrow> UpstreamRequest" where
  "health_request svc = \<lparr>up_uri = URL svc @ HealthPath svc, up_method = ''GET'', up_headers = [], up_body = []\<rparr>"

text \<open>
  \<open>ServiceProxy.HealthCheck\<close>; \<open>probe\<close> is the outcome of \<open>Client.DoTimeout\<close>
  with its 5 s deadline (a timeout is a transport error).
\<close>

definition HealthCheck ::
  "string \<Rightarrow> (UpstreamRequest \<Rightarrow> string + UpstreamResponse) \<Rightarrow> nanos \<Rightarrow> ServiceProxy \<Rightarrow> bool \<times> ServiceProxy" where
  "HealthCheck serviceName probe now p =
     (case GetService serviceName p of
        None \<Rightarrow> (False, p)
      | Some svc \<Rightarrow>
          (case probe (health_request svc) of
             Inl err \<Rightarrow> (False, setServiceHealth serviceName False now p)
           | Inr resp \<Rightarrow>
               (let healthy = (200 \<le> ur_status resp \<and> ur_status resp < 300)
                in (healthy, setServiceHealth serviceName healthy now p))))"

text \<open>One tick of the \<open>StartHealthChecks\<close> goroutine: every service probed in turn.\<close>

definition health_tick ::
  "(UpstreamRequest \<Rightarrow> string + UpstreamResponse) \<Rightarrow> (string \<Rightarrow> nanos) \<Rightarrow> ServiceProxy \<Rightarrow> ServiceProxy" where
  "health_tick probe clock p =
     fold (\<lambda>name q. snd (HealthCheck name probe (clock name) q)) (map fst (services p)) p"

definition GetServicesHealth :: "ServiceProxy \<Rightarrow> (string \<times> bool) list" where
  "GetServicesHealth p = map (\<lambda>(n, svc). (n, Healthy svc)) (services p)"

text \<open>The verdict of \<open>HealthCheck\<close> on the outcome of a probe.\<close>

abbreviation probe_verdict :: "string + UpstreamResponse \<Rightarrow> bool" where
  "probe_verdict r \<equiv> (case r of Inl _ \<Rightarrow> False | Inr resp \<Rightarrow> 200 \<le> ur_status resp \<and> ur_status resp < 300)"

section \<open>Sample values\<close>

text \<open>
  The default service configuration of \<open>config.Load\<close>, and a client request that
  carries a hop-by-hop header and a forged \<open>X-Forwarded-For\<close>.
\<close>

definition demo_services :: ServicesConfig where
  "demo_services =
     \<lparr>AuthService = \<lparr>SC_URL = ''http://localhost:5000'', SC_Timeout = 30 * second, SC_MaxIdleConns = 100,
                     SC_MaxConnsPerHost = 100, SC_HealthPath = ''/api/health''\<rparr>,
      NotifierService = \<lparr>SC_URL = ''http://localhost:5001'', SC_Timeout = 30 * second, SC_MaxIdleConns = 100,
                         SC_MaxConnsPerHost = 100, SC_HealthPath = ''/api/health''\<rparr>\<rparr>"

definition demo_request :: ClientRequest where
  "demo_request =
     \<lparr>rq_method = ''POST'', rq_path = ''/api/v1/notifications/42'', rq_query = ''a=1'',
      rq_headers = [(''connection'', ''keep-alive''), (''X-Forwarded-For'', ''6.6.6.6''),
                    (''Content-Type'', ''application/json'')],
      rq_body = ''{}'', rq_ip = ''10.0.0.7'', rq_host = ''gw.example'', rq_protocol = ''https''\<rparr>"

definition demo_upstream :: "UpstreamRequest \<Rightarrow> string + UpstreamResponse" where
  "demo_upstream req =
     Inr \<lparr>ur_status = 201, ur_headers = [(''Transfer-Encoding'', ''chunked''), (''X-Svc'', ''notifier'')],
          ur_body = ''created''\<rparr>"

text \<open>\<open>ServiceProxy.Close\<close>: the fasthttp client needs no clean-up; it returns \<open>nil\<close>.\<close>

definition proxy_Close :: "ServiceProxy \<Rightarrow> string option" where
  "proxy_Close p = None"

section \<open>Lemmas\<close>

lemma copy_headers_subset:
  "set (copy_headers src dst) \<subseteq> set dst \<union> {h \<in> set src. \<not> isHopByHopHeader (fst h)}"
proof (induction src arbitrary: dst)
  case Nil
  then show ?case by (simp add: copy_headers_def)
next
  case (Cons h src)
  obtain k v where h: "h = (k, v)" by fastforce
  let ?d = "if isHopByHopHeader k then dst else hdr_set normalizeHeaderKey k v dst"
  have step: "copy_headers (h # src) dst = copy_headers src ?d" by (simp add: copy_headers_def h)
  have "set ?d \<subseteq> set dst \<union> {h' \<in> set (h # src). \<not> isHopByHopHeader (fst h')}"
    by (auto simp: hdr_set_keys h)
  then show ?case using Cons.IH [of ?d] step by auto
qed

lemma forwarding_keys_not_hop:
  "\<not> isHopByHopHeader ''X-Forwarded-For'' \<and> \<not> isHopByHopHeader ''X-Forwarded-Host'' \<and>
   \<not> isHopByHopHeader ''X-Forwarded-Proto'' \<and> \<not> isHopByHopHeader ''X-Real-IP'' \<and>
   \<not> isHopByHopHeader ''X-Request-ID'' \<and> \<not> isHopByHopHeader ''Content-Type''"
  by code_simp

lemma forwarding_keys_distinct:
  "distinct (map normalizeHeaderKey
     [''X-Forwarded-For'', ''X-Forwarded-Host'', ''X-Forwarded-Proto'', ''X-Real-IP'', ''X-Request-ID''])"
  by code_simp

lemma forwarding_headers_subset:
  "set (forwarding_headers rq rh hs) \<subseteq>
     set hs \<union> {(''X-Forwarded-For'', rq_ip rq), (''X-Forwarded-Host'', rq_host rq),
              (''X-Forwarded-Proto'', rq_protocol rq), (''X-Real-IP'', rq_ip rq),
              (''X-Request-ID'', hdr_get normalizeHeaderKey ''X-Request-ID'' rh)}"
  by (auto simp: forwarding_headers_def hdr_set_keys)

lemma build_upstream_no_hop:
  "h \<in> set (up_headers (build_upstream svc strip rq rh)) \<Longrightarrow> \<not> isHopByHopHeader (fst h)"
  using forwarding_headers_subset [of rq rh "copy_headers (rq_headers rq) []"]
        copy_headers_subset [of "rq_headers rq" "[]"] forwarding_keys_not_hop
  by (auto simp: build_upstream_def Let_def)

lemma build_upstream_forwarding:
  "hdr_get normalizeHeaderKey ''X-Forwarded-For'' (up_headers (build_upstream svc strip rq rh)) = rq_ip rq \<and>
   hdr_get normalizeHeaderKey ''X-Real-IP'' (up_headers (build_upstream svc strip rq rh)) = rq_ip rq \<and>
   hdr_get normalizeHeaderKey ''X-Forwarded-Host'' (up_headers (build_upstream svc strip rq rh)) = rq_host rq \<and>
   hdr_get normalizeHeaderKey ''X-Forwarded-Proto'' (up_headers (build_upstream svc strip rq rh)) = rq_protocol rq \<and>
   hdr_get normalizeHeaderKey ''X-Request-ID'' (up_headers (build_upstream svc strip rq rh)) =
     hdr_get normalizeHeaderKey ''X-Request-ID'' rh"
  using forwarding_keys_distinct
  by (simp add: build_upstream_def Let_def forwarding_headers_def hdr_get_set hdr_get_set_other)

lemma json_response_headers:
  "set (hr_headers (json_response s b hs)) \<subseteq> set hs \<union> {(''Content-Type'', ''application/json'')}"
  by (auto simp: json_response_def hdr_set_keys)

lemma Forward_cases:
  "Forward p name strip rq rh do = (resp, req) \<Longrightarrow>
   (\<exists>s b. resp = json_response s b rh \<and> (req = None \<or> req = Some (build_upstream (the (GetService name p)) strip rq rh))) \<or>
   (\<exists>svc r. GetService name p = Some svc \<and> req = Some (build_upstream svc strip rq rh) \<and>
            do (build_upstream svc strip rq rh) = Inr r \<and>
            resp = \<lparr>hr_status = ur_status r, hr_headers = copy_headers (ur_headers r) rh, hr_body = RawBody (ur_body r)\<rparr>)"
  by (auto simp: Forward_def Let_def split: option.splits if_splits sum.splits)

lemma GetService_setServiceHealth [gw_simps]:
  "GetService n (setServiceHealth name h t p) =
   (if n = name then map_option (\<lambda>s. s\<lparr>Healthy := h, LastCheck := Some t\<rparr>) (GetService n p)
    else GetService n p)"
  by (simp add: GetService_def setServiceHealth_def map_of_map_update_key)

lemma health_request_update [simp]:
  "health_request (s\<lparr>Healthy := h, LastCheck := t\<rparr>) = health_request s"
  by (simp add: health_request_def)

lemma HealthCheck_Some:
  "GetService name p = Some svc \<Longrightarrow>
   HealthCheck name probe now p =
     (probe_verdict (probe (health_request svc)),
      setServiceHealth name (probe_verdict (probe (health_request svc))) now p)"
  by (simp add: HealthCheck_def Let_def split: sum.split)

lemma HealthCheck_None: "GetService name p = None \<Longrightarrow> HealthCheck name probe now p = (False, p)"
  by (simp add: HealthCheck_def)

lemma setServiceHealth_keys [simp]:
  "map fst (services (setServiceHealth name h t p)) = map fst (services p)"
  unfolding setServiceHealth_def by (induction "services p") auto

lemma fold_HealthCheck:
  assumes "distinct (map fst (services q))"
  shows "services (fold (\<lambda>name q. snd (HealthCheck name probe (clock name) q)) ns q) =
         map (\<lambda>(n, s). if n \<in> set ns
                      then (n, s\<lparr>Healthy := probe_verdict (probe (health_request s)), LastCheck := Some (clock n)\<rparr>)
                      else (n, s)) (services q)"
  using assms
proof (induction ns arbitrary: q)
  case Nil
  then show ?case by simp
next
  case (Cons a ns)
  show ?case
  proof (cases "GetService a q")
    case None
    then have "a \<notin> fst ` set (services q)" by (simp add: GetService_def map_of_eq_None_iff)
    then show ?thesis
      using Cons.IH [OF Cons.prems] None by (auto simp: HealthCheck_None image_iff intro!: map_cong)
  next
    case (Some svc)
    let ?q = "setServiceHealth a (probe_verdict (probe (health_request svc))) (clock a) q"
    have d: "distinct (map fst (services ?q))" using Cons.prems by simp
    have svc: "\<And>s. (a, s) \<in> set (services q) \<Longrightarrow> s = svc"
      using Some Cons.prems by (simp add: GetService_def)
    show ?thesis
      using Cons.IH [OF d] svc Some
      by (auto simp: HealthCheck_Some setServiceHealth_def intro!: map_cong)
  qed
qed

section \<open>Properties\<close>

text \<open>
  C22: hop-by-hop isolation (spec I5 and 8.2). The request \<open>Forward\<close> sends upstream
  carries no hop-by-hop header, whatever the client sent, and every hop-by-hop header of
  the response was already on it before \<open>Forward\<close> ran: none is copied from upstream.
\<close>

theorem Forward_hop_by_hop_isolation:
  assumes "Forward p name strip rq rh do = (resp, req)"
  shows "(\<forall>r \<in> set_option req. \<forall>h \<in> set (up_headers r). \<not> isHopByHopHeader (fst h)) \<and>
         (\<forall>h \<in> set (hr_headers resp). isHopByHopHeader (fst h) \<longrightarrow> h \<in> set rh)"
proof
  show "\<forall>r \<in> set_option req. \<forall>h \<in> set (up_headers r). \<not> isHopByHopHeader (fst h)"
    using Forward_cases [OF assms] build_upstream_no_hop by fastforce
  show "\<forall>h \<in> set (hr_headers resp). isHopByHopHeader (fst h) \<longrightarrow> h \<in> set rh"
    using Forward_cases [OF assms] json_response_headers copy_headers_subset forwarding_keys_not_hop
    by fastforce
qed

text \<open>
  C23: forwarding headers. The request sent upstream carries \<open>X-Forwarded-For\<close> and
  \<open>X-Real-IP\<close> equal to the client address, \<open>X-Forwarded-Host\<close> and
  \<open>X-Forwarded-Proto\<close> from the client connection, and the \<open>X-Request-ID\<close> already
  set on the response, whatever values of these headers the client sent.
\<close>

theorem Forward_forwarding_headers:
  assumes "snd (Forward p name strip rq rh do) = Some req"
  shows "hdr_get normalizeHeaderKey ''X-Forwarded-For'' (up_headers req) = rq_ip rq \<and>
         hdr_get normalizeHeaderKey ''X-Real-IP'' (up_headers req) = rq_ip rq \<and>
         hdr_get normalizeHeaderKey ''X-Forwarded-Host'' (up_headers req) = rq_host rq \<and>
         hdr_get normalizeHeaderKey ''X-Forwarded-Proto'' (up_headers req) = rq_protocol rq \<and>
         hdr_get normalizeHeaderKey ''X-Request-ID'' (up_headers req) =
           hdr_get normalizeHeaderKey ''X-Request-ID'' rh"
proof -
  obtain svc where req: "req = build_upstream svc strip rq rh"
    using assms by (auto simp: Forward_def Let_def split: option.splits if_splits sum.splits)
  then show ?thesis by (simp add: build_upstream_forwarding)
qed

text \<open>
  C25: prefix stripping is exact. For a route that strips its prefix and matches the
  request path, the path sent upstream starts with \<open>/\<close>, and appending it to the route
  path gives back the request path (or the request path is the route path itself and
  \<open>/\<close> is sent).
\<close>

theorem forward_path_strip_roundtrip:
  assumes "matchesPath path (Path route)" and "StripPrefix route" and "Path route \<noteq> []"
  shows "HasPrefix (forward_path path (strip_prefix_of route)) ''/'' \<and>
         (path = Path route \<and> forward_path path (strip_prefix_of route) = ''/'' \<or>
          path = Path route @ forward_path path (strip_prefix_of route))"
proof -
  have "path = Path route \<or> (\<exists>rest. path = Path route @ ''/'' @ rest)"
    using assms(1) by (auto simp: matchesPath_def gw_simps Let_def split: if_splits)
  then show ?thesis
  proof
    assume "path = Path route"
    then show ?thesis using assms(2,3) by (simp add: forward_path_def strip_prefix_of_def gw_simps)
  next
    assume "\<exists>rest. path = Path route @ ''/'' @ rest"
    then obtain rest where "path = Path route @ ''/'' @ rest" by blast
    then show ?thesis using assms(2,3) by (simp add: forward_path_def strip_prefix_of_def gw_simps)
  qed
qed

text \<open>
  A health probe records its verdict (spec 4.3): the service is healthy iff the probe
  returned a status in \<open>[200, 300)\<close>, a transport error or timeout is unhealthy, the
  verdict is written to the registry, and no other service is touched.
\<close>

lemma HealthCheck_verdict:
  assumes "GetService name p = Some svc"
  shows "fst (HealthCheck name probe now p) =
           (case probe (health_request svc) of Inl _ \<Rightarrow> False
            | Inr r \<Rightarrow> 200 \<le> ur_status r \<and> ur_status r < 300) \<and>
         map_option Healthy (GetService name (snd (HealthCheck name probe now p))) =
           Some (fst (HealthCheck name probe now p)) \<and>
         (\<forall>n. n \<noteq> name \<longrightarrow> GetService n (snd (HealthCheck name probe now p)) = GetService n p)"
  using assms
  by (auto simp: HealthCheck_def GetService_setServiceHealth Let_def split: sum.splits)

text \<open>
  One tick of the prober refreshes every service. After \<open>health_tick\<close> each
  service's \<open>Healthy\<close> flag is the verdict of its own probe, whatever the order of
  the map iteration, and \<open>LastCheck\<close> is the time of that probe.
\<close>

theorem health_tick_refreshes:
  assumes "distinct (map fst (services p))"
  shows "services (health_tick probe clock p) =
           map (\<lambda>(n, s). (n, s\<lparr>Healthy := probe_verdict (probe (health_request s)),
                              LastCheck := Some (clock n)\<rparr>)) (services p)"
proof -
  have "services (health_tick probe clock p) =
          map (\<lambda>(n, s). if n \<in> set (map fst (services p))
                       then (n, s\<lparr>Healthy := probe_verdict (probe (health_request s)),
                                  LastCheck := Some (clock n)\<rparr>)
                       else (n, s)) (services p)"
    unfolding health_tick_def by (rule fold_HealthCheck [OF assms])
  then show ?thesis by (auto intro!: map_cong simp: image_iff) (metis fst_conv)
qed

section \<open>Instances\<close>

theorem Forward_hop_by_hop_isolation_witness:
  "snd (Forward (NewServiceProxy demo_services) ''notifier'' [] demo_request [] demo_upstream) \<noteq> None \<and>
   list_all (\<lambda>h. \<not> isHopByHopHeader (fst h))
     (up_headers (the (snd (Forward (NewServiceProxy demo_services) ''notifier'' [] demo_request [] demo_upstream))))"
proof -
  let ?F = "Forward (NewServiceProxy demo_services) ''notifier'' [] demo_request [] demo_upstream"
  have s: "snd ?F = Some (the (snd ?F))"
    by (simp add: Forward_def GetService_def NewServiceProxy_def new_client_def demo_upstream_def Let_def)
  then obtain r where r: "snd ?F = Some r" by blast
  have "\<forall>h \<in> set (up_headers r). \<not> isHopByHopHeader (fst h)"
    using Forward_hop_by_hop_isolation [OF prod.collapse [symmetric]] r by fastforce
  then show ?thesis using r by (simp add: list_all_iff)
qed

theorem Forward_forwarding_headers_witness:
  "hdr_get normalizeHeaderKey ''X-Forwarded-For''
     (up_headers (the (snd (Forward (NewServiceProxy demo_services) ''notifier'' [] demo_request
                                    [(''X-Request-ID'', ''r-1'')] demo_upstream)))) = ''10.0.0.7'' \<and>
   hdr_get normalizeHeaderKey ''X-Request-ID''
     (up_headers (the (snd (Forward (NewServiceProxy demo_services) ''notifier'' [] demo_request
                                    [(''X-Request-ID'', ''r-1'')] demo_upstream)))) = ''r-1''"
proof -
  let ?F = "Forward (NewServiceProxy demo_services) ''notifier'' [] demo_request [(''X-Request-ID'', ''r-1'')] demo_upstream"
  have "snd ?F = Some (the (snd ?F))"
    by (simp add: Forward_def GetService_def NewServiceProxy_def new_client_def demo_upstream_def Let_def)
  from Forward_forwarding_headers [OF this] show ?thesis
    by (simp add: demo_request_def hdr_get_def)
qed

theorem forward_path_strip_roundtrip_witness:
  "forward_path ''/api/v1/notifications/42'' (strip_prefix_of ((DefaultRoutes ! 11)\<lparr>StripPrefix := True\<rparr>)) = ''/42'' \<and>
   HasPrefix (forward_path ''/api/v1/notifications/42'' (strip_prefix_of ((DefaultRoutes ! 11)\<lparr>StripPrefix := True\<rparr>))) ''/''"
proof -
  let ?r = "(DefaultRoutes ! 11)\<lparr>StripPrefix := True\<rparr>"
  have m: "matchesPath ''/api/v1/notifications/42'' (Path ?r)"
    by (simp add: route_eval)
  have "Path ?r \<noteq> []" by (simp add: DefaultRoutes_def mk_route_def)
  with m have "HasPrefix (forward_path ''/api/v1/notifications/42'' (strip_prefix_of ?r)) ''/''"
    using forward_path_strip_roundtrip [of "''/api/v1/notifications/42''" ?r] by simp
  moreover have "forward_path ''/api/v1/notifications/42'' (strip_prefix_of ?r) = ''/42''"
    by (simp add: forward_path_def strip_prefix_of_def DefaultRoutes_def mk_route_def TrimPrefix_def HasPrefix_def)
  ultimately show ?thesis by simp
qed

theorem health_tick_refreshes_witness:
  "map (\<lambda>(n, s). (n, Healthy s))
     (services (health_tick (\<lambda>r. if up_uri r = ''http://localhost:5000/api/health'' then Inl ''timeout''
                                  else Inr \<lparr>ur_status = 200, ur_headers = [], ur_body = []\<rparr>)
                            (\<lambda>_. 9) (NewServiceProxy demo_services))) =
   [(''auth'', False), (''notifier'', True)]"
proof -
  have "distinct (map fst (services (NewServiceProxy demo_services)))" by (simp add: NewServiceProxy_def)
  from health_tick_refreshes [OF this] show ?thesis
    by (simp add: NewServiceProxy_def new_client_def demo_services_def health_request_def)
qed


end
