(* ===== verification/Middleware.thy ===== *)
theory Middleware
  imports Proxy
begin

text \<open>
  The request middlewares of \<open>internal/middleware/auth.go\<close> and
  \<open>internal/middleware/logging.go\<close>. The per-request context (\<open>c.Locals\<close>, the
  request and response headers) is the record \<open>ReqCtx\<close>, with one field per key
  the sources use. A middleware that may answer by itself returns a \<open>StageResult\<close>:
  either the context it hands to \<open>c.Next()\<close> or the response it writes. The JWT
  library call (\<open>jwt.ParseWithClaims\<close> with the HMAC key function) is a parameter;
  the checks the repository makes around it are modelled.
\<close>

section \<open>Request context\<close>

record Claims =
  UserID :: string
  TenantID :: string
  Email :: string
  Roles :: "string list"
  ExpiresAt :: "nanos option"

record ReqCtx =
  cx_req :: ClientRequest
  cx_hostname :: string
  cx_resp_headers :: headers
  cx_request_id :: "string option"
  cx_user :: "Claims option"
  cx_user_id :: "string option"
  cx_tenant_id :: "string option"
  cx_service :: "string option"
  cx_route :: "Route option"
  cx_is_public :: "bool option"

text \<open>A request as it enters the application: no context value is set yet.\<close>

definition new_ctx :: "ClientRequest \<Rightarrow> string \<Rightarrow> ReqCtx" where
  "new_ctx rq hostname =
     \<lparr>cx_req = rq, cx_hostname = hostname, cx_resp_headers = [], cx_request_id = None, cx_user = None,
      cx_user_id = None, cx_tenant_id = None, cx_service = None, cx_route = None, cx_is_public = None\<rparr>"

text \<open>\<open>c.Get\<close>, \<open>c.Request().Header.Set\<close> and \<open>c.Set\<close>.\<close>

definition ctx_get :: "string \<Rightarrow> ReqCtx \<Rightarrow> string" where
  "ctx_get k c = hdr_get normalizeHeaderKey k (rq_headers (cx_req c))"

definition req_set :: "string \<Rightarrow> string \<Rightarrow> ReqCtx \<Rightarrow> ReqCtx" where
  "req_set k v c = c\<lparr>cx_req := (cx_req c)\<lparr>rq_headers := hdr_set normalizeHeaderKey k v (rq_headers (cx_req c))\<rparr>\<rparr>"

definition resp_set :: "string \<Rightarrow> string \<Rightarrow> ReqCtx \<Rightarrow> ReqCtx" where
  "resp_set k v c = c\<lparr>cx_resp_headers := hdr_set normalizeHeaderKey k v (cx_resp_headers c)\<rparr>"

datatype StageResult = Next ReqCtx | Respond HttpResponse ReqCtx

text \<open>\<open>c.Status(s).JSON(fiber.Map{...})\<close> from a middleware.\<close>

definition respond_json :: "int \<Rightarrow> (string \<times> string) list \<Rightarrow> ReqCtx \<Rightarrow> StageResult" where
  "respond_json s body c = Respond (json_response s (JsonMap body) (cx_resp_headers c)) c"

section \<open>Authentication (auth.go)\<close>

record AuthConfig =
  JWTSecret :: string
  PublicPaths :: "string \<rightharpoonup> string list"
  HeaderName :: string
  TokenPrefix :: string
  ContextKey :: string
  SkipPrefixes :: "string list"

definition DefaultAuthConfig :: "string \<Rightarrow> AuthConfig" where
  "DefaultAuthConfig secret =
     \<lparr>JWTSecret = secret, PublicPaths = Map.empty, HeaderName = ''Authorization'',
      TokenPrefix = ''Bearer '', ContextKey = ''user'',
      SkipPrefixes = [''/health'', ''/ready'', ''/live'', ''/metrics'']\<rparr>"

text \<open>
  \<open>NewAuthMiddleware\<close>: every public route contributes its path and methods; a later
  route with the same path overwrites an earlier one, as the map assignment does.
\<close>

definition NewAuthMiddleware :: "string \<Rightarrow> Route list \<Rightarrow> AuthConfig" where
  "NewAuthMiddleware secret routes =
     (let authCfg = DefaultAuthConfig secret
      in authCfg\<lparr>PublicPaths :=
           fold (\<lambda>route m. if Public route then m(Path route \<mapsto> Methods route) else m) routes
                (PublicPaths authCfg)\<rparr>)"

text \<open>
  What \<open>jwt.ParseWithClaims\<close> returns for a token and a secret: an error (malformed,
  bad signature, a signing method other than HMAC, or a time claim out of range), or
  the claims with the token's \<open>Valid\<close> flag.
\<close>

type_synonym jwt_parser = "string \<Rightarrow> string \<Rightarrow> string + (Claims \<times> bool)"

definition validateToken :: "jwt_parser \<Rightarrow> string \<Rightarrow> string \<Rightarrow> nanos \<Rightarrow> string + Claims" where
  "validateToken parse tokenString secret now =
     (case parse tokenString secret of
        Inl _ \<Rightarrow> Inl ''Invalid token''
      | Inr (claims, valid) \<Rightarrow>
          if \<not> valid then Inl ''Invalid token claims''
          else (case ExpiresAt claims of
                  Some e \<Rightarrow> if e < now then Inl ''Token expired'' else Inr claims
                | None \<Rightarrow> Inr claims))"

definition unauthorized :: "string \<Rightarrow> ReqCtx \<Rightarrow> StageResult" where
  "unauthorized msg c = respond_json 401 [(''error'', ''unauthorized''), (''message'', msg)] c"

definition Auth :: "AuthConfig \<Rightarrow> jwt_parser \<Rightarrow> nanos \<Rightarrow> ReqCtx \<Rightarrow> StageResult" where
  "Auth cfg parse now c =
     (let path = rq_path (cx_req c); method = rq_method (cx_req c)
      in if list_ex (\<lambda>prefix. HasPrefix path prefix) (SkipPrefixes cfg) then Next c
      else if cx_is_public c = Some True then Next c
      else if (case PublicPaths cfg path of
                 Some methods \<Rightarrow> list_ex (\<lambda>m. EqualFold m method) methods
               | None \<Rightarrow> False) then Next c
      else
        (let authHeader = ctx_get (HeaderName cfg) c
         in if authHeader = [] then unauthorized ''Missing authorization header'' c
         else
           (let tokenString = TrimPrefix authHeader (TokenPrefix cfg)
            in if tokenString = authHeader then unauthorized ''Invalid authorization format'' c
            else
              (case validateToken parse tokenString (JWTSecret cfg) now of
                 Inl err \<Rightarrow> unauthorized err c
               | Inr claims \<Rightarrow>
                   (let c1 = c\<lparr>cx_user := Some claims, cx_user_id := Some (UserID claims),
                               cx_tenant_id := Some (TenantID claims)\<rparr>;
                        c2 = req_set ''X-User-Email'' (Email claims)
                               (req_set ''X-Tenant-ID'' (TenantID claims)
                                 (req_set ''X-User-ID'' (UserID claims) c1));
                        c3 = (if Roles claims \<noteq> [] then req_set ''X-User-Roles'' (Join (Roles claims) '','') c2
                              else c2)
                    in Next c3)))))"

definition RequireRoles :: "string list \<Rightarrow> ReqCtx \<Rightarrow> StageResult" where
  "RequireRoles roles c =
     (case cx_user c of
        None \<Rightarrow> unauthorized ''No user context found'' c
      | Some claims \<Rightarrow>
          if list_ex (\<lambda>requiredRole. list_ex (\<lambda>userRole. EqualFold requiredRole userRole) (Roles claims)) roles
          then Next c
          else respond_json 403 [(''error'', ''forbidden''), (''message'', ''Insufficient permissions'')] c)"

definition TenantExtractor :: "ReqCtx \<Rightarrow> ReqCtx" where
  "TenantExtractor c =
     (let tenantID = (case cx_tenant_id c of Some tid \<Rightarrow> tid | None \<Rightarrow> []);
          tenantID = (if tenantID = [] then ctx_get ''X-Tenant-ID'' c else tenantID);
          tenantID = (if tenantID = [] then
                        (let parts = Split CHR ''.'' (cx_hostname c)
                         in if 3 \<le> length parts then hd parts else tenantID)
                      else tenantID)
      in if tenantID \<noteq> [] then req_set ''X-Tenant-ID'' tenantID (c\<lparr>cx_tenant_id := Some tenantID\<rparr>) else c)"

section \<open>Logging and request hygiene (logging.go)\<close>

record SimpleLogger =
  lg_level :: string
  lg_format :: string

text \<open>\<open>shouldLog\<close>: the \<open>levels\<close> map; a name it does not hold reads as 0.\<close>

definition level_rank :: "string \<Rightarrow> int" where
  "level_rank l =
     (if l = ''debug'' then 0 else if l = ''info'' then 1 else if l = ''warn'' then 2
      else if l = ''error'' then 3 else 0)"

definition shouldLog :: "SimpleLogger \<Rightarrow> string \<Rightarrow> bool" where
  "shouldLog l level \<longleftrightarrow> level_rank level \<ge> level_rank (lg_level l)"

datatype LogLevel = LogDebug | LogInfo | LogWarn | LogError

definition level_name :: "LogLevel \<Rightarrow> string" where
  "level_name lv = (case lv of LogDebug \<Rightarrow> ''debug'' | LogInfo \<Rightarrow> ''info'' | LogWarn \<Rightarrow> ''warn''
                            | LogError \<Rightarrow> ''error'')"

record LogEvent =
  ev_level :: LogLevel
  ev_msg :: string
  ev_fields :: "(string \<times> string) list"

text \<open>\<open>Debug\<close>, \<open>Info\<close>, \<open>Warn\<close>, \<open>Error\<close>: the events written to standard output.\<close>

definition emit :: "SimpleLogger \<Rightarrow> LogEvent \<Rightarrow> LogEvent list" where
  "emit l e = (if shouldLog l (level_name (ev_level e)) then [e] else [])"

text \<open>\<open>RequestLogger\<close>: the level chosen from the final status.\<close>

definition request_log_level :: "int \<Rightarrow> LogLevel" where
  "request_log_level status =
     (if status \<ge> 500 then LogError else if status \<ge> 400 then LogWarn else LogInfo)"

text \<open>
  The event \<open>RequestLogger\<close> emits once \<open>c.Next()\<close> has returned, from the context as
  the rest of the chain left it; a context value that is not set reads as \<open>""\<close>.
\<close>

definition RequestLogger_event :: "ReqCtx \<Rightarrow> int \<Rightarrow> int \<Rightarrow> LogEvent" where
  "RequestLogger_event c status duration_ms =
     \<lparr>ev_level = request_log_level status, ev_msg = ''HTTP Request'',
      ev_fields = [(''method'', rq_method (cx_req c)), (''path'', rq_path (cx_req c)),
                   (''status'', Itoa status), (''duration_ms'', Itoa duration_ms),
                   (''ip'', rq_ip (cx_req c)), (''request_id'', case_option [] id (cx_request_id c)),
                   (''user_id'', case_option [] id (cx_user_id c)),
                   (''tenant_id'', case_option [] id (cx_tenant_id c)),
                   (''service'', case_option [] id (cx_service c)),
                   (''user_agent'', ctx_get ''User-Agent'' c)]\<rparr>"

text \<open>The error a handler returns: a \<open>*fiber.Error\<close> with its code, or any other error.\<close>

datatype GoError = FiberError int string | OtherError string

definition error_text :: "GoError \<Rightarrow> string" where
  "error_text e = (case e of FiberError _ msg \<Rightarrow> msg | OtherError msg \<Rightarrow> msg)"

definition ErrorLogger :: "ReqCtx \<Rightarrow> GoError \<Rightarrow> LogEvent \<times> HttpResponse" where
  "ErrorLogger c err =
     (let requestID = case_option [] id (cx_request_id c);
          code = (case err of FiberError code _ \<Rightarrow> code | OtherError _ \<Rightarrow> 500)
      in (\<lparr>ev_level = LogError, ev_msg = ''Request error'',
           ev_fields = [(''error'', error_text err), (''status'', Itoa code), (''path'', rq_path (cx_req c)),
                        (''method'', rq_method (cx_req c)), (''request_id'', requestID),
                        (''ip'', rq_ip (cx_req c))]\<rparr>,
          json_response code (JsonMap [(''error'', ''error''), (''message'', error_text err),
                                       (''request_id'', requestID)]) (cx_resp_headers c)))"

text \<open>\<open>RequestID\<close>; \<open>uuid\<close> is the value \<open>uuid.New().String()\<close> returns.\<close>

definition RequestID :: "string \<Rightarrow> ReqCtx \<Rightarrow> ReqCtx" where
  "RequestID uuid c =
     (let requestID = ctx_get ''X-Request-ID'' c;
          requestID = (if requestID = [] then uuid else requestID)
      in (resp_set ''X-Request-ID'' requestID c)\<lparr>cx_request_id := Some requestID\<rparr>)"

definition SecurityHeaders :: "ReqCtx \<Rightarrow> ReqCtx" where
  "SecurityHeaders c =
     resp_set ''Server'' []
      (resp_set ''Permissions-Policy'' ''geolocation=(), microphone=(), camera=()''
        (resp_set ''Content-Security-Policy'' (''default-src '' @ [CHR 0x27] @ ''self'' @ [CHR 0x27])
          (resp_set ''Referrer-Policy'' ''strict-origin-when-cross-origin''
            (resp_set ''X-XSS-Protection'' ''1; mode=block''
              (resp_set ''X-Frame-Options'' ''DENY''
                (resp_set ''X-Content-Type-Options'' ''nosniff'' c))))))"

definition CORS :: "string list \<Rightarrow> ReqCtx \<Rightarrow> StageResult" where
  "CORS allowedOrigins c =
     (let origin = ctx_get ''Origin'' c;
          c1 = (if origin \<noteq> [] \<and> (allowedOrigins = [] \<or> origin \<in> set allowedOrigins \<or> ''*'' \<in> set allowedOrigins)
                then resp_set ''Access-Control-Allow-Credentials'' ''true''
                       (resp_set ''Access-Control-Allow-Origin'' origin c)
                else c)
      in if rq_method (cx_req c1) = ''OPTIONS''
         then (let c2 = resp_set ''Access-Control-Max-Age'' ''86400''
                          (resp_set ''Access-Control-Allow-Headers''
                             ''Origin, Content-Type, Accept, Authorization, X-Request-ID, X-Tenant-ID''
                             (resp_set ''Access-Control-Allow-Methods'' ''GET, POST, PUT, PATCH, DELETE, OPTIONS'' c1))
               in Respond \<lparr>hr_status = 204, hr_headers = cx_resp_headers c2, hr_body = NoBody\<rparr> c2)
         else Next c1)"

definition ContentType :: "ReqCtx \<Rightarrow> StageResult" where
  "ContentType c =
     (let method = rq_method (cx_req c)
      in if (method = ''POST'' \<or> method = ''PUT'' \<or> method = ''PATCH'') \<and>
            ctx_get ''Content-Type'' c = [] \<and> rq_body (cx_req c) \<noteq> []
         then respond_json 415 [(''error'', ''unsupported_media_type''),
                                (''message'', ''Content-Type header is required for request body'')] c
         else Next c)"

text \<open>
  \<open>Recover\<close> of \<open>logging.go\<close>, given what \<open>c.Next()\<close> did: returned (with the response
  it left) or panicked. The application installs Fiber's own recovery middleware instead;
  see the pipeline.
\<close>

definition Recover :: "(string + HttpResponse) \<Rightarrow> ReqCtx \<Rightarrow> HttpResponse" where
  "Recover next c =
     (case next of
        Inr resp \<Rightarrow> resp
      | Inl _ \<Rightarrow> json_response 500 (JsonMap [(''error'', ''internal_server_error''),
                                            (''message'', ''An unexpected error occurred''),
                                            (''request_id'', case_option [] id (cx_request_id c))])
                   (cx_resp_headers c))"

section \<open>Sample values\<close>

text \<open>
  Claims without roles, and a request to a protected route that carries a bearer token,
  a request id and a forged \<open>X-User-Roles\<close> header.
\<close>

definition demo_claims :: Claims where
  "demo_claims = \<lparr>UserID = ''u-1'', TenantID = ''t-1'', Email = ''u1@example.com'', Roles = [], ExpiresAt = None\<rparr>"

definition demo_auth_request :: ClientRequest where
  "demo_auth_request =
     \<lparr>rq_method = ''GET'', rq_path = ''/api/v1/users'', rq_query = [],
      rq_headers = [(''Authorization'', ''Bearer tok''), (''X-User-Roles'', ''admin''), (''X-Request-ID'', ''abc'')],
      rq_body = [], rq_ip = ''10.0.0.7'', rq_host = ''gw.example'', rq_protocol = ''https''\<rparr>"

section \<open>Lemmas\<close>

lemma new_ctx_sel [simp]:
  "cx_req (new_ctx rq h) = rq" "cx_hostname (new_ctx rq h) = h" "cx_resp_headers (new_ctx rq h) = []"
  "cx_request_id (new_ctx rq h) = None" "cx_user (new_ctx rq h) = None" "cx_user_id (new_ctx rq h) = None"
  "cx_tenant_id (new_ctx rq h) = None" "cx_service (new_ctx rq h) = None" "cx_route (new_ctx rq h) = None"
  "cx_is_public (new_ctx rq h) = None"
  by (simp_all add: new_ctx_def)

lemma ctx_get_new_ctx [simp]: "ctx_get k (new_ctx rq h) = hdr_get normalizeHeaderKey k (rq_headers rq)"
  by (simp add: ctx_get_def)

lemma ctx_get_resp_set [simp]: "ctx_get k (resp_set k' v c) = ctx_get k c"
  by (simp add: ctx_get_def resp_set_def)

lemma resp_set_req [simp]: "cx_req (resp_set k v c) = cx_req c"
  by (simp add: resp_set_def)

lemma ContentType_pass:
  "rq_method (cx_req c) \<notin> {''POST'', ''PUT'', ''PATCH''} \<Longrightarrow> ContentType c = Next c"
  by (simp add: ContentType_def Let_def)

lemma CORS_pass:
  "rq_method (cx_req c) \<noteq> ''OPTIONS'' \<Longrightarrow> \<exists>c'. CORS origins c = Next c'"
  by (simp add: CORS_def Let_def)

lemma ctx_get_req_set:
  "ctx_get k (req_set k' v c) =
     (if normalizeHeaderKey k = normalizeHeaderKey k' then v else ctx_get k c)"
proof -
  have "normalizeHeaderKey k = normalizeHeaderKey k' \<Longrightarrow>
        hdr_get normalizeHeaderKey k (hdr_set normalizeHeaderKey k' v hs) = v" for hs
    by (induction hs) (auto simp: hdr_get_def hdr_set_def)
  then show ?thesis by (simp add: ctx_get_def req_set_def hdr_get_set_other)
qed

lemma ctx_get_locals_update [simp]:
  "ctx_get k (c\<lparr>cx_user := a\<rparr>) = ctx_get k c"
  "ctx_get k (c\<lparr>cx_user_id := b\<rparr>) = ctx_get k c"
  "ctx_get k (c\<lparr>cx_tenant_id := t\<rparr>) = ctx_get k c"
  by (simp_all add: ctx_get_def)

lemma req_set_locals [simp]:
  "cx_user (req_set k v c) = cx_user c"
  "cx_user_id (req_set k v c) = cx_user_id c"
  by (simp_all add: req_set_def)

lemma user_header_keys_distinct:
  "distinct (map normalizeHeaderKey [''X-User-ID'', ''X-Tenant-ID'', ''X-User-Email'', ''X-User-Roles''])"
  by code_simp

lemma Auth_Next_cases:
  assumes "Auth cfg parse now c = Next c'"
  shows "c' = c \<and>
           (list_ex (\<lambda>prefix. HasPrefix (rq_path (cx_req c)) prefix) (SkipPrefixes cfg) \<or>
            cx_is_public c = Some True \<or>
            (\<exists>methods. PublicPaths cfg (rq_path (cx_req c)) = Some methods \<and>
                       list_ex (\<lambda>m. EqualFold m (rq_method (cx_req c))) methods)) \<or>
         (\<exists>claims. validateToken parse (TrimPrefix (ctx_get (HeaderName cfg) c) (TokenPrefix cfg)) (JWTSecret cfg) now
                     = Inr claims \<and>
                   (let c1 = c\<lparr>cx_user := Some claims, cx_user_id := Some (UserID claims),
                               cx_tenant_id := Some (TenantID claims)\<rparr>;
                        c2 = req_set ''X-User-Email'' (Email claims)
                               (req_set ''X-Tenant-ID'' (TenantID claims) (req_set ''X-User-ID'' (UserID claims) c1))
                    in c' = (if Roles claims \<noteq> [] then req_set ''X-User-Roles'' (Join (Roles claims) '','') c2 else c2)))"
  using assms
  by (auto simp: Auth_def Let_def unauthorized_def respond_json_def split: if_splits sum.splits option.splits)

section \<open>Properties\<close>

text \<open>
  C30: authentication guards every other path (spec 4.6). When \<open>Auth\<close> hands a
  request on and the context does not mark it public, its path has a skip prefix, or it
  is a configured public path with a listed method, or the bearer token validated: then
  the claims are in the context and \<open>X-User-ID\<close> on the upstream request is the
  token's user.
\<close>

theorem Auth_requires_token:
  assumes "Auth cfg parse now c = Next c'" and "cx_is_public c \<noteq> Some True"
  shows "list_ex (\<lambda>prefix. HasPrefix (rq_path (cx_req c)) prefix) (SkipPrefixes cfg) \<or>
         (\<exists>methods. PublicPaths cfg (rq_path (cx_req c)) = Some methods \<and>
                    list_ex (\<lambda>m. EqualFold m (rq_method (cx_req c))) methods) \<or>
         (\<exists>claims. validateToken parse (TrimPrefix (ctx_get (HeaderName cfg) c) (TokenPrefix cfg)) (JWTSecret cfg) now
                     = Inr claims \<and>
                   cx_user c' = Some claims \<and> cx_user_id c' = Some (UserID claims) \<and>
                   ctx_get ''X-User-ID'' c' = UserID claims)"
  using Auth_Next_cases [OF assms(1)] assms(2) user_header_keys_distinct
  by (auto simp: Let_def ctx_get_req_set)

text \<open>
  C31: a client-supplied \<open>X-User-Roles\<close> survives authentication. When the token
  carries no roles, \<open>Auth\<close> overwrites \<open>X-User-ID\<close> but leaves whatever
  \<open>X-User-Roles\<close> header the client sent, which \<open>Forward\<close> then copies upstream.
\<close>

theorem Auth_keeps_client_roles_header:
  assumes "Auth cfg parse now c = Next c'" and "cx_user c = None"
    and "cx_user c' = Some claims" and "Roles claims = []"
  shows "ctx_get ''X-User-Roles'' c' = ctx_get ''X-User-Roles'' c \<and> ctx_get ''X-User-ID'' c' = UserID claims"
  using Auth_Next_cases [OF assms(1)] assms(2-4) user_header_keys_distinct
  by (auto simp: Let_def ctx_get_req_set)

section \<open>Instances\<close>

lemma demo_auth_facts:
  "ctx_get ''Authorization'' (new_ctx demo_auth_request ''gw.example'') = ''Bearer tok''"
  "ctx_get ''X-User-Roles'' (new_ctx demo_auth_request ''gw.example'') = ''admin''"
  "\<not> list_ex (\<lambda>prefix. HasPrefix ''/api/v1/users'' prefix) (SkipPrefixes (DefaultAuthConfig s))"
  "TrimPrefix ''Bearer tok'' ''Bearer '' = ''tok''"
  by code_simp+

theorem Auth_requires_token_witness:
  "\<exists>c'. Auth (DefaultAuthConfig ''s'') (\<lambda>_ _. Inr (demo_claims, True)) 0 (new_ctx demo_auth_request ''gw.example'')
          = Next c' \<and> cx_user c' = Some demo_claims \<and> ctx_get ''X-User-ID'' c' = ''u-1''"
proof -
  let ?c = "new_ctx demo_auth_request ''gw.example''"
  have v: "validateToken (\<lambda>_ _. Inr (demo_claims, True)) t s 0 = Inr demo_claims" for t s
    by (simp add: validateToken_def demo_claims_def)
  have "\<exists>c'. Auth (DefaultAuthConfig ''s'') (\<lambda>_ _. Inr (demo_claims, True)) 0 ?c = Next c'"
    using demo_auth_facts
    by (simp add: Auth_def Let_def v) (simp add: DefaultAuthConfig_def new_ctx_def demo_auth_request_def)
  then obtain c' where a: "Auth (DefaultAuthConfig ''s'') (\<lambda>_ _. Inr (demo_claims, True)) 0 ?c = Next c'" by blast
  have np: "cx_is_public ?c \<noteq> Some True" by (simp add: new_ctx_def)
  have pub: "PublicPaths (DefaultAuthConfig ''s'') (rq_path (cx_req ?c)) = None"
    by (simp add: DefaultAuthConfig_def)
  have "rq_path (cx_req ?c) = ''/api/v1/users''" by (simp add: new_ctx_def demo_auth_request_def)
  then show ?thesis using Auth_requires_token [OF a np] demo_auth_facts(3) pub v a by (auto simp: demo_claims_def)
qed

theorem Auth_keeps_client_roles_header_witness:
  "\<exists>c'. Auth (DefaultAuthConfig ''s'') (\<lambda>_ _. Inr (demo_claims, True)) 0 (new_ctx demo_auth_request ''gw.example'')
          = Next c' \<and> ctx_get ''X-User-Roles'' c' = ''admin''"
proof -
  let ?c = "new_ctx demo_auth_request ''gw.example''"
  have v: "validateToken (\<lambda>_ _. Inr (demo_claims, True)) t s 0 = Inr demo_claims" for t s
    by (simp add: validateToken_def demo_claims_def)
  have "\<exists>c'. Auth (DefaultAuthConfig ''s'') (\<lambda>_ _. Inr (demo_claims, True)) 0 ?c = Next c' \<and>
              cx_user c' = Some demo_claims"
    using demo_auth_facts
    by (simp add: Auth_def Let_def v) (simp add: DefaultAuthConfig_def new_ctx_def demo_auth_request_def demo_claims_def)
  then obtain c' where a: "Auth (DefaultAuthConfig ''s'') (\<lambda>_ _. Inr (demo_claims, True)) 0 ?c = Next c'"
    and u: "cx_user c' = Some demo_claims" by blast
  have "cx_user ?c = None" and "Roles demo_claims = []" by (simp_all add: new_ctx_def demo_claims_def)
  then show ?thesis using Auth_keeps_client_roles_header [OF a _ u] demo_auth_facts(2) a by auto
qed

end
