(* ===== verification/Breaker.thy ===== *)
theory Breaker
  imports Router
begin

text \<open>
  The per-service circuit breaker. \<open>src/internal/middleware/circuit.go\<close> builds one
  \<open>gobreaker.CircuitBreaker\<close> per upstream service and drives it from its
  middleware; the breaker itself is the \<open>sony/gobreaker\<close> library, which is not part
  of the repository and is modelled here from its documented behaviour (the state
  table of specification 4.4): the breaker state, its \<open>uint32\<close> counters as
  \<open>32 word\<close>, the generation counter as \<open>64 word\<close>, and its operations
  \<open>toNewGeneration\<close>, \<open>setState\<close>, \<open>currentState\<close>, \<open>beforeRequest\<close>,
  \<open>afterRequest\<close> and \<open>Execute\<close>. From \<open>circuit.go\<close> come the
  \<open>ReadyToTrip\<close> closure, the manager with its lazy breaker creation
  (\<open>GetBreaker\<close>, \<open>GetState\<close>, \<open>GetAllStates\<close>) and the middleware.
  Time is the monotonic clock in nanoseconds; the zero \<open>time.Time\<close> of an unset
  expiry is \<open>None\<close>.
\<close>

section \<open>Breaker state (gobreaker)\<close>

datatype State = StateClosed | StateHalfOpen | StateOpen

definition State_String :: "State \<Rightarrow> string" where
  "State_String s =
     (case s of StateClosed \<Rightarrow> ''closed'' | StateHalfOpen \<Rightarrow> ''half-open'' | StateOpen \<Rightarrow> ''open'')"

datatype cb_error = ErrOpenState | ErrTooManyRequests

record Counts =
  Requests :: "32 word"
  TotalSuccesses :: "32 word"
  TotalFailures :: "32 word"
  ConsecutiveSuccesses :: "32 word"
  ConsecutiveFailures :: "32 word"

definition counts_zero :: Counts where
  "counts_zero = \<lparr>Requests = 0, TotalSuccesses = 0, TotalFailures = 0,
                  ConsecutiveSuccesses = 0, ConsecutiveFailures = 0\<rparr>"

definition onRequest :: "Counts \<Rightarrow> Counts" where
  "onRequest c = c\<lparr>Requests := Requests c + 1\<rparr>"

definition onSuccess :: "Counts \<Rightarrow> Counts" where
  "onSuccess c = c\<lparr>TotalSuccesses := TotalSuccesses c + 1,
                   ConsecutiveSuccesses := ConsecutiveSuccesses c + 1,
                   ConsecutiveFailures := 0\<rparr>"

definition onFailure :: "Counts \<Rightarrow> Counts" where
  "onFailure c = c\<lparr>TotalFailures := TotalFailures c + 1,
                   ConsecutiveFailures := ConsecutiveFailures c + 1,
                   ConsecutiveSuccesses := 0\<rparr>"

record Settings =
  SName :: string
  SMaxRequests :: "32 word"
  SInterval :: int
  STimeout :: int
  SReadyToTrip :: "Counts \<Rightarrow> bool"

record CircuitBreaker =
  cb_name :: string
  maxRequests :: "32 word"
  interval :: nat
  timeout :: nat
  readyToTrip :: "Counts \<Rightarrow> bool"
  state :: State
  generation :: "64 word"
  counts :: Counts
  expiry :: "nat option"

definition defaultTimeout :: nat where
  "defaultTimeout = 60 * 1000000000"

definition toNewGeneration :: "nat \<Rightarrow> CircuitBreaker \<Rightarrow> CircuitBreaker" where
  "toNewGeneration now cb =
     cb\<lparr>generation := generation cb + 1, counts := counts_zero,
        expiry := (case state cb of
                     StateClosed \<Rightarrow> (if interval cb = 0 then None else Some (now + interval cb))
                   | StateOpen \<Rightarrow> Some (now + timeout cb)
                   | StateHalfOpen \<Rightarrow> None)\<rparr>"

definition setState :: "State \<Rightarrow> nat \<Rightarrow> CircuitBreaker \<Rightarrow> CircuitBreaker" where
  "setState st now cb = (if state cb = st then cb else toNewGeneration now (cb\<lparr>state := st\<rparr>))"

text \<open>\<open>expiry.Before(now)\<close>; the zero time is before every reading of the clock.\<close>

definition expired :: "nat option \<Rightarrow> nat \<Rightarrow> bool" where
  "expired e now = (case e of None \<Rightarrow> True | Some t \<Rightarrow> t < now)"

definition currentState :: "nat \<Rightarrow> CircuitBreaker \<Rightarrow> CircuitBreaker" where
  "currentState now cb =
     (case state cb of
        StateClosed \<Rightarrow> (if expiry cb \<noteq> None \<and> expired (expiry cb) now
                        then toNewGeneration now cb else cb)
      | StateOpen \<Rightarrow> (if expired (expiry cb) now then setState StateHalfOpen now cb else cb)
      | StateHalfOpen \<Rightarrow> cb)"

definition NewCircuitBreaker :: "Settings \<Rightarrow> nat \<Rightarrow> CircuitBreaker" where
  "NewCircuitBreaker st now =
     toNewGeneration now
       \<lparr>cb_name = SName st,
        maxRequests = (if SMaxRequests st = 0 then 1 else SMaxRequests st),
        interval = (if SInterval st \<le> 0 then 0 else nat (SInterval st)),
        timeout = (if STimeout st \<le> 0 then defaultTimeout else nat (STimeout st)),
        readyToTrip = SReadyToTrip st,
        state = StateClosed, generation = 0, counts = counts_zero, expiry = None\<rparr>"

definition beforeRequest :: "nat \<Rightarrow> CircuitBreaker \<Rightarrow> (cb_error + 64 word) \<times> CircuitBreaker" where
  "beforeRequest now cb0 =
     (let cb = currentState now cb0 in
      if state cb = StateOpen then (Inl ErrOpenState, cb)
      else if state cb = StateHalfOpen \<and> maxRequests cb \<le> Requests (counts cb)
      then (Inl ErrTooManyRequests, cb)
      else (Inr (generation cb), cb\<lparr>counts := onRequest (counts cb)\<rparr>))"

definition breaker_onSuccess :: "State \<Rightarrow> nat \<Rightarrow> CircuitBreaker \<Rightarrow> CircuitBreaker" where
  "breaker_onSuccess st now cb =
     (case st of
        StateClosed \<Rightarrow> cb\<lparr>counts := onSuccess (counts cb)\<rparr>
      | StateHalfOpen \<Rightarrow>
          (let cb' = cb\<lparr>counts := onSuccess (counts cb)\<rparr>
           in if maxRequests cb' \<le> ConsecutiveSuccesses (counts cb')
              then setState StateClosed now cb' else cb')
      | StateOpen \<Rightarrow> cb)"

definition breaker_onFailure :: "State \<Rightarrow> nat \<Rightarrow> CircuitBreaker \<Rightarrow> CircuitBreaker" where
  "breaker_onFailure st now cb =
     (case st of
        StateClosed \<Rightarrow>
          (let cb' = cb\<lparr>counts := onFailure (counts cb)\<rparr>
           in if readyToTrip cb' (counts cb') then setState StateOpen now cb' else cb')
      | StateHalfOpen \<Rightarrow> setState StateOpen now cb
      | StateOpen \<Rightarrow> cb)"

definition afterRequest :: "64 word \<Rightarrow> bool \<Rightarrow> nat \<Rightarrow> CircuitBreaker \<Rightarrow> CircuitBreaker" where
  "afterRequest before success now cb0 =
     (let cb = currentState now cb0 in
      if generation cb \<noteq> before then cb
      else if success then breaker_onSuccess (state cb) now cb
      else breaker_onFailure (state cb) now cb)"

text \<open>
  What the protected call does: return \<open>nil\<close>, return an error, or panic. gobreaker's
  default \<open>IsSuccessful\<close> counts exactly the \<open>nil\<close> return as a success; on a
  panic it records a failure and re-raises the panic.
\<close>

datatype ReqOutcome = ReqOk | ReqErr | ReqPanic

datatype ExecResult = ExecBreakerErr cb_error | ExecReturned bool | ExecPanicked

definition Execute :: "nat \<Rightarrow> nat \<Rightarrow> ReqOutcome \<Rightarrow> CircuitBreaker \<Rightarrow> ExecResult \<times> CircuitBreaker" where
  "Execute t0 t1 out cb =
     (case beforeRequest t0 cb of
        (Inl e, cb1) \<Rightarrow> (ExecBreakerErr e, cb1)
      | (Inr g, cb1) \<Rightarrow>
          (case out of
             ReqOk \<Rightarrow> (ExecReturned False, afterRequest g True t1 cb1)
           | ReqErr \<Rightarrow> (ExecReturned True, afterRequest g False t1 cb1)
           | ReqPanic \<Rightarrow> (ExecPanicked, afterRequest g False t1 cb1)))"

text \<open>A sequence of calls, one after the other: start time, end time, outcome.\<close>

fun run_calls :: "(nat \<times> nat \<times> ReqOutcome) list \<Rightarrow> CircuitBreaker \<Rightarrow> CircuitBreaker" where
  "run_calls [] cb = cb"
| "run_calls ((t0, t1, out) # calls) cb = run_calls calls (snd (Execute t0 t1 out cb))"

section \<open>The manager (circuit.go)\<close>

record CircuitConfig =
  CEnabled :: bool
  CMaxRequests :: "32 word"
  CInterval :: int
  CTimeout :: int
  CFailureThreshold :: "32 word"

text \<open>
  \<open>float64(TotalFailures) / float64(Requests) >= 0.5\<close>. Both counters are below
  \<open>2^32\<close>, so the quotient of the floats is the exact quotient rounded once, and
  \<open>0.5\<close> is a float: the comparison holds exactly when \<open>2 * failures \<ge> requests\<close>.
  With \<open>Requests = 0\<close> the quotient is NaN (no failures) or \<open>+Inf\<close>.
\<close>

definition failure_ratio_at_least_half :: "32 word \<Rightarrow> 32 word \<Rightarrow> bool" where
  "failure_ratio_at_least_half failures requests =
     (if requests = 0 then failures \<noteq> 0 else unat requests \<le> 2 * unat failures)"

definition managerReadyToTrip :: "CircuitConfig \<Rightarrow> Counts \<Rightarrow> bool" where
  "managerReadyToTrip cfg c \<longleftrightarrow>
     CFailureThreshold cfg \<le> Requests c \<and>
     failure_ratio_at_least_half (TotalFailures c) (Requests c)"

definition breaker_settings :: "CircuitConfig \<Rightarrow> string \<Rightarrow> Settings" where
  "breaker_settings cfg serviceName =
     \<lparr>SName = serviceName, SMaxRequests = CMaxRequests cfg, SInterval = CInterval cfg,
      STimeout = CTimeout cfg, SReadyToTrip = managerReadyToTrip cfg\<rparr>"

record CircuitBreakerManager =
  breakers :: "string \<rightharpoonup> CircuitBreaker"
  mgr_cfg :: CircuitConfig

definition NewCircuitBreakerManager :: "CircuitConfig \<Rightarrow> CircuitBreakerManager" where
  "NewCircuitBreakerManager cfg = \<lparr>breakers = Map.empty, mgr_cfg = cfg\<rparr>"

text \<open>
  \<open>GetBreaker\<close> reads the map under the read lock and, on a miss, looks again under
  the write lock before it creates the breaker. Run alone, both reads see the same map,
  so the two lookups are one.
\<close>

definition GetBreaker ::
  "string \<Rightarrow> nat \<Rightarrow> CircuitBreakerManager \<Rightarrow> CircuitBreaker \<times> CircuitBreakerManager" where
  "GetBreaker serviceName now m =
     (case breakers m serviceName of
        Some cb \<Rightarrow> (cb, m)
      | None \<Rightarrow>
          (let cb = NewCircuitBreaker (breaker_settings (mgr_cfg m) serviceName) now
           in (cb, m\<lparr>breakers := (breakers m)(serviceName \<mapsto> cb)\<rparr>)))"

text \<open>\<open>cb.State()\<close> evaluates \<open>currentState\<close>, which may move an open breaker on.\<close>

definition GetState :: "string \<Rightarrow> nat \<Rightarrow> CircuitBreakerManager \<Rightarrow> State \<times> CircuitBreakerManager" where
  "GetState serviceName now m =
     (case breakers m serviceName of
        None \<Rightarrow> (StateClosed, m)
      | Some cb \<Rightarrow>
          (let cb' = currentState now cb
           in (state cb', m\<lparr>breakers := (breakers m)(serviceName \<mapsto> cb')\<rparr>)))"

definition GetAllStates ::
  "nat \<Rightarrow> CircuitBreakerManager \<Rightarrow> (string \<rightharpoonup> string) \<times> CircuitBreakerManager" where
  "GetAllStates now m =
     (let bs = (\<lambda>n. map_option (currentState now) (breakers m n))
      in (\<lambda>n. map_option (State_String \<circ> state) (bs n), m\<lparr>breakers := bs\<rparr>))"

section \<open>The middleware (circuit.go)\<close>

text \<open>
  What \<open>c.Next()\<close> left behind: the response status, whether it returned an error,
  and whether it panicked. The closure given to \<open>Execute\<close> turns a status of 500 or
  more into an error.
\<close>

record NextResult =
  nr_status :: int
  nr_err :: bool
  nr_panic :: bool

definition req_outcome :: "NextResult \<Rightarrow> ReqOutcome" where
  "req_outcome nr =
     (if nr_panic nr then ReqPanic
      else if 500 \<le> nr_status nr then ReqErr
      else if nr_err nr then ReqErr else ReqOk)"

datatype CbOutcome = CbSkipped | CbRan | CbRejected string | CbPanicked

definition cb_Middleware ::
  "CircuitBreakerManager \<Rightarrow> string option \<Rightarrow> Route option \<Rightarrow> nat \<Rightarrow> nat \<Rightarrow> NextResult
   \<Rightarrow> CbOutcome \<times> CircuitBreakerManager" where
  "cb_Middleware m service route t0 t1 nr =
     (if \<not> CEnabled (mgr_cfg m) then (CbSkipped, m)
      else case service of
        None \<Rightarrow> (CbSkipped, m)
      | Some serviceName \<Rightarrow>
          (if serviceName = [] \<or> serviceName = ''gateway'' then (CbSkipped, m)
           else if (case route of Some r \<Rightarrow> \<not> CircuitBreaker r | None \<Rightarrow> False) then (CbSkipped, m)
           else
             (let (cb, m1) = GetBreaker serviceName t0 m;
                  (res, cb') = Execute t0 t1 (req_outcome nr) cb;
                  m2 = m1\<lparr>breakers := (breakers m1)(serviceName \<mapsto> cb')\<rparr>
              in (case res of
                    ExecBreakerErr ErrOpenState \<Rightarrow> (CbRejected ''service_unavailable'', m2)
                  | ExecBreakerErr ErrTooManyRequests \<Rightarrow> (CbRejected ''too_many_requests'', m2)
                  | ExecReturned _ \<Rightarrow> (CbRan, m2)
                  | ExecPanicked \<Rightarrow> (CbPanicked, m2)))))"

section \<open>Invariant and fixtures\<close>

text \<open>
  The breaker invariant: at least one probe is admitted in half-open; an open breaker
  has an expiry; a half-open breaker has none, has admitted at most \<open>maxRequests\<close>
  probes, has seen fewer than \<open>maxRequests\<close> consecutive successes and no failure.
\<close>

definition cb_inv :: "CircuitBreaker \<Rightarrow> bool" where
  "cb_inv cb \<longleftrightarrow> maxRequests cb \<noteq> 0 \<and>
     (state cb = StateOpen \<longrightarrow> expiry cb \<noteq> None) \<and>
     (state cb = StateHalfOpen \<longrightarrow>
        expiry cb = None \<and> Requests (counts cb) \<le> maxRequests cb \<and>
        ConsecutiveSuccesses (counts cb) < maxRequests cb \<and> TotalFailures (counts cb) = 0)"

text \<open>A closed breaker whose counting window has not yet run out at \<open>t\<close>.\<close>

definition within_window :: "CircuitBreaker \<Rightarrow> nat \<Rightarrow> bool" where
  "within_window cb t \<longleftrightarrow> (case expiry cb of None \<Rightarrow> True | Some e \<Rightarrow> t \<le> e)"

text \<open>
  The circuit settings of \<open>config.Load\<close> when no environment variable overrides
  them, and a small configuration used by the examples below.
\<close>

definition default_circuit_config :: CircuitConfig where
  "default_circuit_config =
     \<lparr>CEnabled = True, CMaxRequests = 5, CInterval = 60 * 1000000000,
      CTimeout = 30 * 1000000000, CFailureThreshold = 5\<rparr>"

definition demo_cfg :: CircuitConfig where
  "demo_cfg = \<lparr>CEnabled = True, CMaxRequests = 1, CInterval = 0, CTimeout = 10,
                CFailureThreshold = 1\<rparr>"

section \<open>Lemmas\<close>

lemma toNewGeneration_fields [simp]:
  "state (toNewGeneration now cb) = state cb"
  "maxRequests (toNewGeneration now cb) = maxRequests cb"
  "timeout (toNewGeneration now cb) = timeout cb"
  "interval (toNewGeneration now cb) = interval cb"
  "readyToTrip (toNewGeneration now cb) = readyToTrip cb"
  "cb_name (toNewGeneration now cb) = cb_name cb"
  "counts (toNewGeneration now cb) = counts_zero"
  by (simp_all add: toNewGeneration_def)

lemma counts_zero_fields [simp]:
  "Requests counts_zero = 0" "TotalSuccesses counts_zero = 0" "TotalFailures counts_zero = 0"
  "ConsecutiveSuccesses counts_zero = 0" "ConsecutiveFailures counts_zero = 0"
  by (simp_all add: counts_zero_def)

lemma currentState_fields [simp]:
  "maxRequests (currentState now cb) = maxRequests cb"
  "timeout (currentState now cb) = timeout cb"
  "interval (currentState now cb) = interval cb"
  "readyToTrip (currentState now cb) = readyToTrip cb"
  "cb_name (currentState now cb) = cb_name cb"
  by (auto simp: currentState_def setState_def split: State.splits)

lemma unat_inc_less: "a < (b::32 word) \<Longrightarrow> unat (a + 1) = Suc (unat a)"
proof -
  assume "a < b"
  then have "unat a < unat b" by (simp add: word_less_nat_alt)
  moreover have "unat b < 2 ^ 32" using unsigned_less [of b, where ?'a = nat] by simp
  ultimately have "unat a + 1 < 2 ^ 32" by simp
  then show ?thesis by (simp add: unat_word_ariths)
qed

subsection \<open>The invariant, operation by operation\<close>

lemma cb_inv_maxRequests: "cb_inv cb \<Longrightarrow> maxRequests cb \<noteq> 0"
  by (simp add: cb_inv_def)

lemma toNewGeneration_inv: "maxRequests cb \<noteq> 0 \<Longrightarrow> cb_inv (toNewGeneration now cb)"
  by (cases "state cb") (auto simp: cb_inv_def toNewGeneration_def word_neq_0_conv)

lemma setState_inv: "cb_inv cb \<Longrightarrow> cb_inv (setState st now cb)"
  by (simp add: setState_def toNewGeneration_inv cb_inv_maxRequests)

lemma currentState_inv: "cb_inv cb \<Longrightarrow> cb_inv (currentState now cb)"
  by (cases "state cb")
     (simp_all add: currentState_def toNewGeneration_inv cb_inv_maxRequests setState_inv)

lemma beforeRequest_inv: "cb_inv cb \<Longrightarrow> cb_inv (snd (beforeRequest now cb))"
proof -
  assume inv: "cb_inv cb"
  let ?c = "currentState now cb"
  have c: "cb_inv ?c" using inv by (rule currentState_inv)
  show ?thesis
  proof (cases "state ?c = StateHalfOpen \<and> Requests (counts ?c) < maxRequests ?c")
    case True
    then have "Requests (counts ?c) + 1 \<le> maxRequests ?c" by (simp add: inc_le)
    with c True show ?thesis
      by (auto simp: beforeRequest_def Let_def cb_inv_def onRequest_def)
  next
    case False
    with c show ?thesis
      by (auto simp: beforeRequest_def Let_def cb_inv_def onRequest_def not_less)
  qed
qed

lemma onSuccess_inv: "cb_inv cb \<Longrightarrow> cb_inv (breaker_onSuccess (state cb) now cb)"
proof (cases "state cb")
  case StateHalfOpen
  assume inv: "cb_inv cb"
  let ?c = "ConsecutiveSuccesses (counts cb)"
  have "?c < maxRequests cb" using inv StateHalfOpen by (simp add: cb_inv_def)
  then have "?c + 1 \<le> maxRequests cb" by (simp add: inc_le)
  then have "\<not> maxRequests cb \<le> ?c + 1 \<Longrightarrow> ?c + 1 < maxRequests cb" by simp
  with inv StateHalfOpen show ?thesis
    by (auto simp: breaker_onSuccess_def Let_def cb_inv_def onSuccess_def setState_def
        toNewGeneration_inv)
qed (auto simp: breaker_onSuccess_def cb_inv_def onSuccess_def)

lemma onFailure_inv: "cb_inv cb \<Longrightarrow> cb_inv (breaker_onFailure (state cb) now cb)"
proof (cases "state cb")
  case StateClosed
  assume "cb_inv cb"
  with StateClosed have "cb_inv (cb\<lparr>counts := onFailure (counts cb)\<rparr>)" by (simp add: cb_inv_def)
  with StateClosed show ?thesis by (simp add: breaker_onFailure_def Let_def setState_inv)
qed (simp_all add: breaker_onFailure_def setState_inv)

lemma afterRequest_inv: "cb_inv cb \<Longrightarrow> cb_inv (afterRequest g ok now cb)"
  by (auto simp: afterRequest_def Let_def intro!: onSuccess_inv onFailure_inv currentState_inv)

lemma NewCircuitBreaker_inv: "cb_inv (NewCircuitBreaker st now)"
  by (simp add: NewCircuitBreaker_def toNewGeneration_inv)

subsection \<open>Transitions\<close>

lemma currentState_open_wait:
  "state cb = StateOpen \<Longrightarrow> expiry cb = Some e \<Longrightarrow> now \<le> e \<Longrightarrow> currentState now cb = cb"
  by (simp add: currentState_def expired_def)

lemma currentState_open_expired:
  "state cb = StateOpen \<Longrightarrow> expiry cb = Some e \<Longrightarrow> e < now \<Longrightarrow>
   currentState now cb = toNewGeneration now (cb\<lparr>state := StateHalfOpen\<rparr>)"
  by (simp add: currentState_def expired_def setState_def)

lemma currentState_closed_window:
  "state cb = StateClosed \<Longrightarrow> within_window cb t \<Longrightarrow> currentState t cb = cb"
  by (auto simp: currentState_def within_window_def expired_def split: option.splits)

lemma beforeRequest_admitted:
  "beforeRequest now cb = (Inr g, cb') \<Longrightarrow>
     state (currentState now cb) \<noteq> StateOpen \<and> g = generation (currentState now cb) \<and>
     cb' = (currentState now cb)\<lparr>counts := onRequest (counts (currentState now cb))\<rparr>"
  by (auto simp: beforeRequest_def Let_def split: if_splits)

lemma afterRequest_opened:
  assumes "state (currentState t cb) \<noteq> StateOpen"
    and "state (afterRequest g ok t cb) = StateOpen"
  shows "expiry (afterRequest g ok t cb) = Some (t + timeout cb)"
proof -
  let ?c = "currentState t cb"
  have "generation ?c = g"
    using assms by (auto simp: afterRequest_def Let_def split: if_splits)
  then show ?thesis using assms
    by (cases "state ?c")
       (auto simp: afterRequest_def breaker_onSuccess_def breaker_onFailure_def Let_def
             setState_def toNewGeneration_def split: if_splits)
qed

lemma afterRequest_success_closed:
  "state (currentState t cb) = StateClosed \<Longrightarrow> state (afterRequest g True t cb) = StateClosed"
  by (simp add: afterRequest_def breaker_onSuccess_def Let_def)

lemma Execute_closed:
  assumes "state cb = StateClosed" and "within_window cb t1" and "t0 \<le> t1"
  shows "snd (Execute t0 t1 out cb) =
    (case out of
       ReqOk \<Rightarrow> cb\<lparr>counts := onSuccess (onRequest (counts cb))\<rparr>
     | _ \<Rightarrow> (let cb' = cb\<lparr>counts := onFailure (onRequest (counts cb))\<rparr>
            in if readyToTrip cb (counts cb') then setState StateOpen t1 cb' else cb'))"
proof -
  have w0: "within_window cb t0" using assms(2,3) by (auto simp: within_window_def split: option.splits)
  have c0: "currentState t0 cb = cb" using assms(1) w0 by (rule currentState_closed_window)
  let ?cb1 = "cb\<lparr>counts := onRequest (counts cb)\<rparr>"
  have c1: "currentState t1 ?cb1 = ?cb1"
    using assms(1,2) by (simp add: currentState_closed_window within_window_def)
  show ?thesis
    by (cases out) (simp_all add: assms(1) Execute_def beforeRequest_def c0 c1 afterRequest_def
        breaker_onSuccess_def breaker_onFailure_def Let_def)
qed

lemma Execute_ok_half_open:
  assumes "state cb = StateHalfOpen" and "Requests (counts cb) < maxRequests cb"
  shows "snd (Execute t0 t1 ReqOk cb) =
    (let cb' = cb\<lparr>counts := onSuccess (onRequest (counts cb))\<rparr>
     in if maxRequests cb \<le> ConsecutiveSuccesses (counts cb) + 1 then setState StateClosed t1 cb' else cb')"
  using assms
  by (simp add: Execute_def beforeRequest_def afterRequest_def currentState_def breaker_onSuccess_def
      Let_def onSuccess_def onRequest_def not_le)

lemma run_calls_half_open_ok:
  "state cb = StateHalfOpen \<Longrightarrow> Requests (counts cb) = ConsecutiveSuccesses (counts cb) \<Longrightarrow>
   unat (Requests (counts cb)) + length calls = unat (maxRequests cb) \<Longrightarrow> calls \<noteq> [] \<Longrightarrow>
   \<forall>c \<in> set calls. snd (snd c) = ReqOk \<Longrightarrow> state (run_calls calls cb) = StateClosed"
proof (induction calls arbitrary: cb)
  case Nil
  then show ?case by simp
next
  case (Cons c calls)
  obtain t0 t1 out where c: "c = (t0, t1, out)" by (cases c) auto
  with Cons.prems have out: "out = ReqOk" by simp
  let ?r = "Requests (counts cb)"
  have lt: "?r < maxRequests cb" using Cons.prems(3) by (simp add: word_less_nat_alt)
  have inc: "unat (?r + 1) = Suc (unat ?r)" using lt by (rule unat_inc_less)
  let ?cb' = "cb\<lparr>counts := onSuccess (onRequest (counts cb))\<rparr>"
  have step: "snd (Execute t0 t1 ReqOk cb) =
      (if maxRequests cb \<le> ?r + 1 then setState StateClosed t1 ?cb' else ?cb')"
    using Execute_ok_half_open [OF Cons.prems(1) lt] Cons.prems(2) by (simp add: Let_def)
  show ?case
  proof (cases calls)
    case Nil
    then have "unat (maxRequests cb) \<le> unat (?r + 1)" using Cons.prems(3) inc by simp
    then have "maxRequests cb \<le> ?r + 1" by (simp add: word_le_nat_alt)
    with step Nil c out Cons.prems(1) show ?thesis by (simp add: setState_def)
  next
    case (Cons c' calls')
    then have "unat (?r + 1) < unat (maxRequests cb)" using Cons.prems(3) inc by simp
    then have nl: "\<not> maxRequests cb \<le> ?r + 1" by (simp add: word_le_nat_alt)
    have "state (run_calls calls ?cb') = StateClosed"
    proof (rule Cons.IH)
      show "state ?cb' = StateHalfOpen" using Cons.prems(1) by simp
      show "Requests (counts ?cb') = ConsecutiveSuccesses (counts ?cb')"
        using Cons.prems(2) by (simp add: onSuccess_def onRequest_def)
      show "unat (Requests (counts ?cb')) + length calls = unat (maxRequests ?cb')"
        using Cons.prems(3) inc by (simp add: onSuccess_def onRequest_def)
      show "calls \<noteq> []" using \<open>calls = c' # calls'\<close> by simp
      show "\<forall>c\<in>set calls. snd (snd c) = ReqOk" using Cons.prems(5) by simp
    qed
    with step nl c out show ?thesis by simp
  qed
qed

subsection \<open>Concrete breakers\<close>

lemma demo_breaker:
  "NewCircuitBreaker (breaker_settings demo_cfg ''auth'') 0 =
     \<lparr>cb_name = ''auth'', maxRequests = 1, interval = 0, timeout = 10,
      readyToTrip = managerReadyToTrip demo_cfg, state = StateClosed, generation = 1,
      counts = counts_zero, expiry = None\<rparr>"
  by (simp add: NewCircuitBreaker_def toNewGeneration_def breaker_settings_def demo_cfg_def)

lemma demo_breaker_admitted:
  "beforeRequest 1 (NewCircuitBreaker (breaker_settings demo_cfg ''auth'') 0) =
     (Inr 1, \<lparr>cb_name = ''auth'', maxRequests = 1, interval = 0, timeout = 10,
              readyToTrip = managerReadyToTrip demo_cfg, state = StateClosed, generation = 1,
              counts = counts_zero\<lparr>Requests := 1\<rparr>, expiry = None\<rparr>)"
  by (simp add: demo_breaker beforeRequest_def currentState_def onRequest_def)

lemma demo_breaker_tripped:
  "afterRequest 1 False 2
     \<lparr>cb_name = ''auth'', maxRequests = 1, interval = 0, timeout = 10,
      readyToTrip = managerReadyToTrip demo_cfg, state = StateClosed, generation = 1,
      counts = counts_zero\<lparr>Requests := 1\<rparr>, expiry = None\<rparr> =
   \<lparr>cb_name = ''auth'', maxRequests = 1, interval = 0, timeout = 10,
    readyToTrip = managerReadyToTrip demo_cfg, state = StateOpen, generation = 2,
    counts = counts_zero, expiry = Some 12\<rparr>"
  by (simp add: afterRequest_def currentState_def breaker_onFailure_def onFailure_def setState_def
      toNewGeneration_def managerReadyToTrip_def failure_ratio_at_least_half_def demo_cfg_def
      counts_zero_def)

section \<open>Properties\<close>

text \<open>
  C1: an open breaker rejects every call with \<open>ErrOpenState\<close> and is left unchanged
  as long as its timeout has not run out (spec 4.4, Open row; the middleware answers
  503).
\<close>

theorem cb_open_rejects:
  assumes "state cb = StateOpen" and "expiry cb = Some e" and "now \<le> e"
  shows "beforeRequest now cb = (Inl ErrOpenState, cb)"
  using assms by (simp add: beforeRequest_def currentState_open_wait)

theorem cb_open_rejects_witness:
  "beforeRequest 5
     \<lparr>cb_name = ''auth'', maxRequests = 1, interval = 0, timeout = 10,
      readyToTrip = managerReadyToTrip demo_cfg, state = StateOpen, generation = 2,
      counts = counts_zero, expiry = Some 12\<rparr> =
   (Inl ErrOpenState,
    \<lparr>cb_name = ''auth'', maxRequests = 1, interval = 0, timeout = 10,
     readyToTrip = managerReadyToTrip demo_cfg, state = StateOpen, generation = 2,
     counts = counts_zero, expiry = Some 12\<rparr>)"
  by (rule cb_open_rejects [where e = 12]) simp_all

text \<open>
  C2: recovery (spec 8.4). If the breaker trips at time \<open>t\<close> (it was not open at
  \<open>t\<close> and the outcome recorded at \<open>t\<close> opened it), then the next call it admits
  comes strictly after \<open>t + timeout\<close>, and it is admitted in the half-open state.
\<close>

theorem cb_recovery_half_open:
  assumes "state (currentState t cb) \<noteq> StateOpen"
    and "state (afterRequest g ok t cb) = StateOpen"
    and "beforeRequest now (afterRequest g ok t cb) = (Inr g', cb')"
  shows "t + timeout cb < now \<and> state cb' = StateHalfOpen"
proof -
  let ?o = "afterRequest g ok t cb"
  have exp: "expiry ?o = Some (t + timeout cb)" using assms(1,2) by (rule afterRequest_opened)
  have adm: "state (currentState now ?o) \<noteq> StateOpen"
    and cb': "cb' = (currentState now ?o)\<lparr>counts := onRequest (counts (currentState now ?o))\<rparr>"
    using beforeRequest_admitted [OF assms(3)] by auto
  have late: "t + timeout cb < now"
  proof (rule ccontr)
    assume "\<not> t + timeout cb < now"
    then have "currentState now ?o = ?o" using assms(2) exp by (simp add: currentState_open_wait)
    with adm assms(2) show False by simp
  qed
  have "currentState now ?o = toNewGeneration now (?o\<lparr>state := StateHalfOpen\<rparr>)"
    using assms(2) exp late by (rule currentState_open_expired)
  with late cb' show ?thesis by simp
qed

theorem cb_recovery_half_open_witness:
  "2 + 10 < (13::nat) \<and>
   state (snd (beforeRequest 13 (afterRequest 1 False 2
     (snd (beforeRequest 1 (NewCircuitBreaker (breaker_settings demo_cfg ''auth'') 0)))))) =
   StateHalfOpen"
proof -
  let ?cb = "snd (beforeRequest 1 (NewCircuitBreaker (breaker_settings demo_cfg ''auth'') 0))"
  have h1: "state (currentState 2 ?cb) \<noteq> StateOpen"
    unfolding demo_breaker_admitted snd_conv by (simp add: currentState_def)
  have h2: "state (afterRequest 1 False 2 ?cb) = StateOpen"
    unfolding demo_breaker_admitted snd_conv demo_breaker_tripped by simp
  have h3: "beforeRequest 13 (afterRequest 1 False 2 ?cb) =
    (Inr 3, snd (beforeRequest 13 (afterRequest 1 False 2 ?cb)))"
    unfolding demo_breaker_admitted snd_conv demo_breaker_tripped
    by (simp add: beforeRequest_def currentState_def expired_def setState_def toNewGeneration_def)
  have "timeout ?cb = 10" unfolding demo_breaker_admitted snd_conv by simp
  then show ?thesis using cb_recovery_half_open [OF h1 h2 h3] by simp
qed

text \<open>
  C3: in the closed state a failure opens the breaker exactly when the trip predicate
  holds of the counters that include it. With the predicate of \<open>circuit.go\<close> this is
  \<open>requests \<ge> FailureThreshold \<and> failures / requests \<ge> 0.5\<close> (spec 4.4, Closed row).
\<close>

theorem cb_trip_on_failure:
  assumes "state (currentState t cb) = StateClosed" and "generation (currentState t cb) = g"
  shows "state (afterRequest g False t cb) = StateOpen \<longleftrightarrow>
         readyToTrip cb (onFailure (counts (currentState t cb)))"
  using assms by (simp add: afterRequest_def breaker_onFailure_def Let_def setState_def)

theorem cb_trip_on_failure_witness:
  "state (afterRequest 1 False 2 (snd (beforeRequest 1 (NewCircuitBreaker (breaker_settings demo_cfg ''auth'') 0))))
     = StateOpen \<longleftrightarrow>
   managerReadyToTrip demo_cfg (onFailure (counts_zero\<lparr>Requests := 1\<rparr>))"
proof -
  let ?cb = "snd (beforeRequest 1 (NewCircuitBreaker (breaker_settings demo_cfg ''auth'') 0))"
  have cur: "currentState 2 ?cb = ?cb"
    unfolding demo_breaker_admitted snd_conv by (simp add: currentState_def)
  have h1: "state (currentState 2 ?cb) = StateClosed"
    unfolding demo_breaker_admitted snd_conv by (simp add: currentState_def)
  have h2: "generation (currentState 2 ?cb) = 1"
    unfolding demo_breaker_admitted snd_conv by (simp add: currentState_def)
  have "readyToTrip ?cb = managerReadyToTrip demo_cfg"
    unfolding demo_breaker_admitted snd_conv by simp
  moreover have "counts ?cb = counts_zero\<lparr>Requests := 1\<rparr>"
    unfolding demo_breaker_admitted snd_conv by simp
  ultimately show ?thesis using cb_trip_on_failure [OF h1 h2] cur by simp
qed


text \<open>
  C5: the breaker invariant holds of every new breaker and is kept by each of the
  breaker's atomic steps (the state read, the admission, the recording of an outcome),
  so it holds however the steps of concurrent calls interleave.
\<close>

theorem cb_inv_preserved:
  assumes "cb_inv cb"
  shows "cb_inv (NewCircuitBreaker st t) \<and> cb_inv (currentState t cb) \<and>
         cb_inv (snd (beforeRequest t cb)) \<and> cb_inv (afterRequest g ok t cb)"
  using assms by (simp add: NewCircuitBreaker_inv currentState_inv beforeRequest_inv afterRequest_inv)

theorem cb_inv_preserved_witness:
  "cb_inv (afterRequest 1 False 2 (NewCircuitBreaker (breaker_settings demo_cfg ''auth'') 0))"
proof -
  have "cb_inv (NewCircuitBreaker (breaker_settings demo_cfg ''auth'') 0)"
    by (simp add: demo_breaker cb_inv_def)
  then show ?thesis using cb_inv_preserved by blast
qed

text \<open>
  C6: a half-open breaker with fresh counters closes after \<open>maxRequests\<close> calls in a
  row that all succeed (spec 4.4, HalfOpen to Closed).
\<close>

theorem cb_half_open_closes:
  assumes "state cb = StateHalfOpen" and "counts cb = counts_zero" and "maxRequests cb \<noteq> 0"
    and "length calls = unat (maxRequests cb)" and "\<forall>c \<in> set calls. snd (snd c) = ReqOk"
  shows "state (run_calls calls cb) = StateClosed"
proof (rule run_calls_half_open_ok)
  show "calls \<noteq> []" using assms(3,4) by (auto simp: unat_eq_zero)
qed (use assms in simp_all)

theorem cb_half_open_closes_witness:
  "state (run_calls [(20, 21, ReqOk)]
     \<lparr>cb_name = ''auth'', maxRequests = 1, interval = 0, timeout = 10,
      readyToTrip = managerReadyToTrip demo_cfg, state = StateHalfOpen, generation = 3,
      counts = counts_zero, expiry = None\<rparr>) = StateClosed"
  by (rule cb_half_open_closes) simp_all

text \<open>
  C7: a failure recorded while half-open reopens the breaker at once, with a fresh
  timeout counted from that moment (spec 4.4, HalfOpen to Open).
\<close>

theorem cb_half_open_failure_reopens:
  assumes "state (currentState t cb) = StateHalfOpen" and "generation (currentState t cb) = g"
  shows "state (afterRequest g False t cb) = StateOpen \<and>
         expiry (afterRequest g False t cb) = Some (t + timeout cb)"
  using assms by (simp add: afterRequest_def breaker_onFailure_def setState_def toNewGeneration_def)

theorem cb_half_open_failure_reopens_witness:
  "state (afterRequest 3 False 20
     \<lparr>cb_name = ''auth'', maxRequests = 1, interval = 0, timeout = 10,
      readyToTrip = managerReadyToTrip demo_cfg, state = StateHalfOpen, generation = 3,
      counts = counts_zero\<lparr>Requests := 1\<rparr>, expiry = None\<rparr>) = StateOpen"
  using cb_half_open_failure_reopens [where t = 20 and g = 3]
  by (simp add: currentState_def)

text \<open>
  C8: a half-open breaker that has already admitted \<open>maxRequests\<close> probes in this
  generation refuses further calls with \<open>ErrTooManyRequests\<close>; with the invariant,
  at most \<open>maxRequests\<close> probes are ever admitted per half-open period.
\<close>

theorem cb_half_open_capacity:
  assumes "state (currentState t cb) = StateHalfOpen"
    and "maxRequests cb \<le> Requests (counts (currentState t cb))"
  shows "beforeRequest t cb = (Inl ErrTooManyRequests, currentState t cb)"
  using assms by (simp add: beforeRequest_def)

theorem cb_half_open_capacity_witness:
  "fst (beforeRequest 20
     \<lparr>cb_name = ''auth'', maxRequests = 1, interval = 0, timeout = 10,
      readyToTrip = managerReadyToTrip demo_cfg, state = StateHalfOpen, generation = 3,
      counts = counts_zero\<lparr>Requests := 1\<rparr>, expiry = None\<rparr>) = Inl ErrTooManyRequests"
  using cb_half_open_capacity [where t = 20] by (simp add: currentState_def)

text \<open>
  C9: the outcome of a call admitted in an earlier generation is ignored: it changes
  nothing but what the state read itself changes.
\<close>

theorem cb_stale_result_ignored:
  "generation (currentState t cb) \<noteq> g \<Longrightarrow> afterRequest g ok t cb = currentState t cb"
  by (simp add: afterRequest_def)

theorem cb_stale_result_ignored_witness:
  "afterRequest 1 False 20
     \<lparr>cb_name = ''auth'', maxRequests = 1, interval = 0, timeout = 10,
      readyToTrip = managerReadyToTrip demo_cfg, state = StateHalfOpen, generation = 3,
      counts = counts_zero, expiry = None\<rparr> =
   \<lparr>cb_name = ''auth'', maxRequests = 1, interval = 0, timeout = 10,
    readyToTrip = managerReadyToTrip demo_cfg, state = StateHalfOpen, generation = 3,
    counts = counts_zero, expiry = None\<rparr>"
  using cb_stale_result_ignored [where t = 20 and g = 1] by (simp add: currentState_def)

text \<open>
  C10: the manager creates breakers lazily and once per service. \<open>GetBreaker\<close>
  returns the stored breaker when there is one and changes nothing; otherwise it stores
  a new closed breaker that satisfies the invariant. Either way the returned breaker is
  the one stored under the name, every other entry is untouched, and asking again
  returns the same breaker and manager.
\<close>

theorem GetBreaker_lazy:
  assumes "GetBreaker name t m = (cb, m')"
  shows "breakers m' = (breakers m)(name \<mapsto> cb) \<and> mgr_cfg m' = mgr_cfg m \<and>
         GetBreaker name t' m' = (cb, m') \<and>
         (\<forall>c. breakers m name = Some c \<longrightarrow> cb = c \<and> m' = m) \<and>
         (breakers m name = None \<longrightarrow> state cb = StateClosed \<and> cb_inv cb \<and> cb_name cb = name)"
proof (cases "breakers m name")
  case None
  let ?n = "NewCircuitBreaker (breaker_settings (mgr_cfg m) name) t"
  have "(?n, m\<lparr>breakers := (breakers m)(name \<mapsto> ?n)\<rparr>) = (cb, m')"
    using assms None by (auto simp: GetBreaker_def Let_def)
  then have cb: "cb = ?n" and m': "m' = m\<lparr>breakers := (breakers m)(name \<mapsto> ?n)\<rparr>"
    by auto
  have "state ?n = StateClosed \<and> cb_name ?n = name"
    by (simp add: NewCircuitBreaker_def breaker_settings_def)
  with cb m' None show ?thesis by (simp add: GetBreaker_def NewCircuitBreaker_inv)
next
  case (Some c)
  with assms have "cb = c" and "m' = m" by (simp_all add: GetBreaker_def)
  with Some show ?thesis by (simp add: GetBreaker_def fun_upd_idem)
qed

theorem GetBreaker_lazy_witness:
  "breakers (snd (GetBreaker ''auth'' 0 (NewCircuitBreakerManager demo_cfg))) ''auth'' =
     Some (NewCircuitBreaker (breaker_settings demo_cfg ''auth'') 0) \<and>
   state (fst (GetBreaker ''auth'' 0 (NewCircuitBreakerManager demo_cfg))) = StateClosed"
proof -
  obtain cb m' where g: "GetBreaker ''auth'' 0 (NewCircuitBreakerManager demo_cfg) = (cb, m')"
    by (cases "GetBreaker ''auth'' 0 (NewCircuitBreakerManager demo_cfg)") auto
  have "cb = NewCircuitBreaker (breaker_settings demo_cfg ''auth'') 0"
    using g by (simp add: GetBreaker_def NewCircuitBreakerManager_def Let_def)
  then show ?thesis using GetBreaker_lazy [OF g, of 0] g
    by (simp add: NewCircuitBreakerManager_def)
qed

text \<open>
  C11: with breakers enabled, a request to a real service whose route does not opt
  out is refused by the middleware with 503 \<open>service_unavailable\<close> while that
  service's breaker is open and its timeout has not run out; the downstream handler
  does not run and the manager is unchanged.
\<close>

theorem cb_Middleware_open_rejects:
  assumes "CEnabled (mgr_cfg m)" and "breakers m s = Some cb"
    and "s \<noteq> []" and "s \<noteq> ''gateway''"
    and "case route of Some r \<Rightarrow> CircuitBreaker r | None \<Rightarrow> True"
    and "state cb = StateOpen" and "expiry cb = Some e" and "t0 \<le> e"
  shows "cb_Middleware m (Some s) route t0 t1 nr = (CbRejected ''service_unavailable'', m)"
proof -
  have "GetBreaker s t0 m = (cb, m)" using assms(2) by (simp add: GetBreaker_def)
  moreover have "Execute t0 t1 (req_outcome nr) cb = (ExecBreakerErr ErrOpenState, cb)"
    using cb_open_rejects [OF assms(6,7,8)] by (simp add: Execute_def)
  moreover have "m\<lparr>breakers := (breakers m)(s \<mapsto> cb)\<rparr> = m"
    using assms(2) by (simp add: fun_upd_idem)
  ultimately show ?thesis using assms(1,3,4,5)
    by (auto simp: cb_Middleware_def split: option.splits)
qed

theorem cb_Middleware_open_rejects_witness:
  "cb_Middleware
     \<lparr>breakers = [''auth'' \<mapsto> \<lparr>cb_name = ''auth'', maxRequests = 1, interval = 0, timeout = 10,
        readyToTrip = managerReadyToTrip demo_cfg, state = StateOpen, generation = 2,
        counts = counts_zero, expiry = Some 12\<rparr>], mgr_cfg = demo_cfg\<rparr>
     (Some ''auth'') (Some (DefaultRoutes ! 7)) 5 6 \<lparr>nr_status = 200, nr_err = False, nr_panic = False\<rparr> =
   (CbRejected ''service_unavailable'',
     \<lparr>breakers = [''auth'' \<mapsto> \<lparr>cb_name = ''auth'', maxRequests = 1, interval = 0, timeout = 10,
        readyToTrip = managerReadyToTrip demo_cfg, state = StateOpen, generation = 2,
        counts = counts_zero, expiry = Some 12\<rparr>], mgr_cfg = demo_cfg\<rparr>)"
proof -
  let ?cb = "\<lparr>cb_name = ''auth'', maxRequests = 1, interval = 0, timeout = 10,
        readyToTrip = managerReadyToTrip demo_cfg, state = StateOpen, generation = 2,
        counts = counts_zero, expiry = Some 12\<rparr>"
  show ?thesis
    by (rule cb_Middleware_open_rejects [where e = 12 and cb = ?cb])
       (simp_all add: demo_cfg_def DefaultRoutes_def mk_route_def)
qed

end
