(* ===== verification/RateLimit.thy ===== *)
theory RateLimit
  imports Router
begin

text \<open>
  The rate limiter of \<open>src/internal/middleware/ratelimit.go\<close>: a token bucket per
  key, kept either in the in-process map of \<open>LocalLimiter\<close> (guarded by one mutex,
  so each call is one atomic step on the map) or in the shared store, where a Lua
  script does the same computation on whole seconds and the key expires two seconds
  after its last use. A failed store call falls back to the local bucket. The
  middleware picks the rate and burst (global or the route's override), builds the key,
  sets the three \<open>X-RateLimit-*\<close> headers and answers 429 on a denial.
  \<open>float64\<close> token counts are idealised to reals; \<open>time.Time\<close> is nanoseconds
  (\<open>int\<close>), and the store's clock is the script's \<open>now\<close> in whole seconds.
\<close>

section \<open>State\<close>

record RateLimitConfig =
  RLEnabled :: bool
  RLRequestsPerSec :: int
  RLBurstSize :: int
  RLCleanupInterval :: int

record rateBucket =
  tokens :: real
  lastCheck :: nanos

record LocalLimiter =
  requests :: "string \<rightharpoonup> rateBucket"
  ll_cfg :: RateLimitConfig

text \<open>A hash of the shared store: the two fields the script writes, and the key's expiry.\<close>

record RedisEntry =
  r_tokens :: real
  r_last :: int
  r_expire :: int

type_synonym RedisStore = "string \<rightharpoonup> RedisEntry"

record RateLimiter =
  rl_cfg :: RateLimitConfig
  local :: LocalLimiter
  useRedis :: bool
  redis :: RedisStore
  sweeper_running :: bool

text \<open>A Go runtime panic the limiter can raise.\<close>

datatype rl_panic = IntegerDivideByZero

text \<open>\<open>(allowed, remaining, resetTime)\<close>, as the Go functions return them.\<close>

type_synonym allow_result = "bool \<times> int \<times> int"

section \<open>Operations\<close>

definition NewRateLimiter :: "RateLimitConfig \<Rightarrow> bool \<Rightarrow> RateLimiter" where
  "NewRateLimiter cfg hasRedis =
     \<lparr>rl_cfg = cfg, local = \<lparr>requests = Map.empty, ll_cfg = cfg\<rparr>, useRedis = hasRedis,
      redis = Map.empty, sweeper_running = (\<not> hasRedis)\<rparr>"

text \<open>\<open>time.Duration.Seconds\<close>: a duration in nanoseconds as seconds.\<close>

definition Seconds :: "nanos \<Rightarrow> real" where
  "Seconds d = of_int d / of_int second"

definition go_min :: "real \<Rightarrow> real \<Rightarrow> real" where
  "go_min a b = (if a < b then a else b)"

text \<open>
  \<open>LocalLimiter.allow\<close>. The bucket is refilled and stamped before the test, so a
  denial that panics in \<open>time.Second / time.Duration(rps)\<close> (a zero rate) has already
  changed the bucket: the new state is returned on every path.
\<close>

definition local_allow ::
  "string \<Rightarrow> int \<Rightarrow> int \<Rightarrow> nanos \<Rightarrow> LocalLimiter \<Rightarrow> (rl_panic + allow_result) \<times> LocalLimiter" where
  "local_allow key rps burst now ll =
     (case requests ll key of
        None \<Rightarrow>
          (Inr (True, burst - 1, unix_secs (now + second)),
           ll\<lparr>requests := (requests ll)(key \<mapsto> \<lparr>tokens = of_int (burst - 1), lastCheck = now\<rparr>)\<rparr>)
      | Some bucket \<Rightarrow>
          (let elapsed = Seconds (now - lastCheck bucket);
               t = go_min (of_int burst) (tokens bucket + elapsed * of_int rps);
               store = (\<lambda>b. ll\<lparr>requests := (requests ll)(key \<mapsto> b)\<rparr>)
           in if 1 \<le> t
              then (Inr (True, go_trunc (t - 1), unix_secs (now + second)),
                    store \<lparr>tokens = t - 1, lastCheck = now\<rparr>)
              else (case go_div second rps of
                      None \<Rightarrow> (Inl IntegerDivideByZero, store \<lparr>tokens = t, lastCheck = now\<rparr>)
                    | Some d \<Rightarrow> (Inr (False, 0, unix_secs (now + d)),
                                 store \<lparr>tokens = t, lastCheck = now\<rparr>))))"

text \<open>
  One sweep of \<open>LocalLimiter.cleanup\<close>: under the lock, delete every bucket last
  used before \<open>now - interval\<close>.
\<close>

definition cleanup_step :: "int \<Rightarrow> nanos \<Rightarrow> LocalLimiter \<Rightarrow> LocalLimiter" where
  "cleanup_step interval now ll =
     ll\<lparr>requests := (\<lambda>k. case requests ll k of
                            None \<Rightarrow> None
                          | Some b \<Rightarrow> if lastCheck b < now - interval then None else Some b)\<rparr>"

text \<open>
  The store script. Missing fields read as \<open>burst\<close> and \<open>now\<close>; an expired key is
  missing. Lua numbers returned to Redis become integers by truncation; \<open>1 / 0\<close> is
  \<open>inf\<close> in Lua, whose conversion is not specified, hence \<open>undefined\<close>.
\<close>

definition redis_script ::
  "string \<Rightarrow> int \<Rightarrow> int \<Rightarrow> int \<Rightarrow> RedisStore \<Rightarrow> (int \<times> int \<times> int) \<times> RedisStore" where
  "redis_script key rate burst now store =
     (let live = (case store key of None \<Rightarrow> None
                   | Some e \<Rightarrow> if now < r_expire e then Some e else None);
          tokens0 = (case live of None \<Rightarrow> of_int burst | Some e \<Rightarrow> r_tokens e);
          last_t = (case live of None \<Rightarrow> now | Some e \<Rightarrow> r_last e);
          t = min (of_int burst) (tokens0 + of_int (now - last_t) * of_int rate);
          allowed = (if 1 \<le> t then 1 else 0 :: int);
          t' = (if 1 \<le> t then t - 1 else t);
          reset = (if rate = 0 then undefined else go_trunc (of_int now + 1 / of_int rate))
      in ((allowed, \<lfloor>t'\<rfloor>, reset),
          store(key \<mapsto> \<lparr>r_tokens = t', r_last = now, r_expire = now + 2\<rparr>)))"

text \<open>
  \<open>redisAllow\<close>: \<open>redis_up\<close> says whether the store call succeeds; on failure the
  local bucket answers.
\<close>

definition redisAllow ::
  "bool \<Rightarrow> string \<Rightarrow> int \<Rightarrow> int \<Rightarrow> nanos \<Rightarrow> RateLimiter \<Rightarrow> (rl_panic + allow_result) \<times> RateLimiter" where
  "redisAllow redis_up key rps burst now rl =
     (if redis_up then
        (let ((a, rem, reset), st') = redis_script key rps burst (unix_secs now) (redis rl)
         in (Inr (a = 1, rem, reset), rl\<lparr>redis := st'\<rparr>))
      else
        (let (r, ll') = local_allow key rps burst now (local rl) in (r, rl\<lparr>local := ll'\<rparr>)))"

definition rl_allow ::
  "bool \<Rightarrow> string \<Rightarrow> int \<Rightarrow> int \<Rightarrow> nanos \<Rightarrow> RateLimiter \<Rightarrow> (rl_panic + allow_result) \<times> RateLimiter" where
  "rl_allow redis_up key rps burst now rl =
     (if useRedis rl then redisAllow redis_up key rps burst now rl
      else (let (r, ll') = local_allow key rps burst now (local rl) in (r, rl\<lparr>local := ll'\<rparr>)))"

definition createKey :: "string option \<Rightarrow> string \<Rightarrow> string \<Rightarrow> string" where
  "createKey userID ip path =
     (case userID of
        Some u \<Rightarrow> ''ratelimit:'' @ u @ '':'' @ path
      | None \<Rightarrow> ''ratelimit:ip:'' @ ip @ '':'' @ path)"

text \<open>
  What the middleware does with the request: pass it on (\<open>RlNext\<close>), answer 429 with
  the \<open>retry_after\<close> of the body, or panic. The three headers are set on every path
  that returns.
\<close>

datatype RlOutcome = RlNext | RlDenied int | RlPanicked

definition rl_headers :: "int \<Rightarrow> int \<Rightarrow> int \<Rightarrow> headers" where
  "rl_headers rps remaining resetTime =
     [(''X-RateLimit-Limit'', Itoa rps), (''X-RateLimit-Remaining'', Itoa remaining),
      (''X-RateLimit-Reset'', Itoa resetTime)]"

text \<open>The rate and burst of a request: the route's override when it has one.\<close>

definition effective_limits :: "RateLimitConfig \<Rightarrow> Route option \<Rightarrow> int \<times> int" where
  "effective_limits cfg route =
     (case route of
        Some r \<Rightarrow> (case RateLimit r of
                     Some l \<Rightarrow> (RequestsPerSec l, BurstSize l)
                   | None \<Rightarrow> (RLRequestsPerSec cfg, RLBurstSize cfg))
      | None \<Rightarrow> (RLRequestsPerSec cfg, RLBurstSize cfg))"

definition rl_Middleware ::
  "RateLimiter \<Rightarrow> Route option \<Rightarrow> string option \<Rightarrow> string \<Rightarrow> string \<Rightarrow> bool \<Rightarrow> nanos \<Rightarrow> nanos
   \<Rightarrow> (RlOutcome \<times> headers) \<times> RateLimiter" where
  "rl_Middleware rl route userID ip path redis_up now now' =
     (if \<not> RLEnabled (rl_cfg rl) then ((RlNext, []), rl)
      else
        (let (rps, burst) = effective_limits (rl_cfg rl) route;
             key = createKey userID ip path;
             (res, rl') = rl_allow redis_up key rps burst now rl
         in (case res of
               Inl _ \<Rightarrow> ((RlPanicked, []), rl')
             | Inr (allowed, remaining, resetTime) \<Rightarrow>
                 (if allowed then ((RlNext, rl_headers rps remaining resetTime), rl')
                  else ((RlDenied (resetTime - unix_secs now'), rl_headers rps remaining resetTime),
                        rl')))))"

section \<open>Invariant\<close>

text \<open>Invariant I4 of the specification for one bucket: \<open>tokens \<in> [0, burst]\<close>.\<close>

definition bucket_inv :: "int \<Rightarrow> rateBucket \<Rightarrow> bool" where
  "bucket_inv burst b \<longleftrightarrow> 0 \<le> tokens b \<and> tokens b \<le> of_int burst"

section \<open>Lemmas\<close>

lemma go_min_le: "go_min a b \<le> a" "go_min a b \<le> b"
  by (simp_all add: go_min_def)

lemma go_min_ge: "c \<le> a \<Longrightarrow> c \<le> b \<Longrightarrow> c \<le> go_min a b"
  by (simp add: go_min_def)

lemma refill_nonneg:
  assumes "lc \<le> now" and "0 \<le> rps"
  shows "tk \<le> tk + Seconds (now - lc) * of_int rps"
proof -
  have "0 \<le> Seconds (now - lc)" using assms(1) by (simp add: Seconds_def second_def)
  then have "0 \<le> Seconds (now - lc) * of_int rps" using assms(2) by simp
  then show ?thesis by simp
qed

lemma local_allow_existing:
  "requests ll key = Some b \<Longrightarrow>
   local_allow key rps burst now ll =
     (let t = go_min (of_int burst) (tokens b + Seconds (now - lastCheck b) * of_int rps);
          store = (\<lambda>b. ll\<lparr>requests := (requests ll)(key \<mapsto> b)\<rparr>)
      in if 1 \<le> t
         then (Inr (True, go_trunc (t - 1), unix_secs (now + second)),
               store \<lparr>tokens = t - 1, lastCheck = now\<rparr>)
         else (case go_div second rps of
                 None \<Rightarrow> (Inl IntegerDivideByZero, store \<lparr>tokens = t, lastCheck = now\<rparr>)
               | Some d \<Rightarrow> (Inr (False, 0, unix_secs (now + d)), store \<lparr>tokens = t, lastCheck = now\<rparr>)))"
  by (simp add: local_allow_def Let_def)

lemma local_allow_fresh:
  "requests ll key = None \<Longrightarrow>
   local_allow key rps burst now ll =
     (Inr (True, burst - 1, unix_secs (now + second)),
      ll\<lparr>requests := (requests ll)(key \<mapsto> \<lparr>tokens = of_int (burst - 1), lastCheck = now\<rparr>)\<rparr>)"
  by (simp add: local_allow_def)

section \<open>Properties\<close>

text \<open>
  C15: invariant I4 for the in-process limiter. With \<open>burst \<ge> 1\<close>, a non-negative
  rate and a clock that does not run backwards, a call leaves the key's bucket within
  \<open>[0, burst]\<close>, stamped with the current time, and no other bucket changed; this
  holds on every path, the panicking one included.
\<close>

theorem local_allow_bounds:
  assumes "1 \<le> burst" and "0 \<le> rps"
    and "\<forall>b. requests ll key = Some b \<longrightarrow> bucket_inv burst b \<and> lastCheck b \<le> now"
    and "local_allow key rps burst now ll = (res, ll')"
  shows "\<exists>b'. requests ll' key = Some b' \<and> bucket_inv burst b' \<and> lastCheck b' = now \<and>
           (\<forall>k. k \<noteq> key \<longrightarrow> requests ll' k = requests ll k)"
proof (cases "requests ll key")
  case None
  with assms(1,4) show ?thesis by (auto simp: local_allow_def bucket_inv_def)
next
  case (Some b)
  let ?t = "go_min (of_int burst) (tokens b + Seconds (now - lastCheck b) * of_int rps)"
  have inv: "0 \<le> tokens b" "lastCheck b \<le> now" using assms(3) Some by (auto simp: bucket_inv_def)
  have lo: "0 \<le> ?t"
    using go_min_ge [of 0 "of_int burst"] refill_nonneg [OF inv(2) assms(2), of "tokens b"] inv(1) assms(1)
    by (meson dual_order.trans of_int_nonneg zero_le_one)
  have hi: "?t \<le> of_int burst" by (rule go_min_le)
  show ?thesis
    using assms(4) Some lo hi
    by (auto simp: local_allow_existing Let_def bucket_inv_def split: if_splits option.splits)
qed

theorem local_allow_bounds_witness:
  "\<exists>b'. requests (snd (local_allow ''k'' 1 2 5 \<lparr>requests = [''k'' \<mapsto> \<lparr>tokens = 1, lastCheck = 0\<rparr>],
                                             ll_cfg = \<lparr>RLEnabled = True, RLRequestsPerSec = 1, RLBurstSize = 2, RLCleanupInterval = 60\<rparr>\<rparr>)) ''k'' = Some b' \<and>
        bucket_inv 2 b' \<and> lastCheck b' = 5"
proof -
  let ?ll = "\<lparr>requests = [''k'' \<mapsto> \<lparr>tokens = 1, lastCheck = 0\<rparr>], ll_cfg = \<lparr>RLEnabled = True, RLRequestsPerSec = 1, RLBurstSize = 2, RLCleanupInterval = 60\<rparr>\<rparr>"
  obtain res ll' where e: "local_allow ''k'' 1 2 5 ?ll = (res, ll')" by (cases "local_allow ''k'' 1 2 5 ?ll")
  have "\<forall>b. requests ?ll ''k'' = Some b \<longrightarrow> bucket_inv 2 b \<and> lastCheck b \<le> 5"
    by (simp add: bucket_inv_def)
  then show ?thesis using local_allow_bounds [of 2 1 ?ll "''k''" 5 res ll'] e by auto
qed

text \<open>
  C16: refill. A bucket in the invariant whose last use lies at least \<open>1/rps\<close>
  seconds back has refilled a whole token: the next call is allowed.
\<close>

theorem local_allow_refill_allows:
  assumes "requests ll key = Some b" and "bucket_inv burst b" and "1 \<le> burst"
    and "0 < rps" and "second \<le> (now - lastCheck b) * rps"
  shows "\<exists>rem reset. fst (local_allow key rps burst now ll) = Inr (True, rem, reset)"
proof -
  have "1 \<le> Seconds (now - lastCheck b) * of_int rps"
  proof -
    have "of_int second \<le> (of_int ((now - lastCheck b) * rps) :: real)"
      using assms(5) by linarith
    then show ?thesis by (simp add: Seconds_def second_def field_simps)
  qed
  moreover have "0 \<le> tokens b" using assms(2) by (simp add: bucket_inv_def)
  ultimately have "1 \<le> go_min (of_int burst) (tokens b + Seconds (now - lastCheck b) * of_int rps)"
    using assms(3) by (simp add: go_min_def)
  then show ?thesis using assms(1) by (simp add: local_allow_existing Let_def)
qed

theorem local_allow_refill_allows_witness:
  "\<exists>rem reset. fst (local_allow ''k'' 10 5 100000000
      \<lparr>requests = [''k'' \<mapsto> \<lparr>tokens = 0, lastCheck = 0\<rparr>], ll_cfg = \<lparr>RLEnabled = True, RLRequestsPerSec = 1, RLBurstSize = 2, RLCleanupInterval = 60\<rparr>\<rparr>) = Inr (True, rem, reset)"
  by (rule local_allow_refill_allows [where b = "\<lparr>tokens = 0, lastCheck = 0\<rparr>"])
     (simp_all add: bucket_inv_def second_def)

text \<open>
  C17: a zero rate panics. When a bucket is empty and the effective rate is 0 (a route
  whose \<open>rateLimit\<close> omits \<open>requestsPerSec\<close>, or \<open>RATE_LIMIT_RPS=0\<close>), the
  denial computes \<open>time.Second / time.Duration(0)\<close>: an integer division by zero,
  a runtime panic instead of a 429.
\<close>

theorem local_allow_zero_rate_panics:
  assumes "requests ll key = Some b"
    and "\<not> 1 \<le> go_min (of_int burst) (tokens b + Seconds (now - lastCheck b) * 0)"
  shows "fst (local_allow key 0 burst now ll) = Inl IntegerDivideByZero"
  using assms by (simp add: local_allow_existing Let_def go_div_def)

theorem local_allow_zero_rate_panics_witness:
  "fst (local_allow ''k'' 0 5 7 \<lparr>requests = [''k'' \<mapsto> \<lparr>tokens = 0, lastCheck = 0\<rparr>], ll_cfg = \<lparr>RLEnabled = True, RLRequestsPerSec = 1, RLBurstSize = 2, RLCleanupInterval = 60\<rparr>\<rparr>) =
   Inl IntegerDivideByZero"
  by (rule local_allow_zero_rate_panics [where b = "\<lparr>tokens = 0, lastCheck = 0\<rparr>"])
     (simp_all add: go_min_def)


text \<open>
  A denial only refills: the bucket's tokens after a denied call are at least
  what they were before, and below one (spec 8.5, tokens non-decreasing between
  denials).
\<close>

theorem local_allow_denial_keeps_tokens:
  assumes "requests ll key = Some b" and "tokens b \<le> of_int burst" and "0 \<le> rps"
    and "lastCheck b \<le> now"
    and "local_allow key rps burst now ll = (Inr (False, rem, reset), ll')"
  shows "\<exists>b'. requests ll' key = Some b' \<and> tokens b \<le> tokens b' \<and> tokens b' < 1"
proof -
  let ?t = "go_min (of_int burst) (tokens b + Seconds (now - lastCheck b) * of_int rps)"
  have "tokens b \<le> ?t"
    using go_min_ge [OF assms(2) refill_nonneg [OF assms(4,3)]] .
  then show ?thesis using assms(1,5)
    by (auto simp: local_allow_existing Let_def split: if_splits option.splits)
qed

theorem local_allow_denial_keeps_tokens_witness:
  "\<exists>b'. requests (snd (local_allow ''k'' 1 5 100000000
           \<lparr>requests = [''k'' \<mapsto> \<lparr>tokens = 0, lastCheck = 0\<rparr>], ll_cfg = \<lparr>RLEnabled = True, RLRequestsPerSec = 1, RLBurstSize = 2, RLCleanupInterval = 60\<rparr>\<rparr>)) ''k'' = Some b' \<and>
        0 \<le> tokens b' \<and> tokens b' < 1"
proof -
  let ?ll = "\<lparr>requests = [''k'' \<mapsto> \<lparr>tokens = 0, lastCheck = 0\<rparr>], ll_cfg = \<lparr>RLEnabled = True, RLRequestsPerSec = 1, RLBurstSize = 2, RLCleanupInterval = 60\<rparr>\<rparr>"
  have e: "local_allow ''k'' 1 5 100000000 ?ll =
    (Inr (False, 0, unix_secs (100000000 + 1000000000)), snd (local_allow ''k'' 1 5 100000000 ?ll))"
    by (simp add: local_allow_def Let_def Seconds_def second_def go_min_def go_div_def)
  show ?thesis
    using local_allow_denial_keeps_tokens [where b = "\<lparr>tokens = 0, lastCheck = 0\<rparr>", OF _ _ _ _ e]
    by simp
qed

text \<open>
  One sweep of the cleanup loop keeps exactly the buckets used at or after
  \<open>now - interval\<close>, unchanged, and deletes the others.
\<close>

lemma cleanup_step_keeps_recent:
  "requests (cleanup_step interval now ll) k = Some b \<longleftrightarrow>
   requests ll k = Some b \<and> now - interval \<le> lastCheck b"
  by (auto simp: cleanup_step_def split: option.splits)

text \<open>
  C20: the shared-store path reports no future reset time. The script returns
  \<open>now + 1/rate\<close>, which the store truncates to an integer; for any rate of 2 or more
  that is \<open>now\<close> itself, so \<open>X-RateLimit-Reset\<close> is the current second and the
  429 body's \<open>retry_after\<close> is zero or negative.
\<close>

theorem redis_reset_now:
  assumes "2 \<le> rate" and "0 \<le> now"
  shows "snd (snd (fst (redis_script key rate burst now store))) = now"
proof -
  have pos: "0 < 1 / (of_int rate :: real)" and "1 / (of_int rate :: real) < 1"
    using assms(1) by simp_all
  then have "\<lfloor>of_int now + 1 / (of_int rate :: real)\<rfloor> = now" by (simp add: floor_eq_iff)
  moreover have "0 \<le> of_int now + 1 / (of_int rate :: real)" using assms(2) pos by simp
  ultimately show ?thesis using assms(1) by (simp add: redis_script_def Let_def go_trunc_def)
qed

theorem redis_reset_now_witness:
  "snd (snd (fst (redis_script ''k'' 100 200 1700000000 Map.empty))) = 1700000000"
  by (rule redis_reset_now) simp_all

text \<open>
  The two backends disagree on a fresh key when \<open>burst = 0\<close>: the local bucket
  allows the first call, the store script denies it.
\<close>

lemma backends_disagree_zero_burst:
  "fst (local_allow ''k'' 1 0 0 \<lparr>requests = Map.empty, ll_cfg = c\<rparr>) = Inr (True, -1, 1) \<and>
   fst (fst (redis_script ''k'' 1 0 0 Map.empty)) = 0"
  by (simp add: local_allow_def redis_script_def Let_def unix_secs_def second_def)

text \<open>
  C21: when a store client is configured the cleanup loop is never started, yet every
  failed store call falls back to the local map and adds a bucket there: buckets
  created on fallback are never evicted.
\<close>

theorem fallback_buckets_never_swept:
  assumes "rl_allow False key rps burst now (NewRateLimiter cfg True) = (r, rl')"
  shows "\<not> sweeper_running rl' \<and> requests (local rl') key \<noteq> None"
  using assms
  by (auto simp: rl_allow_def redisAllow_def NewRateLimiter_def local_allow_def)

theorem fallback_buckets_never_swept_witness:
  "\<not> sweeper_running (snd (rl_allow False ''k'' 1 1 0 (NewRateLimiter \<lparr>RLEnabled = True, RLRequestsPerSec = 1, RLBurstSize = 1, RLCleanupInterval = 60\<rparr> True))) \<and>
   requests (local (snd (rl_allow False ''k'' 1 1 0 (NewRateLimiter \<lparr>RLEnabled = True, RLRequestsPerSec = 1, RLBurstSize = 1, RLCleanupInterval = 60\<rparr> True)))) ''k'' \<noteq> None"
  using fallback_buckets_never_swept [of "''k''" 1 1 0 "\<lparr>RLEnabled = True, RLRequestsPerSec = 1, RLBurstSize = 1, RLCleanupInterval = 60\<rparr>"] by (metis prod.collapse)

end
