(* ===== verification/Health.thy ===== *)
theory Health
  imports Proxy
begin

text \<open>
  The health endpoints of \<open>internal/handler/health.go\<close>: the handler and its route
  registration, \<open>Health\<close> and \<open>Live\<close>, \<open>Ready\<close>, whose loop over the registry stops
  at the first unhealthy service, \<open>ServicesHealth\<close>, and the memory statistics with
  \<open>bToMb\<close>. The formatted clock reading and uptime, and \<open>runtime.MemStats\<close>, are
  parameters; \<open>Ready\<close> and \<open>ServicesHealth\<close> keep the status code and the
  service map of their answers.
\<close>

record HealthHandler =
  hh_proxy :: ServiceProxy

definition NewHealthHandler :: "ServiceProxy \<Rightarrow> HealthHandler" where
  "NewHealthHandler p = \<lparr>hh_proxy = p\<rparr>"

datatype HealthEndpoint = EpHealth | EpReady | EpLive | EpServicesHealth

text \<open>\<open>RegisterRoutes\<close>: the routes registered on the application, with their handlers.\<close>

definition RegisterRoutes :: "(string \<times> string \<times> HealthEndpoint) list" where
  "RegisterRoutes =
     [(''GET'', ''/health'', EpHealth), (''GET'', ''/ready'', EpReady), (''GET'', ''/live'', EpLive),
      (''GET'', ''/health/services'', EpServicesHealth)]"

text \<open>The bodies of \<open>Health\<close> and \<open>Live\<close>, from the formatted time and uptime.\<close>

definition Health :: "string \<Rightarrow> string \<Rightarrow> (string \<times> string) list" where
  "Health timestamp uptime =
     [(''status'', ''healthy''), (''timestamp'', timestamp), (''uptime'', uptime), (''version'', ''1.0.0'')]"

definition Live :: "string \<Rightarrow> (string \<times> string) list" where
  "Live timestamp = [(''status'', ''alive''), (''timestamp'', timestamp)]"

text \<open>The loop of \<open>Ready\<close>: \<open>allHealthy\<close>, cleared at the first unhealthy entry.\<close>

fun all_healthy :: "(string \<times> bool) list \<Rightarrow> bool" where
  "all_healthy [] = True"
| "all_healthy ((name, healthy) # rest) = (if \<not> healthy then False else all_healthy rest)"

definition Ready :: "ServiceProxy \<Rightarrow> int \<times> string \<times> (string \<times> bool) list" where
  "Ready p =
     (let services = GetServicesHealth p;
          allHealthy = all_healthy services
      in if \<not> allHealthy then (503, ''not_ready'', services) else (200, ''ready'', services))"

definition ServicesHealth :: "ServiceProxy \<Rightarrow> (string \<times> string \<times> bool) list" where
  "ServicesHealth p =
     map (\<lambda>(name, healthy). (name, (if \<not> healthy then ''unhealthy'' else ''healthy''), healthy))
         (GetServicesHealth p)"

definition bToMb :: "64 word \<Rightarrow> 64 word" where
  "bToMb b = b div 1024 div 1024"

text \<open>The fields of \<open>runtime.MemStats\<close> that \<open>getMemoryStats\<close> reads.\<close>

record MemStats =
  Alloc :: "64 word"
  TotalAlloc :: "64 word"
  Sys :: "64 word"
  NumGC :: "32 word"

definition getMemoryStats :: "MemStats \<Rightarrow> (string \<times> 64 word) list" where
  "getMemoryStats m =
     [(''alloc_mb'', bToMb (Alloc m)), (''total_alloc_mb'', bToMb (TotalAlloc m)), (''sys_mb'', bToMb (Sys m)),
      (''num_gc'', ucast (NumGC m))]"

section \<open>Lemmas\<close>

text \<open>\<open>bToMb\<close> is the whole number of mebibytes, rounded down; it never exceeds its input.\<close>

lemma bToMb_unat: "unat (bToMb b) = unat b div 1048576"
  by (simp add: bToMb_def unat_div div_mult2_eq [symmetric])

lemma bToMb_le: "bToMb b \<le> b"
  by (simp add: word_le_nat_alt bToMb_unat)

lemma all_healthy_list_all: "all_healthy xs = list_all snd xs"
  by (induction xs rule: all_healthy.induct) auto

section \<open>Properties\<close>

text \<open>
  C27: readiness reflects liveness (spec 8, property 7): \<open>GET /ready\<close> answers 503
  exactly when some registered service is marked unhealthy, and 200 otherwise; the
  body lists every service with its flag.
\<close>

theorem Ready_iff_unhealthy:
  "fst (Ready p) = (if \<exists>n s. (n, s) \<in> set (services p) \<and> \<not> Healthy s then 503 else 200) \<and>
   snd (snd (Ready p)) = GetServicesHealth p"
  by (auto simp: Ready_def Let_def all_healthy_list_all GetServicesHealth_def list_all_iff) blast

text \<open>
  Readiness gating (spec 8, scenario S6). From the default registry, a prober tick in
  which the auth service's probe times out and the notifier's answers 200 makes
  \<open>GET /ready\<close> answer 503 with \<open>auth = false\<close>, makes requests routed to auth answer
  503 without reaching upstream, and leaves requests routed to the notifier forwarded.
\<close>

lemma readiness_gating:
  "let p = health_tick (\<lambda>r. if up_uri r = ''http://localhost:5000/api/health'' then Inl ''timeout''
                            else Inr \<lparr>ur_status = 200, ur_headers = [], ur_body = []\<rparr>)
                       (\<lambda>_. 9) (NewServiceProxy demo_services)
   in Ready p = (503, ''not_ready'', [(''auth'', False), (''notifier'', True)]) \<and>
      hr_status (fst (Forward p ''auth'' [] demo_request [] demo_upstream)) = 503 \<and>
      snd (Forward p ''auth'' [] demo_request [] demo_upstream) = None \<and>
      hr_status (fst (Forward p ''notifier'' [] demo_request [] demo_upstream)) = 201"
  by (simp add: health_tick_def HealthCheck_def GetService_def NewServiceProxy_def new_client_def
      demo_services_def health_request_def setServiceHealth_def Ready_def GetServicesHealth_def
      Forward_def json_response_def demo_upstream_def Let_def)

end
