(* ===== verification/Metrics.thy ===== *)
theory Metrics
  imports Middleware "HOL-Library.Multiset"
begin

text \<open>
  The Prometheus middleware of \<open>internal/middleware/metrics.go\<close>
  (\<open>src/unnamed/part_000\<close>). The collectors are process-wide state: each counter or
  histogram vector is the multiset of the samples recorded into it (the label values,
  with the observed value for a histogram), so a counter's value for a label tuple is
  the multiplicity of the tuple; the gauge of active connections is an integer. The
  middleware is a function of the collectors, the context it is called with and what
  \<open>c.Next()\<close> did: \<open>Some\<close> of the response and the context the chain returned
  with, or \<open>None\<close> when the chain panicked (the panic unwinds through the middleware,
  so nothing after \<open>c.Next()\<close> runs). The clock reading, Fiber's \<open>c.Route().Path\<close>
  after the chain and the size of the response body are parameters.
\<close>

section \<open>Collectors\<close>

record MetricsState =
  httpRequestsTotal :: "(string \<times> string \<times> string \<times> string) multiset"
  httpRequestDuration :: "((string \<times> string \<times> string) \<times> real) multiset"
  httpRequestSize :: "((string \<times> string) \<times> nat) multiset"
  httpResponseSize :: "((string \<times> string) \<times> nat) multiset"
  activeConnections :: int
  circuitBreakerState :: "string \<rightharpoonup> int"
  rateLimitExceeded :: "string multiset"
  upstreamErrors :: "(string \<times> string) multiset"
  upstreamLatency :: "(string \<times> real) multiset"

text \<open>The collectors as \<open>promauto\<close> registers them: empty, the gauge at 0.\<close>

definition empty_metrics :: MetricsState where
  "empty_metrics =
     \<lparr>httpRequestsTotal = {#}, httpRequestDuration = {#}, httpRequestSize = {#},
      httpResponseSize = {#}, activeConnections = 0, circuitBreakerState = Map.empty,
      rateLimitExceeded = {#}, upstreamErrors = {#}, upstreamLatency = {#}\<rparr>"

section \<open>The middleware\<close>

text \<open>The service label, read before \<open>c.Next()\<close>; \<open>"gateway"\<close> when unset or empty.\<close>

definition metrics_service :: "ReqCtx \<Rightarrow> string" where
  "metrics_service c =
     (case cx_service c of Some svc \<Rightarrow> if svc \<noteq> [] then svc else ''gateway'' | None \<Rightarrow> ''gateway'')"

text \<open>
  \<open>Metrics()\<close>: raise the gauge, run the chain, then record the request under
  method, route path (the request path when Fiber reports none), service and status.
\<close>

definition Metrics ::
  "MetricsState \<Rightarrow> ReqCtx \<Rightarrow> (HttpResponse \<times> ReqCtx) option \<Rightarrow> string \<Rightarrow> real \<Rightarrow> nat \<Rightarrow> MetricsState" where
  "Metrics ms0 c out routePath duration respSize =
     (let ms1 = ms0\<lparr>activeConnections := activeConnections ms0 + 1\<rparr>;
          serviceName = metrics_service c
      in case out of
           None \<Rightarrow> ms1
         | Some (resp, c') \<Rightarrow>
             (let code = hr_status resp;
                  status = Itoa code;
                  method = rq_method (cx_req c');
                  path = (if routePath = [] then rq_path (cx_req c') else routePath);
                  ms2 = ms1\<lparr>httpRequestsTotal := add_mset (method, path, serviceName, status) (httpRequestsTotal ms1),
                            httpRequestDuration := add_mset ((method, path, serviceName), duration) (httpRequestDuration ms1),
                            httpRequestSize := add_mset ((method, path), length (rq_body (cx_req c'))) (httpRequestSize ms1),
                            httpResponseSize := add_mset ((method, path), respSize) (httpResponseSize ms1),
                            activeConnections := activeConnections ms1 - 1\<rparr>;
                  ms3 = (if code = 429 then ms2\<lparr>rateLimitExceeded := add_mset path (rateLimitExceeded ms2)\<rparr> else ms2);
                  ms4 = (if 500 \<le> code then ms3\<lparr>upstreamErrors := add_mset (serviceName, ''5xx'') (upstreamErrors ms3)\<rparr>
                         else if code = 502 \<or> code = 503
                         then ms3\<lparr>upstreamErrors := add_mset (serviceName, ''upstream_unavailable'') (upstreamErrors ms3)\<rparr>
                         else ms3)
              in ms4\<lparr>upstreamLatency := add_mset (serviceName, duration) (upstreamLatency ms4)\<rparr>))"

text \<open>\<open>UpdateCircuitBreakerMetric\<close>; nothing in the repository calls it.\<close>

definition UpdateCircuitBreakerMetric :: "string \<Rightarrow> int \<Rightarrow> MetricsState \<Rightarrow> MetricsState" where
  "UpdateCircuitBreakerMetric service st ms =
     ms\<lparr>circuitBreakerState := (circuitBreakerState ms)(service \<mapsto> st)\<rparr>"

text \<open>\<open>GetMetricsHandler\<close>: passes on; \<open>promhttp\<close> in \<open>main\<close> serves the metrics.\<close>

definition GetMetricsHandler :: "ReqCtx \<Rightarrow> StageResult" where
  "GetMetricsHandler c = Next c"

section \<open>Lemmas\<close>

lemma Metrics_panic:
  "Metrics ms c None rp d rs = ms\<lparr>activeConnections := activeConnections ms + 1\<rparr>"
  by (simp add: Metrics_def)

lemma Metrics_gauge:
  "activeConnections (Metrics ms c out rp d rs) = activeConnections ms + (if out = None then 1 else 0)"
  by (auto simp: Metrics_def Let_def split: option.splits)

lemma Metrics_requests_total:
  "out = Some (resp, c') \<Longrightarrow>
   httpRequestsTotal (Metrics ms c out rp d rs) =
     add_mset (rq_method (cx_req c'), if rp = [] then rq_path (cx_req c') else rp, metrics_service c,
               Itoa (hr_status resp)) (httpRequestsTotal ms)"
  by (simp add: Metrics_def Let_def)

section \<open>Properties\<close>

text \<open>
  C36: the \<open>upstream_unavailable\<close> error type is never recorded. The branch for 502
  and 503 follows the test \<open>status >= 500\<close>, which already holds for both, so every
  502 and 503 is counted as \<open>5xx\<close> and the \<open>upstream_unavailable\<close> series of
  \<open>gateway_upstream_errors_total\<close> stays at its value whatever the request.
\<close>

theorem Metrics_no_upstream_unavailable:
  "count (upstreamErrors (Metrics ms c out rp d rs)) (s, ''upstream_unavailable'') =
   count (upstreamErrors ms) (s, ''upstream_unavailable'') \<and>
   (out = Some (resp, c') \<longrightarrow> (hr_status resp = 502 \<or> hr_status resp = 503) \<longrightarrow>
      count (upstreamErrors (Metrics ms c out rp d rs)) (metrics_service c, ''5xx'') =
      Suc (count (upstreamErrors ms) (metrics_service c, ''5xx'')))"
  by (auto simp: Metrics_def Let_def split: option.splits)

theorem Metrics_no_upstream_unavailable_witness:
  "count (upstreamErrors (Metrics empty_metrics (new_ctx demo_request ''gw'')
            (Some (json_response 502 (JsonError ''bad gateway'') [], new_ctx demo_request ''gw'')) [] 0.5 10))
      (''gateway'', ''5xx'') = 1"
  using Metrics_no_upstream_unavailable [of empty_metrics "new_ctx demo_request ''gw''"
          "Some (json_response 502 (JsonError ''bad gateway'') [], new_ctx demo_request ''gw'')" "[]" "0.5" 10
          "''gateway''" "json_response 502 (JsonError ''bad gateway'') []" "new_ctx demo_request ''gw''"]
  by (simp add: empty_metrics_def metrics_service_def json_response_def)

end
