(* ===== verification/Tracing.thy ===== *)
theory Tracing
  imports Middleware
begin

text \<open>
  The tracing middleware of \<open>internal/middleware/tracing.go\<close>. What the middleware
  decides is modelled: the span's name, the attributes it sets before and after
  \<open>c.Next()\<close>, the status it gives the span and the error it records, and the trace
  context it injects into the request headers. The OpenTelemetry SDK is a collaborator:
  the span is a record of what the middleware handed to it, and the \<open>traceparent\<close>
  value the W3C propagator writes is a parameter (\<open>None\<close> when the span context is
  not valid, as with the no-op tracer, and the propagator then writes nothing). The
  attribute keys are those of the \<open>semconv\<close> helpers the code calls.
\<close>

section \<open>Spans\<close>

datatype AttrValue = AttrString string | AttrInt int | AttrFloat real

datatype SpanStatus = StatusUnset | StatusOk | StatusError string

record Span =
  sp_name :: string
  sp_attrs :: "(string \<times> AttrValue) list"
  sp_status :: SpanStatus
  sp_errors :: "string list"

text \<open>\<open>c.OriginalURL()\<close>: the request target as the client sent it.\<close>

definition OriginalURL :: "ClientRequest \<Rightarrow> string" where
  "OriginalURL rq = rq_path rq @ (if rq_query rq = [] then [] else ''?'' @ rq_query rq)"

text \<open>A context value that is set contributes its attribute (\<open>c.Locals(k).(string)\<close>).\<close>

definition local_attr :: "string \<Rightarrow> string option \<Rightarrow> (string \<times> AttrValue) list" where
  "local_attr k v = (case v of Some s \<Rightarrow> [(k, AttrString s)] | None \<Rightarrow> [])"

section \<open>Carriers\<close>

text \<open>
  The two \<open>TextMapCarrier\<close> adapters the propagator reads and writes through:
  \<open>fiberHeaderCarrier\<close> (extraction) reads request headers with \<open>c.Get\<close> and
  writes response headers with \<open>c.Set\<close>; \<open>fiberRequestCarrier\<close> (injection)
  reads and writes the request headers. \<open>Keys\<close> visits the request headers in order.
\<close>

definition fiberHeaderCarrier_Get :: "string \<Rightarrow> ReqCtx \<Rightarrow> string" where
  "fiberHeaderCarrier_Get k c = ctx_get k c"

definition fiberHeaderCarrier_Set :: "string \<Rightarrow> string \<Rightarrow> ReqCtx \<Rightarrow> ReqCtx" where
  "fiberHeaderCarrier_Set k v c = resp_set k v c"

definition fiberRequestCarrier_Get :: "string \<Rightarrow> ReqCtx \<Rightarrow> string" where
  "fiberRequestCarrier_Get k c = hdr_get normalizeHeaderKey k (rq_headers (cx_req c))"

definition fiberRequestCarrier_Set :: "string \<Rightarrow> string \<Rightarrow> ReqCtx \<Rightarrow> ReqCtx" where
  "fiberRequestCarrier_Set k v c = req_set k v c"

definition carrier_Keys :: "ReqCtx \<Rightarrow> string list" where
  "carrier_Keys c = map fst (rq_headers (cx_req c))"

definition fiberRequestCarrier_Keys :: "ReqCtx \<Rightarrow> string list" where
  "fiberRequestCarrier_Keys c = map fst (rq_headers (cx_req c))"

section \<open>The middleware\<close>

text \<open>
  Before \<open>c.Next()\<close>: start the span named after method and path, set the request
  attributes and those of the context values present, and inject the trace context.
  \<open>routePath\<close> is Fiber's \<open>c.Route().Path\<close> while the middleware runs.
\<close>

definition Tracing_start :: "string \<Rightarrow> string option \<Rightarrow> ReqCtx \<Rightarrow> Span \<times> ReqCtx" where
  "Tracing_start routePath traceparent c =
     (let rq = cx_req c;
          attrs = [(''http.method'', AttrString (rq_method rq)), (''http.route'', AttrString routePath),
                   (''http.url'', AttrString (OriginalURL rq)),
                   (''http.user_agent'', AttrString (ctx_get ''User-Agent'' c)),
                   (''http.client_ip'', AttrString (rq_ip rq))];
          custom = local_attr ''request.id'' (cx_request_id c) @ local_attr ''tenant.id'' (cx_tenant_id c) @
                   local_attr ''user.id'' (cx_user_id c) @ local_attr ''upstream.service'' (cx_service c);
          sp = \<lparr>sp_name = rq_method rq @ '' '' @ rq_path rq, sp_attrs = attrs @ custom,
                sp_status = StatusUnset, sp_errors = []\<rparr>
      in (sp, case traceparent of Some tp \<Rightarrow> fiberRequestCarrier_Set ''traceparent'' tp c | None \<Rightarrow> c))"

text \<open>
  After \<open>c.Next()\<close> returned: the response attributes, the status (error from 400
  on), and the returned error if any. A panic skips all of it; the deferred
  \<open>span.End()\<close> still ends the span.
\<close>

definition Tracing_finish :: "Span \<Rightarrow> int \<Rightarrow> nat \<Rightarrow> int \<Rightarrow> GoError option \<Rightarrow> Span" where
  "Tracing_finish sp statusCode respLen durationMs err =
     (let sp1 = sp\<lparr>sp_attrs := sp_attrs sp @
                     [(''http.status_code'', AttrInt statusCode),
                      (''http.response_content_length'', AttrInt (int respLen)),
                      (''http.duration_ms'', AttrFloat (real_of_int durationMs))]\<rparr>;
          sp2 = (if 400 \<le> statusCode then sp1\<lparr>sp_status := StatusError ''HTTP error''\<rparr>
                 else sp1\<lparr>sp_status := StatusOk\<rparr>)
      in case err of None \<Rightarrow> sp2 | Some e \<Rightarrow> sp2\<lparr>sp_errors := sp_errors sp2 @ [error_text e]\<rparr>)"

section \<open>Lemmas\<close>

lemma Tracing_start_ctx [simp]:
  "cx_service (snd (Tracing_start rp tp c)) = cx_service c"
  "cx_route (snd (Tracing_start rp tp c)) = cx_route c"
  "cx_request_id (snd (Tracing_start rp tp c)) = cx_request_id c"
  "cx_tenant_id (snd (Tracing_start rp tp c)) = cx_tenant_id c"
  "cx_user_id (snd (Tracing_start rp tp c)) = cx_user_id c"
  "cx_user (snd (Tracing_start rp tp c)) = cx_user c"
  "cx_is_public (snd (Tracing_start rp tp c)) = cx_is_public c"
  "cx_resp_headers (snd (Tracing_start rp tp c)) = cx_resp_headers c"
  "rq_method (cx_req (snd (Tracing_start rp tp c))) = rq_method (cx_req c)"
  "rq_path (cx_req (snd (Tracing_start rp tp c))) = rq_path (cx_req c)"
  "rq_ip (cx_req (snd (Tracing_start rp tp c))) = rq_ip (cx_req c)"
  by (simp_all add: Tracing_start_def Let_def fiberRequestCarrier_Set_def req_set_def split: option.split)

lemma Tracing_start_span:
  "sp_name (fst (Tracing_start rp tp c)) = rq_method (cx_req c) @ '' '' @ rq_path (cx_req c)"
  "sp_status (fst (Tracing_start rp tp c)) = StatusUnset"
  "fst ` set (sp_attrs (fst (Tracing_start rp tp c))) =
     {''http.method'', ''http.route'', ''http.url'', ''http.user_agent'', ''http.client_ip''} \<union>
     fst ` set (local_attr ''request.id'' (cx_request_id c) @ local_attr ''tenant.id'' (cx_tenant_id c) @
                local_attr ''user.id'' (cx_user_id c) @ local_attr ''upstream.service'' (cx_service c))"
  by (auto simp: Tracing_start_def Let_def)

text \<open>
  What the injection writes, extraction on the next hop reads back: the injected
  \<open>traceparent\<close> is the request header the upstream receives under that name.
\<close>

lemma fiberRequestCarrier_roundtrip:
  "fiberRequestCarrier_Get k (fiberRequestCarrier_Set k v c) = v"
  by (simp add: fiberRequestCarrier_Get_def fiberRequestCarrier_Set_def req_set_def hdr_get_set)

lemma Tracing_start_injects:
  "fiberRequestCarrier_Get ''traceparent'' (snd (Tracing_start rp (Some tp) c)) = tp"
  by (simp add: Tracing_start_def Let_def fiberRequestCarrier_roundtrip)

lemma Tracing_finish_sel:
  "sp_name (Tracing_finish sp s n d e) = sp_name sp"
  "fst ` set (sp_attrs (Tracing_finish sp s n d e)) =
     fst ` set (sp_attrs sp) \<union> {''http.status_code'', ''http.response_content_length'', ''http.duration_ms''}"
  "sp_status (Tracing_finish sp s n d e) = (if 400 \<le> s then StatusError ''HTTP error'' else StatusOk)"
  by (auto simp: Tracing_finish_def Let_def split: option.split)

end
