(* ===== verification/Pipeline.thy ===== *)
theory Pipeline
  imports Middleware Breaker RateLimit Health Metrics Tracing
begin

text \<open>
  The request pipeline as the application assembles it: \<open>setupMiddleware\<close> of
  \<open>cmd/main.go\<close> (staged in \<open>src/tests/integration/gateway_test.go\<close>) installs,
  in this order, Fiber's recovery, \<open>RequestID\<close>, \<open>SecurityHeaders\<close>,
  \<open>CORS(["*"])\<close>, tracing, metrics, \<open>RequestLogger\<close>, \<open>ContentType\<close>,
  \<open>TenantExtractor\<close>, authentication, rate limiting and circuit breaking; \<open>main\<close>
  then registers the health endpoints and the routes of \<open>SetupRoutes\<close>, whose
  handlers (\<open>createProxyHandler\<close>) set the \<open>route\<close>, \<open>isPublic\<close> and
  \<open>service\<close> context values and call \<open>Forward\<close>. Each stage is a function of the
  context it receives; \<open>c.Next()\<close> is the call of the next stage, and the context a
  stage hands on, or the one it returns with, is the shared \<open>fiber.Ctx\<close> as it stands
  at that moment. Tracing (installed when \<open>cfg.Tracing.Enabled\<close>) and metrics are
  the stages of their own theories; the collectors are part of the state a request
  updates.
\<close>

section \<open>State and environment\<close>

text \<open>The long-lived objects one request reads and updates.\<close>

record GwState =
  gw_limiter :: RateLimiter
  gw_breakers :: CircuitBreakerManager
  gw_proxy :: ServiceProxy
  gw_metrics :: MetricsState

text \<open>
  What the outside world contributes to one request: the UUID \<open>RequestID\<close> would
  generate, the JWT library, whether the shared store answers, the clock at the start
  and at the end of the request, the upstream's answer to the request sent, the route
  path Fiber reports after the chain, the size of the response body, and the trace
  context the tracer injects.
\<close>

record Env =
  env_uuid :: string
  env_parse :: jwt_parser
  env_redis_up :: bool
  env_start :: nat
  env_end :: nat
  env_upstream :: "UpstreamRequest \<Rightarrow> string + UpstreamResponse"
  env_route_path :: string
  env_resp_size :: nat
  env_traceparent :: "string option"

text \<open>The configuration \<open>main\<close> builds the stages from.\<close>

record Gateway =
  gw_routes :: "Route list"
  gw_auth :: AuthConfig
  gw_logger :: SimpleLogger
  gw_origins :: "string list"
  gw_tracing :: bool

section \<open>Dispatch\<close>

text \<open>
  Fiber's matching of a registered pattern: a pattern ending in \<open>/*\<close> matches its
  prefix and everything below it, any other pattern matches the path exactly.
\<close>

definition fiber_match :: "string \<Rightarrow> string \<Rightarrow> bool" where
  "fiber_match pattern path =
     (if HasSuffix pattern ''/*''
      then (let p = take (length pattern - 2) pattern in path = p \<or> HasPrefix path (p @ ''/''))
      else path = pattern)"

text \<open>The endpoints \<open>main\<close> registers before the routes.\<close>

definition internal_endpoints :: "(string \<times> string) list" where
  "internal_endpoints =
     [(''GET'', ''/health''), (''GET'', ''/ready''), (''GET'', ''/live''), (''GET'', ''/health/services''),
      (''GET'', ''/metrics''), (''GET'', ''/circuit-breakers'')]"

datatype Target = InternalEndpoint string | ProxyRoute Route | NotFound

definition dispatch :: "Route list \<Rightarrow> string \<Rightarrow> string \<Rightarrow> Target" where
  "dispatch routes method path =
     (if (method, path) \<in> set internal_endpoints then InternalEndpoint path
      else (case find (\<lambda>(m, pat, r). m = method \<and> fiber_match pat path) (SetupRoutes routes) of
              Some (_, _, r) \<Rightarrow> ProxyRoute r
            | None \<Rightarrow> NotFound))"

text \<open>\<open>createProxyHandler\<close>: the context values it sets, then \<open>Forward\<close>.\<close>

definition createProxyHandler ::
  "Route \<Rightarrow> Env \<Rightarrow> GwState \<Rightarrow> ReqCtx \<Rightarrow> HttpResponse \<times> UpstreamRequest option \<times> ReqCtx" where
  "createProxyHandler route env st c =
     (let c' = c\<lparr>cx_route := Some route, cx_is_public := Some (Public route), cx_service := Some (Service route)\<rparr>;
          (resp, up) = Forward (gw_proxy st) (Service route) (strip_prefix_of route) (cx_req c')
                         (cx_resp_headers c') (env_upstream env)
      in (resp, up, c'))"

text \<open>
  The handler that answers: a health endpoint (\<open>/ready\<close> with its status; the bodies
  of the others are not modelled), a route's proxy handler, or the catch-all 404 of
  \<open>SetupRoutes\<close>.
\<close>

definition route_stage ::
  "Gateway \<Rightarrow> Env \<Rightarrow> GwState \<Rightarrow> ReqCtx \<Rightarrow> HttpResponse \<times> UpstreamRequest option \<times> ReqCtx" where
  "route_stage g env st c =
     (case dispatch (gw_routes g) (rq_method (cx_req c)) (rq_path (cx_req c)) of
        ProxyRoute route \<Rightarrow> createProxyHandler route env st c
      | InternalEndpoint p \<Rightarrow>
          (\<lparr>hr_status = (if p = ''/ready'' then fst (Ready (gw_proxy st)) else 200),
            hr_headers = cx_resp_headers c, hr_body = NoBody\<rparr>, None, c)
      | NotFound \<Rightarrow>
          (json_response 404 (JsonMap [(''error'', ''not_found''),
                                       (''message'', ''The requested resource was not found''),
                                       (''path'', rq_path (cx_req c))]) (cx_resp_headers c), None, c))"

section \<open>The chain\<close>

text \<open>What the part of the chain below a stage did: answered, or panicked.\<close>

datatype PipeOut = Done HttpResponse "UpstreamRequest option" ReqCtx | Panicked string ReqCtx

definition cb_message :: "string \<Rightarrow> string" where
  "cb_message e =
     (if e = ''service_unavailable'' then ''Service temporarily unavailable, please try again later''
      else ''Service is recovering, please try again'')"

text \<open>
  \<open>CircuitBreakerManager.Middleware\<close> around the handler: the breaker reads the
  \<open>service\<close> and \<open>route\<close> values of the context it is called with; the handler's
  status is what the protected call reports.
\<close>

definition cb_stage :: "Gateway \<Rightarrow> Env \<Rightarrow> GwState \<Rightarrow> ReqCtx \<Rightarrow> PipeOut \<times> GwState" where
  "cb_stage g env st c =
     (let (resp, up, c') = route_stage g env st c;
          (out, m') = cb_Middleware (gw_breakers st) (cx_service c) (cx_route c) (env_start env) (env_end env)
                        \<lparr>nr_status = hr_status resp, nr_err = False, nr_panic = False\<rparr>;
          st' = st\<lparr>gw_breakers := m'\<rparr>
      in (case out of
            CbRejected e \<Rightarrow>
              (Done (json_response 503 (JsonMap [(''error'', e), (''message'', cb_message e),
                                                  (''service'', the (cx_service c))]) (cx_resp_headers c))
                    None c, st')
          | CbPanicked \<Rightarrow> (Panicked ''upstream panic'' c', st')
          | _ \<Rightarrow> (Done resp up c', st')))"

text \<open>\<open>RateLimiter.Middleware\<close>, then the breaker stage.\<close>

definition rl_stage :: "Gateway \<Rightarrow> Env \<Rightarrow> GwState \<Rightarrow> ReqCtx \<Rightarrow> PipeOut \<times> GwState" where
  "rl_stage g env st c =
     (let ((out, hs), rl') = rl_Middleware (gw_limiter st) (cx_route c) (cx_user_id c) (rq_ip (cx_req c))
                               (rq_path (cx_req c)) (env_redis_up env) (int (env_start env)) (int (env_start env));
          c1 = fold (\<lambda>(k, v). resp_set k v) hs c;
          st1 = st\<lparr>gw_limiter := rl'\<rparr>
      in (case out of
            RlNext \<Rightarrow> cb_stage g env st1 c1
          | RlDenied retry \<Rightarrow>
              (Done (json_response 429 (JsonMap [(''error'', ''rate_limit_exceeded''),
                                                  (''message'', ''Too many requests, please try again later''),
                                                  (''retry_after'', Itoa retry)]) (cx_resp_headers c1))
                    None c1, st1)
          | RlPanicked \<Rightarrow> (Panicked ''runtime error: integer divide by zero'' c, st1)))"

text \<open>A middleware that may answer by itself, in front of the rest of the chain.\<close>

definition guard :: "StageResult \<Rightarrow> (ReqCtx \<Rightarrow> PipeOut \<times> GwState) \<Rightarrow> GwState \<Rightarrow> PipeOut \<times> GwState" where
  "guard r rest st = (case r of Respond resp c \<Rightarrow> (Done resp None c, st) | Next c \<Rightarrow> rest c)"

text \<open>From \<open>ContentType\<close> inwards: content type, tenant, authentication, limiter, breaker.\<close>

definition inner_chain :: "Gateway \<Rightarrow> Env \<Rightarrow> GwState \<Rightarrow> ReqCtx \<Rightarrow> PipeOut \<times> GwState" where
  "inner_chain g env st c =
     guard (ContentType c)
       (\<lambda>c1. guard (Auth (gw_auth g) (env_parse env) (int (env_start env)) (TenantExtractor c1))
                (rl_stage g env st) st) st"

definition out_ctx :: "PipeOut \<Rightarrow> ReqCtx" where
  "out_ctx out = (case out of Done _ _ c \<Rightarrow> c | Panicked _ c \<Rightarrow> c)"

text \<open>
  \<open>Tracing(cfg.Tracing.ServiceName)\<close> when tracing is enabled: it runs inside the
  \<open>app.Use\<close> route of path \<open>"/"\<close>.
\<close>

definition traced :: "Gateway \<Rightarrow> Env \<Rightarrow> ReqCtx \<Rightarrow> Span option \<times> ReqCtx" where
  "traced g env c =
     (if gw_tracing g then (let (sp, c') = Tracing_start ''/'' (env_traceparent env) c in (Some sp, c'))
      else (None, c))"

text \<open>
  The result of serving one request: the response, the upstream request sent, the
  context as the chain left it, the log lines, the span (none when tracing is off or the
  request was answered before the tracing stage) and whether the chain panicked.
\<close>

record Served =
  sv_resp :: HttpResponse
  sv_upstream :: "UpstreamRequest option"
  sv_ctx :: ReqCtx
  sv_logs :: "LogEvent list"
  sv_span :: "Span option"
  sv_panicked :: bool

text \<open>
  The whole chain. Fiber's recovery turns a panic into an error, which the application's
  \<open>ErrorHandler\<close> (\<open>ErrorLogger\<close>) answers with 500; \<open>RequestLogger\<close> logs only
  when the chain below it returns, so a panic is logged by the error handler alone, and
  the stages after \<open>c.Next()\<close> in tracing and metrics do not run.
\<close>

definition serve :: "Gateway \<Rightarrow> Env \<Rightarrow> ReqCtx \<Rightarrow> GwState \<Rightarrow> Served \<times> GwState" where
  "serve g env c0 st =
     (let c1 = SecurityHeaders (RequestID (env_uuid env) c0)
      in case CORS (gw_origins g) c1 of
           Respond resp c2 \<Rightarrow>
             (\<lparr>sv_resp = resp, sv_upstream = None, sv_ctx = c2, sv_logs = [], sv_span = None,
               sv_panicked = False\<rparr>, st)
         | Next c2 \<Rightarrow>
             (let (span, c3) = traced g env c2;
                  (out, st1) = inner_chain g env st c3;
                  c4 = out_ctx out;
                  dur = env_end env - env_start env;
                  st2 = st1\<lparr>gw_metrics :=
                          Metrics (gw_metrics st1) c3
                            (case out of Done resp _ c' \<Rightarrow> Some (resp, c') | Panicked _ _ \<Rightarrow> None)
                            (env_route_path env) (real dur / 1000000000) (env_resp_size env)\<rparr>
              in case out of
                   Done resp up _ \<Rightarrow>
                     (\<lparr>sv_resp = resp, sv_upstream = up, sv_ctx = c4,
                       sv_logs = emit (gw_logger g)
                                  (RequestLogger_event c4 (hr_status resp) (int (dur div 1000000))),
                       sv_span = map_option (\<lambda>sp. Tracing_finish sp (hr_status resp) (env_resp_size env)
                                                   (int (dur div 1000000)) None) span,
                       sv_panicked = False\<rparr>, st2)
                 | Panicked msg _ \<Rightarrow>
                     (let (ev, resp) = ErrorLogger c4 (OtherError msg)
                      in (\<lparr>sv_resp = resp, sv_upstream = None, sv_ctx = c4, sv_logs = emit (gw_logger g) ev,
                           sv_span = span, sv_panicked = True\<rparr>, st2))))"

text \<open>The response header \<open>X-Request-ID\<close> as it stands in a context.\<close>

abbreviation rid_of :: "ReqCtx \<Rightarrow> string" where
  "rid_of c \<equiv> hdr_get normalizeHeaderKey ''X-Request-ID'' (cx_resp_headers c)"

section \<open>Sample values\<close>

text \<open>
  The default route table and configuration, a JWT library that accepts every token as
  \<open>demo_claims\<close>, and the sample upstream of the proxy theory.
\<close>

definition demo_gateway :: Gateway where
  "demo_gateway =
     \<lparr>gw_routes = DefaultRoutes, gw_auth = NewAuthMiddleware ''s'' DefaultRoutes,
      gw_logger = \<lparr>lg_level = ''info'', lg_format = ''json''\<rparr>, gw_origins = [''*''], gw_tracing = False\<rparr>"

definition demo_env :: Env where
  "demo_env =
     \<lparr>env_uuid = ''u-0'', env_parse = (\<lambda>_ _. Inr (demo_claims, True)), env_redis_up = False,
      env_start = 1000, env_end = 2000000, env_upstream = demo_upstream,
      env_route_path = ''/api/v1/users/*'', env_resp_size = 0, env_traceparent = None\<rparr>"

definition demo_state :: GwState where
  "demo_state =
     \<lparr>gw_limiter = NewRateLimiter \<lparr>RLEnabled = True, RLRequestsPerSec = 100, RLBurstSize = 200,
                                   RLCleanupInterval = 60000000000\<rparr> False,
      gw_breakers = NewCircuitBreakerManager default_circuit_config,
      gw_proxy = NewServiceProxy demo_services, gw_metrics = empty_metrics\<rparr>"

section \<open>Lemmas\<close>

lemma set_header_keys_not_request_id:
  "list_all (\<lambda>k. normalizeHeaderKey k \<noteq> normalizeHeaderKey ''X-Request-ID'')
     [''X-Content-Type-Options'', ''X-Frame-Options'', ''X-XSS-Protection'', ''Referrer-Policy'',
      ''Content-Security-Policy'', ''Permissions-Policy'', ''Server'',
      ''Access-Control-Allow-Origin'', ''Access-Control-Allow-Credentials'', ''Access-Control-Allow-Methods'',
      ''Access-Control-Allow-Headers'', ''Access-Control-Max-Age'',
      ''X-RateLimit-Limit'', ''X-RateLimit-Remaining'', ''X-RateLimit-Reset'']"
  by code_simp

text \<open>The endpoints \<open>RegisterRoutes\<close> registers are among those dispatch answers first.\<close>

lemma RegisterRoutes_internal:
  "(m, p, ep) \<in> set RegisterRoutes \<Longrightarrow> dispatch routes m p = InternalEndpoint p"
  by (auto simp: RegisterRoutes_def dispatch_def internal_endpoints_def)

lemma fold_resp_set_sel [simp]:
  "cx_service (fold (\<lambda>(k, v). resp_set k v) hs c) = cx_service c"
  "cx_route (fold (\<lambda>(k, v). resp_set k v) hs c) = cx_route c"
  "cx_req (fold (\<lambda>(k, v). resp_set k v) hs c) = cx_req c"
  "cx_user_id (fold (\<lambda>(k, v). resp_set k v) hs c) = cx_user_id c"
  "cx_request_id (fold (\<lambda>(k, v). resp_set k v) hs c) = cx_request_id c"
  by (induction hs arbitrary: c) (auto simp: resp_set_def)

lemma fold_resp_set_sel' [simp]:
  "cx_service (fold (\<lambda>p. resp_set (fst p) (snd p)) hs c) = cx_service c"
  "cx_route (fold (\<lambda>p. resp_set (fst p) (snd p)) hs c) = cx_route c"
  "cx_req (fold (\<lambda>p. resp_set (fst p) (snd p)) hs c) = cx_req c"
  "cx_user_id (fold (\<lambda>p. resp_set (fst p) (snd p)) hs c) = cx_user_id c"
  "cx_request_id (fold (\<lambda>p. resp_set (fst p) (snd p)) hs c) = cx_request_id c"
  by (induction hs arbitrary: c) (auto simp: resp_set_def)

lemma cb_stage_no_service:
  "cx_service c = None \<Longrightarrow> gw_breakers (snd (cb_stage g env st c)) = gw_breakers st"
  by (simp add: cb_stage_def cb_Middleware_def split_def Let_def)

lemma cb_stage_limiter: "gw_limiter (snd (cb_stage g env st c)) = gw_limiter st"
  by (simp add: cb_stage_def split_def Let_def split: CbOutcome.split)

lemma rl_stage_no_service:
  "cx_service c = None \<Longrightarrow> gw_breakers (snd (rl_stage g env st c)) = gw_breakers st"
  by (simp add: rl_stage_def split_def Let_def cb_stage_no_service split: RlOutcome.split)

lemma ContentType_Next: "ContentType c = Next c' \<Longrightarrow> c' = c"
  by (auto simp: ContentType_def Let_def respond_json_def split: if_splits)

lemma TenantExtractor_sel [simp]:
  "cx_service (TenantExtractor c) = cx_service c"
  "cx_route (TenantExtractor c) = cx_route c"
  "cx_is_public (TenantExtractor c) = cx_is_public c"
  "cx_request_id (TenantExtractor c) = cx_request_id c"
  "cx_resp_headers (TenantExtractor c) = cx_resp_headers c"
  by (simp_all add: TenantExtractor_def Let_def req_set_def)

lemma Auth_Next_sel:
  assumes "Auth cfg parse now c = Next c'"
  shows "cx_service c' = cx_service c \<and> cx_route c' = cx_route c \<and> cx_request_id c' = cx_request_id c \<and>
         cx_resp_headers c' = cx_resp_headers c"
  using assms
  by (auto simp: Auth_def Let_def unauthorized_def respond_json_def req_set_def
           split: if_splits sum.splits option.splits)

lemma RequestID_SecurityHeaders_sel [simp]:
  "cx_service (SecurityHeaders (RequestID u c)) = cx_service c"
  "cx_route (SecurityHeaders (RequestID u c)) = cx_route c"
  "cx_req (SecurityHeaders (RequestID u c)) = cx_req c"
  "cx_user_id (SecurityHeaders (RequestID u c)) = cx_user_id c"
  by (simp_all add: SecurityHeaders_def RequestID_def resp_set_def Let_def)

lemma CORS_Next_sel:
  assumes "CORS origins c = Next c'"
  shows "cx_service c' = cx_service c \<and> cx_route c' = cx_route c \<and> cx_req c' = cx_req c \<and>
         cx_request_id c' = cx_request_id c"
  using assms by (auto simp: CORS_def Let_def resp_set_def split: if_splits)

lemma inner_chain_no_service:
  assumes "cx_service c = None"
  shows "gw_breakers (snd (inner_chain g env st c)) = gw_breakers st"
proof (cases "ContentType c")
  case (Respond r c')
  then show ?thesis by (simp add: inner_chain_def guard_def)
next
  case (Next c1)
  then have c1: "c1 = c" by (rule ContentType_Next)
  show ?thesis
  proof (cases "Auth (gw_auth g) (env_parse env) (int (env_start env)) (TenantExtractor c)")
    case (Respond r c')
    then show ?thesis using Next c1 by (simp add: inner_chain_def guard_def)
  next
    case (Next c2)
    then have "cx_service c2 = None" using Auth_Next_sel [OF Next] assms by simp
    then show ?thesis
      using \<open>ContentType c = Next c1\<close> c1 Next by (simp add: inner_chain_def guard_def rl_stage_no_service)
  qed
qed

lemma rid_resp_set:
  "normalizeHeaderKey k \<noteq> normalizeHeaderKey ''X-Request-ID'' \<Longrightarrow> rid_of (resp_set k v c) = rid_of c"
  by (simp add: resp_set_def hdr_get_set_other)

lemma RequestID_rid:
  "rid_of (SecurityHeaders (RequestID u c)) =
     (if ctx_get ''X-Request-ID'' c = [] then u else ctx_get ''X-Request-ID'' c) \<and>
   cx_request_id (SecurityHeaders (RequestID u c)) =
     Some (if ctx_get ''X-Request-ID'' c = [] then u else ctx_get ''X-Request-ID'' c)"
  using set_header_keys_not_request_id
  by (simp add: SecurityHeaders_def RequestID_def Let_def rid_resp_set)
     (simp add: resp_set_def hdr_get_set)

lemma CORS_Next_rid:
  "CORS origins c = Next c' \<Longrightarrow> rid_of c' = rid_of c"
  using set_header_keys_not_request_id
  by (auto simp: CORS_def Let_def rid_resp_set split: if_splits)

lemma rl_Middleware_header_keys:
  "(k, v) \<in> set (snd (fst (rl_Middleware rl route u ip path up now now'))) \<Longrightarrow>
   k \<in> {''X-RateLimit-Limit'', ''X-RateLimit-Remaining'', ''X-RateLimit-Reset''}"
  by (auto simp: rl_Middleware_def rl_headers_def split_def Let_def split: sum.splits if_splits)

lemma fold_resp_set_rid:
  "(\<forall>(k, v) \<in> set hs. normalizeHeaderKey k \<noteq> normalizeHeaderKey ''X-Request-ID'') \<Longrightarrow>
   rid_of (fold (\<lambda>p. resp_set (fst p) (snd p)) hs c) = rid_of c"
  by (induction hs arbitrary: c) (auto simp: rid_resp_set)

lemma route_stage_rid:
  assumes "fst (snd (route_stage g env st c)) = Some up"
  shows "hdr_get normalizeHeaderKey ''X-Request-ID'' (up_headers up) = rid_of c \<and>
         cx_request_id (snd (snd (route_stage g env st c))) = cx_request_id c"
proof -
  obtain r where d: "dispatch (gw_routes g) (rq_method (cx_req c)) (rq_path (cx_req c)) = ProxyRoute r"
    using assms by (auto simp: route_stage_def split: Target.splits)
  let ?F = "Forward (gw_proxy st) (Service r) (strip_prefix_of r) (cx_req c) (cx_resp_headers c) (env_upstream env)"
  have f: "snd ?F = Some up" and c': "cx_request_id (snd (snd (route_stage g env st c))) = cx_request_id c"
    using assms d by (auto simp: route_stage_def createProxyHandler_def split_def Let_def)
  have e: "?F = (fst ?F, snd ?F)" by simp
  obtain svc where "up = build_upstream svc (strip_prefix_of r) (cx_req c) (cx_resp_headers c)"
    using Forward_cases [OF e] f by auto
  then show ?thesis using c' by (simp add: build_upstream_forwarding)
qed

lemma cb_stage_rid:
  assumes "fst (cb_stage g env st c) = Done resp (Some up) c'"
  shows "hdr_get normalizeHeaderKey ''X-Request-ID'' (up_headers up) = rid_of c \<and>
         cx_request_id c' = cx_request_id c"
proof -
  have "fst (snd (route_stage g env st c)) = Some up" and "c' = snd (snd (route_stage g env st c))"
    using assms by (auto simp: cb_stage_def split_def Let_def split: CbOutcome.splits)
  then show ?thesis using route_stage_rid by simp
qed

lemma rl_stage_rid:
  assumes "fst (rl_stage g env st c) = Done resp (Some up) c'"
  shows "hdr_get normalizeHeaderKey ''X-Request-ID'' (up_headers up) = rid_of c \<and>
         cx_request_id c' = cx_request_id c"
proof -
  let ?m = "rl_Middleware (gw_limiter st) (cx_route c) (cx_user_id c) (rq_ip (cx_req c)) (rq_path (cx_req c))
              (env_redis_up env) (int (env_start env)) (int (env_start env))"
  let ?c1 = "fold (\<lambda>p. resp_set (fst p) (snd p)) (snd (fst ?m)) c"
  have nx: "fst (cb_stage g env (st\<lparr>gw_limiter := snd ?m\<rparr>) ?c1) = Done resp (Some up) c'"
    using assms by (auto simp: rl_stage_def split_def Let_def split: RlOutcome.splits)
  have "\<forall>(k, v) \<in> set (snd (fst ?m)). normalizeHeaderKey k \<noteq> normalizeHeaderKey ''X-Request-ID''"
    using rl_Middleware_header_keys set_header_keys_not_request_id by fastforce
  then have "rid_of ?c1 = rid_of c" by (rule fold_resp_set_rid)
  then show ?thesis using cb_stage_rid [OF nx] by simp
qed

lemma inner_chain_rid:
  assumes "fst (inner_chain g env st c) = Done resp (Some up) c'"
  shows "hdr_get normalizeHeaderKey ''X-Request-ID'' (up_headers up) = rid_of c \<and>
         cx_request_id c' = cx_request_id c"
proof (cases "ContentType c")
  case (Respond r c0)
  then show ?thesis using assms by (simp add: inner_chain_def guard_def)
next
  case (Next c1)
  then have c1: "c1 = c" by (rule ContentType_Next)
  show ?thesis
  proof (cases "Auth (gw_auth g) (env_parse env) (int (env_start env)) (TenantExtractor c)")
    case (Respond r c0)
    then show ?thesis using assms Next c1 by (simp add: inner_chain_def guard_def)
  next
    case (Next c2)
    have "fst (rl_stage g env st c2) = Done resp (Some up) c'"
      using assms \<open>ContentType c = Next c1\<close> c1 Next by (simp add: inner_chain_def guard_def)
    then show ?thesis using rl_stage_rid Auth_Next_sel [OF Next] by simp
  qed
qed

lemma rl_Middleware_no_route:
  "snd (rl_Middleware rl None u ip path up now now') =
     (if RLEnabled (rl_cfg rl)
      then snd (rl_allow up (createKey u ip path) (RLRequestsPerSec (rl_cfg rl)) (RLBurstSize (rl_cfg rl)) now rl)
      else rl)"
  by (simp add: rl_Middleware_def effective_limits_def split_def Let_def split: sum.split)

lemma rl_stage_limiter:
  "gw_limiter (snd (rl_stage g env st c)) =
     snd (rl_Middleware (gw_limiter st) (cx_route c) (cx_user_id c) (rq_ip (cx_req c)) (rq_path (cx_req c))
            (env_redis_up env) (int (env_start env)) (int (env_start env)))"
  by (simp add: rl_stage_def split_def Let_def cb_stage_limiter split: RlOutcome.split)

lemma TenantExtractor_req_sel [simp]:
  "rq_ip (cx_req (TenantExtractor c)) = rq_ip (cx_req c)"
  "rq_path (cx_req (TenantExtractor c)) = rq_path (cx_req c)"
  by (simp_all add: TenantExtractor_def Let_def req_set_def)

lemma Auth_Next_req:
  assumes "Auth cfg parse now c = Next c'"
  shows "rq_ip (cx_req c') = rq_ip (cx_req c) \<and> rq_path (cx_req c') = rq_path (cx_req c)"
  using assms
  by (auto simp: Auth_def Let_def unauthorized_def respond_json_def req_set_def
           split: if_splits sum.splits option.splits)

lemma inner_chain_limiter:
  assumes "cx_route c = None"
  shows "gw_limiter (snd (inner_chain g env st c)) = gw_limiter st \<or>
         (\<exists>u. gw_limiter (snd (inner_chain g env st c)) =
              snd (rl_allow (env_redis_up env) (createKey u (rq_ip (cx_req c)) (rq_path (cx_req c)))
                     (RLRequestsPerSec (rl_cfg (gw_limiter st))) (RLBurstSize (rl_cfg (gw_limiter st)))
                     (int (env_start env)) (gw_limiter st)))"
proof (cases "ContentType c")
  case (Respond r c')
  then show ?thesis by (simp add: inner_chain_def guard_def)
next
  case (Next c1)
  then have c1: "c1 = c" by (rule ContentType_Next)
  show ?thesis
  proof (cases "Auth (gw_auth g) (env_parse env) (int (env_start env)) (TenantExtractor c)")
    case (Respond r c')
    then show ?thesis using Next c1 by (simp add: inner_chain_def guard_def)
  next
    case (Next c2)
    have "cx_route c2 = None" and "rq_ip (cx_req c2) = rq_ip (cx_req c)" and "rq_path (cx_req c2) = rq_path (cx_req c)"
      using Auth_Next_sel [OF Next] Auth_Next_req [OF Next] assms by simp_all
    then show ?thesis
      using \<open>ContentType c = Next c1\<close> c1 Next
      by (auto simp: inner_chain_def guard_def rl_stage_limiter rl_Middleware_no_route)
  qed
qed

lemma RequestID_SecurityHeaders_more [simp]:
  "cx_is_public (SecurityHeaders (RequestID u c)) = cx_is_public c"
  "cx_user (SecurityHeaders (RequestID u c)) = cx_user c"
  "cx_tenant_id (SecurityHeaders (RequestID u c)) = cx_tenant_id c"
  "cx_hostname (SecurityHeaders (RequestID u c)) = cx_hostname c"
  by (simp_all add: SecurityHeaders_def RequestID_def resp_set_def Let_def)

lemma ctx_get_RequestID_SecurityHeaders [simp]:
  "ctx_get k (SecurityHeaders (RequestID u c)) = ctx_get k c"
  by (simp add: ctx_get_def)

lemma cb_stage_skip:
  "cx_service c = None \<Longrightarrow>
   fst (cb_stage g env st c) =
     Done (fst (route_stage g env st c)) (fst (snd (route_stage g env st c))) (snd (snd (route_stage g env st c)))"
  by (simp add: cb_stage_def cb_Middleware_def split_def Let_def)

lemma route_stage_forwards:
  assumes "dispatch (gw_routes g) (rq_method (cx_req c)) (rq_path (cx_req c)) = ProxyRoute r"
    and "GetService (Service r) (gw_proxy st) = Some svc" and "Healthy svc"
  shows "fst (snd (route_stage g env st c)) \<noteq> None"
  using assms
  by (simp add: route_stage_def createProxyHandler_def split_def Let_def Forward_def split: sum.split)

lemma rl_stage_next:
  "fst (fst (rl_Middleware (gw_limiter st) (cx_route c) (cx_user_id c) (rq_ip (cx_req c)) (rq_path (cx_req c))
               (env_redis_up env) (int (env_start env)) (int (env_start env)))) = RlNext \<Longrightarrow>
   fst (rl_stage g env st c) =
     fst (cb_stage g env
            (st\<lparr>gw_limiter := snd (rl_Middleware (gw_limiter st) (cx_route c) (cx_user_id c) (rq_ip (cx_req c))
                                    (rq_path (cx_req c)) (env_redis_up env) (int (env_start env)) (int (env_start env)))\<rparr>)
            (fold (\<lambda>p. resp_set (fst p) (snd p))
               (snd (fst (rl_Middleware (gw_limiter st) (cx_route c) (cx_user_id c) (rq_ip (cx_req c))
                                         (rq_path (cx_req c)) (env_redis_up env) (int (env_start env))
                                         (int (env_start env))))) c))"
  by (simp add: rl_stage_def split_def Let_def)

lemma traced_ctx [simp]:
  "cx_service (snd (traced g env c)) = cx_service c"
  "cx_route (snd (traced g env c)) = cx_route c"
  "cx_request_id (snd (traced g env c)) = cx_request_id c"
  "cx_resp_headers (snd (traced g env c)) = cx_resp_headers c"
  "rq_ip (cx_req (snd (traced g env c))) = rq_ip (cx_req c)"
  "rq_path (cx_req (snd (traced g env c))) = rq_path (cx_req c)"
  by (simp_all add: traced_def split_def Let_def)

text \<open>Serving a request that passes CORS: the state, then the result on each outcome.\<close>

lemma serve_Next_state:
  assumes "CORS (gw_origins g) (SecurityHeaders (RequestID (env_uuid env) c0)) = Next c2"
  shows "snd (serve g env c0 st) =
           (snd (inner_chain g env st (snd (traced g env c2))))\<lparr>gw_metrics :=
              Metrics (gw_metrics (snd (inner_chain g env st (snd (traced g env c2))))) (snd (traced g env c2))
                (case fst (inner_chain g env st (snd (traced g env c2))) of
                   Done resp _ c' \<Rightarrow> Some (resp, c') | Panicked _ _ \<Rightarrow> None)
                (env_route_path env) (real (env_end env - env_start env) / 1000000000) (env_resp_size env)\<rparr>"
  using assms by (simp add: serve_def split_def Let_def split: PipeOut.split)

lemma serve_Next_Done:
  assumes "CORS (gw_origins g) (SecurityHeaders (RequestID (env_uuid env) c0)) = Next c2"
    and "fst (inner_chain g env st (snd (traced g env c2))) = Done resp up c'"
  shows "sv_resp (fst (serve g env c0 st)) = resp \<and> sv_upstream (fst (serve g env c0 st)) = up \<and>
         sv_ctx (fst (serve g env c0 st)) = c' \<and> \<not> sv_panicked (fst (serve g env c0 st)) \<and>
         sv_span (fst (serve g env c0 st)) =
           map_option (\<lambda>sp. Tracing_finish sp (hr_status resp) (env_resp_size env)
                              (int ((env_end env - env_start env) div 1000000)) None) (fst (traced g env c2))"
  using assms by (simp add: serve_def split_def Let_def out_ctx_def)

lemma serve_Next_Panicked:
  assumes "CORS (gw_origins g) (SecurityHeaders (RequestID (env_uuid env) c0)) = Next c2"
    and "fst (inner_chain g env st (snd (traced g env c2))) = Panicked msg c'"
  shows "sv_upstream (fst (serve g env c0 st)) = None \<and> sv_panicked (fst (serve g env c0 st)) \<and>
         sv_span (fst (serve g env c0 st)) = fst (traced g env c2)"
  using assms by (simp add: serve_def split_def Let_def out_ctx_def)

lemma CORS_Next_only_resp:
  "CORS origins c = Next c' \<Longrightarrow> c' = c\<lparr>cx_resp_headers := cx_resp_headers c'\<rparr>"
  by (auto simp: CORS_def Let_def resp_set_def split: if_splits)

lemma inner_chain_metrics:
  "gw_metrics (snd (inner_chain g env st c)) = gw_metrics st"
  by (simp add: inner_chain_def guard_def rl_stage_def cb_stage_def split_def Let_def
           split: StageResult.split RlOutcome.split CbOutcome.split)

text \<open>
  Every request the metrics record is recorded under the service label \<open>gateway\<close>:
  the label is read before the route handler sets the service.
\<close>

lemma serve_metrics_gateway_label:
  "httpRequestsTotal (gw_metrics (snd (serve g env (new_ctx rq h) st))) = httpRequestsTotal (gw_metrics st) \<or>
   (\<exists>m p s. httpRequestsTotal (gw_metrics (snd (serve g env (new_ctx rq h) st))) =
              add_mset (m, p, ''gateway'', s) (httpRequestsTotal (gw_metrics st)))"
proof (cases "CORS (gw_origins g) (SecurityHeaders (RequestID (env_uuid env) (new_ctx rq h)))")
  case (Respond r c2)
  then show ?thesis by (simp add: serve_def)
next
  case (Next c2)
  have "metrics_service (snd (traced g env c2)) = ''gateway''"
    using CORS_Next_sel [OF Next] by (simp add: metrics_service_def new_ctx_def)
  then show ?thesis
    using serve_Next_state [OF Next] Metrics_requests_total Metrics_panic inner_chain_metrics
    by (cases "fst (inner_chain g env st (snd (traced g env c2)))") auto
qed

lemma serve_span_some:
  assumes "gw_tracing g" "CORS (gw_origins g) (SecurityHeaders (RequestID (env_uuid env) c0)) = Next c2"
  shows "\<exists>sp. sv_span (fst (serve g env c0 st)) = Some sp"
proof (cases "fst (inner_chain g env st (snd (traced g env c2)))")
  case (Done resp up c')
  then show ?thesis using serve_Next_Done [OF assms(2) Done] assms(1) by (simp add: traced_def split_def Let_def)
next
  case (Panicked msg c')
  then show ?thesis using serve_Next_Panicked [OF assms(2) Panicked] assms(1) by (simp add: traced_def split_def Let_def)
qed

section \<open>Properties\<close>

text \<open>
  The circuit breaker is never consulted. The \<open>service\<close> context value is set
  only by the route handler, which runs after the breaker middleware has read it; so for
  every request, whatever its route and whatever the upstream answers, serving it leaves
  the breaker manager unchanged: no breaker is created, counts a failure or opens, and
  spec scenario S3 cannot happen.
\<close>

lemma serve_breakers_unchanged:
  "gw_breakers (snd (serve g env (new_ctx rq h) st)) = gw_breakers st"
proof (cases "CORS (gw_origins g) (SecurityHeaders (RequestID (env_uuid env) (new_ctx rq h)))")
  case (Respond r c2)
  then show ?thesis by (simp add: serve_def)
next
  case (Next c2)
  then have "cx_service (snd (traced g env c2)) = None" using CORS_Next_sel [OF Next] by (simp add: new_ctx_def)
  then have "gw_breakers (snd (inner_chain g env st (snd (traced g env c2)))) = gw_breakers st"
    by (rule inner_chain_no_service)
  then show ?thesis using serve_Next_state [OF Next] by simp
qed

text \<open>
  C29: route rate limits are never applied. The \<open>route\<close> context value is likewise
  unset when the limiter runs, so every request that changes the limiter does so as one
  call of \<open>rl_allow\<close> with the global rate and burst, keyed by client (or user), IP
  and path; the per-route limits of \<open>DefaultRoutes\<close> (e.g. 10/s on login) are dead.
\<close>

theorem serve_limiter_global_limits:
  "gw_limiter (snd (serve g env (new_ctx rq h) st)) = gw_limiter st \<or>
   (\<exists>u. gw_limiter (snd (serve g env (new_ctx rq h) st)) =
        snd (rl_allow (env_redis_up env) (createKey u (rq_ip rq) (rq_path rq))
               (RLRequestsPerSec (rl_cfg (gw_limiter st))) (RLBurstSize (rl_cfg (gw_limiter st)))
               (int (env_start env)) (gw_limiter st)))"
proof (cases "CORS (gw_origins g) (SecurityHeaders (RequestID (env_uuid env) (new_ctx rq h)))")
  case (Respond r c2)
  then show ?thesis by (simp add: serve_def)
next
  case (Next c2)
  let ?c3 = "snd (traced g env c2)"
  have "cx_route ?c3 = None" and "rq_ip (cx_req ?c3) = rq_ip rq" and "rq_path (cx_req ?c3) = rq_path rq"
    using CORS_Next_sel [OF Next] by (simp_all add: new_ctx_def)
  then have "gw_limiter (snd (inner_chain g env st ?c3)) = gw_limiter st \<or>
         (\<exists>u. gw_limiter (snd (inner_chain g env st ?c3)) =
              snd (rl_allow (env_redis_up env) (createKey u (rq_ip rq) (rq_path rq))
                     (RLRequestsPerSec (rl_cfg (gw_limiter st))) (RLBurstSize (rl_cfg (gw_limiter st)))
                     (int (env_start env)) (gw_limiter st)))"
    using inner_chain_limiter [of ?c3] by simp
  then show ?thesis using serve_Next_state [OF Next] by simp
qed

text \<open>
  C32: request ids propagate (spec 8, property 1). Whenever a request is forwarded, the
  upstream request's \<open>X-Request-ID\<close> is the client's if it sent a non-empty one and
  the freshly generated UUID otherwise, and the context the request logger reads holds
  the same id.
\<close>

theorem serve_request_id_propagation:
  assumes "sv_upstream (fst (serve g env (new_ctx rq h) st)) = Some up"
  shows "hdr_get normalizeHeaderKey ''X-Request-ID'' (up_headers up) =
           (if hdr_get normalizeHeaderKey ''X-Request-ID'' (rq_headers rq) = [] then env_uuid env
            else hdr_get normalizeHeaderKey ''X-Request-ID'' (rq_headers rq)) \<and>
         cx_request_id (sv_ctx (fst (serve g env (new_ctx rq h) st))) =
           Some (if hdr_get normalizeHeaderKey ''X-Request-ID'' (rq_headers rq) = [] then env_uuid env
                 else hdr_get normalizeHeaderKey ''X-Request-ID'' (rq_headers rq))"
proof (cases "CORS (gw_origins g) (SecurityHeaders (RequestID (env_uuid env) (new_ctx rq h)))")
  case (Respond r c2)
  then show ?thesis using assms by (simp add: serve_def)
next
  case (Next c2)
  obtain resp c3 where o: "fst (inner_chain g env st (snd (traced g env c2))) = Done resp (Some up) c3"
    and sv: "sv_ctx (fst (serve g env (new_ctx rq h) st)) = c3"
  proof (cases "fst (inner_chain g env st (snd (traced g env c2)))")
    case (Done resp up' c3)
    with serve_Next_Done [OF Next Done] assms that show ?thesis by simp
  next
    case (Panicked msg c3)
    with serve_Next_Panicked [OF Next Panicked] assms show ?thesis by simp
  qed
  have c2: "rid_of (snd (traced g env c2)) = rid_of (SecurityHeaders (RequestID (env_uuid env) (new_ctx rq h)))"
       "cx_request_id (snd (traced g env c2)) = cx_request_id (SecurityHeaders (RequestID (env_uuid env) (new_ctx rq h)))"
    using CORS_Next_rid [OF Next] CORS_Next_sel [OF Next] by simp_all
  have "ctx_get ''X-Request-ID'' (new_ctx rq h) = hdr_get normalizeHeaderKey ''X-Request-ID'' (rq_headers rq)"
    by (simp add: ctx_get_def new_ctx_def)
  then show ?thesis using inner_chain_rid [OF o] c2 sv RequestID_rid [of "env_uuid env" "new_ctx rq h"] by simp
qed

text \<open>
  C37: the active-connections gauge leaks on panics. \<open>Metrics\<close> raises the gauge
  before \<open>c.Next()\<close> and lowers it after, without \<open>defer\<close>; a panic below it
  (the limiter's division by zero, a proxied call's panic) unwinds past the decrement to
  Fiber's recovery. So serving a request leaves the gauge where it was if the chain
  returned and one higher if it panicked: the gauge counts panics, not open connections.
\<close>

theorem serve_active_connections:
  "activeConnections (gw_metrics (snd (serve g env c0 st))) =
   activeConnections (gw_metrics st) + (if sv_panicked (fst (serve g env c0 st)) then 1 else 0)"
proof (cases "CORS (gw_origins g) (SecurityHeaders (RequestID (env_uuid env) c0))")
  case (Respond r c2)
  then show ?thesis by (simp add: serve_def)
next
  case (Next c2)
  show ?thesis
  proof (cases "fst (inner_chain g env st (snd (traced g env c2)))")
    case (Done resp up c')
    then show ?thesis
      using serve_Next_state [OF Next] serve_Next_Done [OF Next Done] by (simp add: Metrics_gauge inner_chain_metrics)
  next
    case (Panicked msg c')
    then show ?thesis
      using serve_Next_state [OF Next] serve_Next_Panicked [OF Next Panicked] by (simp add: Metrics_gauge inner_chain_metrics)
  qed
qed

text \<open>
  C38: what a request's span records. With tracing on, a request that passes CORS gets a
  span named after its method and path, carrying its request id; but the tenant, user
  and service attributes are never set, because the tracing middleware reads those
  context values before the stages that set them have run. The span's status is an
  error from status 400 on and ok below; after a panic it stays unset, although the
  client receives a 500.
\<close>

theorem serve_span:
  assumes "sv_span (fst (serve g env (new_ctx rq h) st)) = Some sp"
  shows "sp_name sp = rq_method rq @ '' '' @ rq_path rq \<and>
         ''request.id'' \<in> fst ` set (sp_attrs sp) \<and>
         ''tenant.id'' \<notin> fst ` set (sp_attrs sp) \<and> ''user.id'' \<notin> fst ` set (sp_attrs sp) \<and>
         ''upstream.service'' \<notin> fst ` set (sp_attrs sp) \<and>
         sp_status sp =
           (if sv_panicked (fst (serve g env (new_ctx rq h) st)) then StatusUnset
            else if 400 \<le> hr_status (sv_resp (fst (serve g env (new_ctx rq h) st))) then StatusError ''HTTP error''
            else StatusOk)"
proof (cases "CORS (gw_origins g) (SecurityHeaders (RequestID (env_uuid env) (new_ctx rq h)))")
  case (Respond r c2)
  then show ?thesis using assms by (simp add: serve_def)
next
  case (Next c2)
  let ?sp = "fst (Tracing_start ''/'' (env_traceparent env) c2)"
  have c2: "c2 = (SecurityHeaders (RequestID (env_uuid env) (new_ctx rq h)))\<lparr>cx_resp_headers := cx_resp_headers c2\<rparr>"
    by (rule CORS_Next_only_resp [OF Next])
  have ctx: "cx_tenant_id c2 = None" "cx_user_id c2 = None" "cx_service c2 = None" "cx_request_id c2 \<noteq> None"
    "cx_req c2 = rq"
    by (subst c2; simp add: new_ctx_def SecurityHeaders_def RequestID_def resp_set_def Let_def)+
  have tr: "gw_tracing g" "fst (traced g env c2) = Some ?sp"
  proof -
    show "gw_tracing g"
    proof (rule ccontr)
      assume "\<not> gw_tracing g"
      then have "fst (traced g env c2) = None" by (simp add: traced_def)
      then show False using assms serve_Next_Done [OF Next] serve_Next_Panicked [OF Next]
        by (cases "fst (inner_chain g env st (snd (traced g env c2)))") auto
    qed
    then show "fst (traced g env c2) = Some ?sp" by (simp add: traced_def split_def Let_def)
  qed
  have start: "sp_name ?sp = rq_method rq @ '' '' @ rq_path rq" "sp_status ?sp = StatusUnset"
    "''request.id'' \<in> fst ` set (sp_attrs ?sp)" "''tenant.id'' \<notin> fst ` set (sp_attrs ?sp)"
    "''user.id'' \<notin> fst ` set (sp_attrs ?sp)" "''upstream.service'' \<notin> fst ` set (sp_attrs ?sp)"
    using ctx by (auto simp: Tracing_start_span local_attr_def)
  show ?thesis
  proof (cases "fst (inner_chain g env st (snd (traced g env c2)))")
    case (Done resp up c')
    with serve_Next_Done [OF Next Done] assms tr start show ?thesis by (auto simp: Tracing_finish_sel)
  next
    case (Panicked msg c')
    with serve_Next_Panicked [OF Next Panicked] assms tr start show ?thesis by auto
  qed
qed

section \<open>Instances\<close>

lemma demo_request_facts:
  "hdr_get normalizeHeaderKey ''Authorization'' (rq_headers demo_auth_request) = ''Bearer tok''"
  "hdr_get normalizeHeaderKey ''Origin'' (rq_headers demo_auth_request) = []"
  "hdr_get normalizeHeaderKey ''X-Tenant-ID'' (rq_headers demo_auth_request) = []"
  "dispatch DefaultRoutes ''GET'' ''/api/v1/users'' = ProxyRoute (DefaultRoutes ! 7)"
  "fst (fst (rl_Middleware (gw_limiter demo_state) None (Some ''u-1'') ''10.0.0.7'' ''/api/v1/users'' False 1000 1000)) = RlNext"
  by code_simp+

lemma demo_cors:
  "CORS [''*''] (SecurityHeaders (RequestID ''u-0'' (new_ctx demo_auth_request ''gw.example''))) =
   Next (SecurityHeaders (RequestID ''u-0'' (new_ctx demo_auth_request ''gw.example'')))"
proof -
  have "rq_method demo_auth_request = ''GET''" by (simp add: demo_auth_request_def)
  then show ?thesis using demo_request_facts(2) by (simp add: CORS_def Let_def)
qed

lemma demo_serve_forwards:
  "sv_upstream (fst (serve demo_gateway demo_env (new_ctx demo_auth_request ''gw.example'') demo_state)) \<noteq> None"
proof -
  let ?c0 = "new_ctx demo_auth_request ''gw.example''"
  let ?c1 = "SecurityHeaders (RequestID ''u-0'' ?c0)"
  have rq: "rq_method demo_auth_request = ''GET''" "rq_path demo_auth_request = ''/api/v1/users''"
    "rq_ip demo_auth_request = ''10.0.0.7''" by (simp_all add: demo_auth_request_def)
  have cors: "CORS [''*''] ?c1 = Next ?c1" by (rule demo_cors)
  have ct: "ContentType ?c1 = Next ?c1" by (rule ContentType_pass) (simp add: rq)
  have te: "TenantExtractor ?c1 = ?c1"
    using demo_request_facts(3) by (simp add: TenantExtractor_def Let_def)
  have v: "validateToken (env_parse demo_env) t s 1000 = Inr demo_claims" for t s
    by (simp add: validateToken_def demo_env_def demo_claims_def)
  have pub: "PublicPaths (gw_auth demo_gateway) ''/api/v1/users'' = None"
    by (simp add: demo_gateway_def NewAuthMiddleware_def DefaultAuthConfig_def DefaultRoutes_def mk_route_def)
  have auth: "SkipPrefixes (gw_auth demo_gateway) = [''/health'', ''/ready'', ''/live'', ''/metrics'']"
    "HeaderName (gw_auth demo_gateway) = ''Authorization''" "TokenPrefix (gw_auth demo_gateway) = ''Bearer ''"
    by (simp_all add: demo_gateway_def NewAuthMiddleware_def DefaultAuthConfig_def)
  have "\<exists>c3. Auth (gw_auth demo_gateway) (env_parse demo_env) 1000 ?c1 = Next c3"
    using demo_request_facts(1) pub auth rq v by (simp add: Auth_def Let_def HasPrefix_def TrimPrefix_def)
  then obtain c3 where au: "Auth (gw_auth demo_gateway) (env_parse demo_env) 1000 ?c1 = Next c3" by blast
  have s3: "cx_service c3 = None" "cx_route c3 = None"
    using Auth_Next_sel [OF au] by simp_all
  have r3: "rq_path (cx_req c3) = ''/api/v1/users''" "rq_ip (cx_req c3) = ''10.0.0.7''"
    using Auth_Next_req [OF au] rq by simp_all
  have m3: "rq_method (cx_req c3) = ''GET''"
    using Auth_Next_cases [OF au] rq by (auto simp: Let_def req_set_def)
  have u3: "cx_user_id c3 = Some ''u-1''"
    using Auth_Next_cases [OF au] demo_request_facts(1) v pub auth rq
    by (auto simp: Let_def HasPrefix_def TrimPrefix_def demo_claims_def)
  let ?m = "rl_Middleware (gw_limiter demo_state) (cx_route c3) (cx_user_id c3) (rq_ip (cx_req c3))
              (rq_path (cx_req c3)) (env_redis_up demo_env) (int (env_start demo_env)) (int (env_start demo_env))"
  let ?c4 = "fold (\<lambda>p. resp_set (fst p) (snd p)) (snd (fst ?m)) c3"
  have rl: "fst (fst ?m) = RlNext"
    using demo_request_facts(5) s3 r3 u3 by (simp add: demo_env_def)
  let ?st = "demo_state\<lparr>gw_limiter := snd ?m\<rparr>"
  have d: "dispatch (gw_routes demo_gateway) (rq_method (cx_req ?c4)) (rq_path (cx_req ?c4)) = ProxyRoute (DefaultRoutes ! 7)"
    using demo_request_facts(4) m3 r3 by (simp add: demo_gateway_def)
  have g: "GetService (Service (DefaultRoutes ! 7)) (gw_proxy ?st) = Some (new_client ''auth'' (AuthService demo_services))"
    by (simp add: DefaultRoutes_def mk_route_def demo_state_def GetService_def NewServiceProxy_def)
  have "fst (snd (route_stage demo_gateway demo_env ?st ?c4)) \<noteq> None"
    by (rule route_stage_forwards [OF d g]) (simp add: new_client_def)
  then have "\<exists>resp up c'. fst (rl_stage demo_gateway demo_env demo_state c3) = Done resp (Some up) c'"
    using rl_stage_next [OF rl] cb_stage_skip [of ?c4] s3 by auto
  moreover have "gw_origins demo_gateway = [''*'']" "env_uuid demo_env = ''u-0''" "int (env_start demo_env) = 1000"
    "traced demo_gateway demo_env ?c1 = (None, ?c1)"
    by (simp_all add: demo_gateway_def demo_env_def traced_def)
  ultimately show ?thesis
    using cors ct te au by (auto simp: serve_def inner_chain_def guard_def split_def Let_def split: PipeOut.splits)
qed

theorem serve_request_id_propagation_witness:
  "hdr_get normalizeHeaderKey ''X-Request-ID''
     (up_headers (the (sv_upstream (fst (serve demo_gateway demo_env (new_ctx demo_auth_request ''gw.example'')
                                              demo_state))))) = ''abc''"
proof -
  obtain up where u: "sv_upstream (fst (serve demo_gateway demo_env (new_ctx demo_auth_request ''gw.example'')
                                         demo_state)) = Some up"
    using demo_serve_forwards by blast
  have "hdr_get normalizeHeaderKey ''X-Request-ID'' (rq_headers demo_auth_request) = ''abc''" by code_simp
  then show ?thesis using serve_request_id_propagation [OF u] u by simp
qed

text \<open>The sample request through the sample gateway with tracing switched on.\<close>

theorem serve_span_witness:
  "\<exists>sp. sv_span (fst (serve (demo_gateway\<lparr>gw_tracing := True\<rparr>) demo_env (new_ctx demo_auth_request ''gw.example'')
                           demo_state)) = Some sp \<and>
        sp_name sp = ''GET /api/v1/users'' \<and> ''tenant.id'' \<notin> fst ` set (sp_attrs sp)"
proof -
  have "gw_origins (demo_gateway\<lparr>gw_tracing := True\<rparr>) = [''*'']" "env_uuid demo_env = ''u-0''"
    by (simp_all add: demo_gateway_def demo_env_def)
  then have "CORS (gw_origins (demo_gateway\<lparr>gw_tracing := True\<rparr>))
                (SecurityHeaders (RequestID (env_uuid demo_env) (new_ctx demo_auth_request ''gw.example''))) =
              Next (SecurityHeaders (RequestID ''u-0'' (new_ctx demo_auth_request ''gw.example'')))"
    using demo_cors by simp
  then obtain sp where sp: "sv_span (fst (serve (demo_gateway\<lparr>gw_tracing := True\<rparr>) demo_env
                              (new_ctx demo_auth_request ''gw.example'') demo_state)) = Some sp"
    using serve_span_some by fastforce
  have "rq_method demo_auth_request = ''GET''" "rq_path demo_auth_request = ''/api/v1/users''"
    by (simp_all add: demo_auth_request_def)
  then show ?thesis using serve_span [OF sp] sp by simp
qed

end
