(* ===== verification/Retry.thy ===== *)
theory Retry
  imports Middleware
begin

text \<open>
  \<open>RetryMiddleware\<close> of \<open>internal/middleware/circuit.go\<close>: the per-route retry
  configuration with its fallbacks, and the retry loop with exponential backoff. Go's
  \<open>int\<close> (the attempt counter) is \<open>int\<close> with the wrap of \<open>attempt++\<close> at the
  largest 64-bit value written out; \<open>time.Duration\<close> (an \<open>int64\<close>) is a
  \<open>64 word\<close>, so that \<open>waitTime * time.Duration(1<<attempt)\<close> wraps and the cap
  test \<open>sleepTime > rm.MaxWaitTime\<close> is the signed comparison. Each call of
  \<open>c.Next()\<close> is the parameter \<open>nx\<close>, which gives the status code and error the
  downstream handlers leave for that attempt; \<open>time.ParseDuration\<close> is the
  parameter \<open>pd\<close>. The loop returns the error, the durations handed to
  \<open>time.Sleep\<close> and the number of downstream calls.
\<close>

section \<open>Configuration\<close>

type_synonym duration = "64 word"

record RetryMiddleware =
  MaxRetries :: int
  RMWaitTime :: duration
  MaxWaitTime :: duration

definition NewRetryMiddleware :: "int \<Rightarrow> duration \<Rightarrow> RetryMiddleware" where
  "NewRetryMiddleware maxRetries waitTime =
     \<lparr>MaxRetries = maxRetries, RMWaitTime = waitTime, MaxWaitTime = 30 * 1000000000\<rparr>"

text \<open>
  The route's retry settings read from \<open>c.Locals("route")\<close>, then the zero values
  replaced by the middleware's defaults.
\<close>

definition retry_settings ::
  "RetryMiddleware \<Rightarrow> (string \<Rightarrow> duration option) \<Rightarrow> Route option \<Rightarrow> int \<times> duration" where
  "retry_settings rm pd r =
     (let (maxAttempts, waitTime) =
        (case r of
           Some route \<Rightarrow>
             (case Retry route of
                Some rc \<Rightarrow> (MaxAttempts rc, case pd (WaitTime rc) of Some d \<Rightarrow> d | None \<Rightarrow> 0)
              | None \<Rightarrow> (0, 0))
         | None \<Rightarrow> (0, 0));
         maxAttempts = (if maxAttempts = 0 then MaxRetries rm else maxAttempts);
         waitTime = (if waitTime = 0 then RMWaitTime rm else waitTime)
      in (maxAttempts, waitTime))"

section \<open>Backoff\<close>

definition max_int64 :: int where
  "max_int64 = 2 ^ 63 - 1"

definition min_int64 :: int where
  "min_int64 = - (2 ^ 63)"

text \<open>\<open>attempt++\<close> on a Go \<open>int\<close>.\<close>

definition inc_int64 :: "int \<Rightarrow> int" where
  "inc_int64 a = (if a = max_int64 then min_int64 else a + 1)"

text \<open>
  \<open>time.Duration(1<<attempt)\<close>: the constant takes the type \<open>Duration\<close>, so the
  shift is on 64 bits (0 from 64 on); a negative shift count panics.
\<close>

definition shl1 :: "int \<Rightarrow> duration option" where
  "shl1 attempt = (if attempt < 0 then None else Some (push_bit (nat attempt) 1))"

definition backoff :: "duration \<Rightarrow> duration \<Rightarrow> duration \<Rightarrow> duration" where
  "backoff maxWait waitTime f =
     (let sleepTime = waitTime * f in if maxWait <s sleepTime then maxWait else sleepTime)"

section \<open>The retry loop\<close>

datatype 'e RetryOut =
    Returned "'e option" "duration list" nat
  | ShiftPanic "duration list" nat

definition retry_measure :: "int \<Rightarrow> int \<Rightarrow> nat" where
  "retry_measure maxAttempts attempt =
     (if 0 \<le> attempt \<and> attempt \<le> maxAttempts then nat (maxAttempts - attempt) + 1 else 0)"

function retry_loop ::
  "(int \<Rightarrow> int \<times> 'e option) \<Rightarrow> duration \<Rightarrow> duration \<Rightarrow> int \<Rightarrow> 'e option \<Rightarrow> int \<Rightarrow>
   duration list \<Rightarrow> nat \<Rightarrow> 'e RetryOut" where
  "retry_loop nx maxWait waitTime maxAttempts lastErr attempt sleeps calls =
     (if attempt \<le> maxAttempts then
        (let r = nx attempt in
         if fst r < 500 then Returned (snd r) sleeps (Suc calls)
         else if attempt < maxAttempts then
           (case shl1 attempt of
              None \<Rightarrow> ShiftPanic sleeps (Suc calls)
            | Some f \<Rightarrow>
                retry_loop nx maxWait waitTime maxAttempts (snd r) (inc_int64 attempt)
                  (sleeps @ [backoff maxWait waitTime f]) (Suc calls))
         else retry_loop nx maxWait waitTime maxAttempts (snd r) (inc_int64 attempt) sleeps (Suc calls))
      else Returned lastErr sleeps calls)"
  by pat_completeness auto
termination
  by (relation "measures [\<lambda>(_, _, _, m, _, a, _, _). retry_measure m a,
                          \<lambda>(_, _, _, m, _, a, _, _). if a \<le> m then 1 else 0]")
     (auto simp: retry_measure_def inc_int64_def shl1_def max_int64_def min_int64_def
           split: option.splits if_splits)

declare retry_loop.simps [simp del]

text \<open>The handler: settings, then the loop from attempt 0 with no error yet.\<close>

definition rm_Middleware ::
  "RetryMiddleware \<Rightarrow> (string \<Rightarrow> duration option) \<Rightarrow> ReqCtx \<Rightarrow> (int \<Rightarrow> int \<times> 'e option) \<Rightarrow> 'e RetryOut" where
  "rm_Middleware rm pd c nx =
     (let (maxAttempts, waitTime) = retry_settings rm pd (cx_route c)
      in retry_loop nx (MaxWaitTime rm) waitTime maxAttempts None 0 [] 0)"

section \<open>Lemmas\<close>

text \<open>One turn of the loop, by case: past the last attempt, an answer below 500, a retry.\<close>


lemma retry_loop_exit:
  "\<not> a \<le> m \<Longrightarrow> retry_loop nx mw w m le a sl c = Returned le sl c"
  by (simp add: retry_loop.simps)

lemma retry_loop_ok:
  "a \<le> m \<Longrightarrow> fst (nx a) < 500 \<Longrightarrow> retry_loop nx mw w m le a sl c = Returned (snd (nx a)) sl (Suc c)"
  by (simp add: retry_loop.simps)

lemma retry_loop_retry:
  "0 \<le> a \<Longrightarrow> a < m \<Longrightarrow> m \<le> max_int64 \<Longrightarrow> 500 \<le> fst (nx a) \<Longrightarrow>
   retry_loop nx mw w m le a sl c =
     retry_loop nx mw w m (snd (nx a)) (a + 1) (sl @ [backoff mw w (the (shl1 a))]) (Suc c)"
  by (subst retry_loop.simps) (simp add: shl1_def inc_int64_def)

lemma retry_loop_last:
  "m < max_int64 \<Longrightarrow> 500 \<le> fst (nx m) \<Longrightarrow>
   retry_loop nx mw w m le m sl c = Returned (snd (nx m)) sl (Suc c)"
  by (subst retry_loop.simps) (simp add: inc_int64_def retry_loop_exit)

lemma retry_loop_returns:
  "0 \<le> a \<Longrightarrow> m < max_int64 \<Longrightarrow>
   \<exists>e sl' n. retry_loop nx mw w m le a sl c = Returned e sl' n \<and> n \<le> c + nat (m + 1 - a)"
proof (induction nx mw w m le a sl c rule: retry_loop.induct)
  case (1 nx mw w m le a sl c)
  consider "\<not> a \<le> m" | "a \<le> m" "fst (nx a) < 500" | "a < m" "500 \<le> fst (nx a)" | "a = m" "500 \<le> fst (nx a)"
    by fastforce
  then show ?case
  proof cases
    case 3
    then have "shl1 a = Some (the (shl1 a))" "inc_int64 a = a + 1"
      using "1.prems" by (simp_all add: shl1_def inc_int64_def)
    with 3 "1.prems" "1.IH"(1)[OF _ refl] show ?thesis
      by (fastforce simp: retry_loop_retry)
  qed (use "1.prems" in \<open>auto simp: retry_loop_exit retry_loop_ok retry_loop_last\<close>)
qed

lemma retry_loop_first_success_from:
  "int k \<le> m \<Longrightarrow> m < max_int64 \<Longrightarrow> fst (nx (int k)) < 500 \<Longrightarrow> j \<le> k \<Longrightarrow>
   (\<forall>i. j \<le> i \<and> i < k \<longrightarrow> 500 \<le> fst (nx (int i))) \<Longrightarrow>
   retry_loop nx mw w m le (int j) sl c =
     Returned (snd (nx (int k))) (sl @ map (\<lambda>i. backoff mw w (the (shl1 (int i)))) [j..<k]) (c + (k - j) + 1)"
proof (induction "k - j" arbitrary: j le sl c)
  case 0
  then show ?case by (simp add: retry_loop_ok)
next
  case (Suc d)
  then have "j < k" "int j < m" by auto
  with Suc.prems have "retry_loop nx mw w m le (int j) sl c =
     retry_loop nx mw w m (snd (nx (int j))) (int (Suc j)) (sl @ [backoff mw w (the (shl1 (int j)))]) (Suc c)"
    by (simp add: retry_loop_retry max_int64_def add.commute)
  also have "\<dots> = Returned (snd (nx (int k))) (sl @ map (\<lambda>i. backoff mw w (the (shl1 (int i)))) [j..<k]) (c + (k - j) + 1)"
    using Suc.hyps(1)[of "Suc j"] Suc.hyps(2) Suc.prems \<open>j < k\<close> by (simp add: upt_conv_Cons)
  finally show ?case .
qed

lemma retry_loop_all_fail_from:
  "0 \<le> m \<Longrightarrow> m < max_int64 \<Longrightarrow> int j \<le> m \<Longrightarrow>
   (\<forall>i. j \<le> i \<and> int i \<le> m \<longrightarrow> 500 \<le> fst (nx (int i))) \<Longrightarrow>
   retry_loop nx mw w m le (int j) sl c =
     Returned (snd (nx m)) (sl @ map (\<lambda>i. backoff mw w (the (shl1 (int i)))) [j..<nat m]) (c + (nat m - j) + 1)"
proof (induction "nat m - j" arbitrary: j le sl c)
  case 0
  then have "int j = m" by auto
  moreover have "500 \<le> fst (nx (int j))" using 0 by auto
  ultimately show ?case using 0 by (simp add: retry_loop_last)
next
  case (Suc d)
  then have "j < nat m" "int j < m" by auto
  with Suc.prems have "retry_loop nx mw w m le (int j) sl c =
     retry_loop nx mw w m (snd (nx (int j))) (int (Suc j)) (sl @ [backoff mw w (the (shl1 (int j)))]) (Suc c)"
    by (simp add: retry_loop_retry max_int64_def add.commute)
  also have "\<dots> = Returned (snd (nx m)) (sl @ map (\<lambda>i. backoff mw w (the (shl1 (int i)))) [j..<nat m]) (c + (nat m - j) + 1)"
    using Suc.hyps(1)[of "Suc j"] Suc.hyps(2) Suc.prems \<open>j < nat m\<close> by (simp add: upt_conv_Cons)
  finally show ?case .
qed

lemma backoff_second_34: "sint (backoff (30 * 1000000000) 1000000000 (push_bit 34 1)) < 0"
  by (simp add: backoff_def)

lemma backoff_second_zero: "55 \<le> a \<Longrightarrow> backoff (30 * 1000000000) 1000000000 (push_bit a (1::64 word)) = 0"
proof -
  assume "55 \<le> a"
  have "(1000000000::64 word) * push_bit a 1 = 1953125 * 2 ^ (a + 9)"
    by (simp add: push_bit_eq_mult power_add)
  also have "(2::64 word) ^ (a + 9) = 0" using \<open>55 \<le> a\<close> by (simp add: exp_eq_zero_iff)
  finally show ?thesis by (simp add: backoff_def word_sless_alt)
qed


lemma retry_settings_no_route:
  "retry_settings rm pd None = (MaxRetries rm, RMWaitTime rm)"
  by (simp add: retry_settings_def)

section \<open>Properties\<close>

text \<open>
  C33: the retry loop returns. For every downstream behaviour and every attempt bound
  below the largest \<open>int\<close>, the middleware returns normally (no panic), after at most
  \<open>maxAttempts + 1\<close> downstream calls; with a negative bound it never calls the
  downstream handlers and returns a nil error, so Fiber answers with an empty 200.
\<close>

theorem rm_Middleware_returns:
  assumes "fst (retry_settings rm pd (cx_route c)) < max_int64"
  shows "\<exists>e sl n. rm_Middleware rm pd c nx = Returned e sl n \<and>
           n \<le> nat (fst (retry_settings rm pd (cx_route c)) + 1) \<and>
           (fst (retry_settings rm pd (cx_route c)) < 0 \<longrightarrow> e = None \<and> n = 0)"
proof -
  obtain m w where mw: "retry_settings rm pd (cx_route c) = (m, w)" by fastforce
  show ?thesis
  proof (cases "m < 0")
    case True
    then show ?thesis by (simp add: rm_Middleware_def mw retry_loop_exit)
  next
    case False
    with assms mw retry_loop_returns [of 0 m nx "MaxWaitTime rm" w None "[]" 0] show ?thesis
      by (auto simp: rm_Middleware_def)
  qed
qed

theorem rm_Middleware_returns_witness:
  "\<exists>e sl n. rm_Middleware (NewRetryMiddleware 3 1000000000) (\<lambda>_. None) (new_ctx demo_request ''gw'')
              (\<lambda>_. (503, Some ''upstream failed'')) = Returned e sl n \<and> n \<le> 4"
  using rm_Middleware_returns [of "NewRetryMiddleware 3 1000000000" "\<lambda>_. None" "new_ctx demo_request ''gw''"
                                  "\<lambda>_. (503, Some ''upstream failed'')"]
  by (simp add: retry_settings_no_route NewRetryMiddleware_def max_int64_def)

text \<open>
  The loop stops at the first answer below 500. If attempt \<open>k\<close> (within the
  bound) is the first whose status is below 500, the loop returns that attempt's error
  after \<open>k + 1\<close> downstream calls, having slept the backoff of attempts \<open>0..k-1\<close>.
\<close>

theorem retry_loop_first_success:
  assumes "int k \<le> m" "m < max_int64" "fst (nx (int k)) < 500"
    and "\<forall>i<k. 500 \<le> fst (nx (int i))"
  shows "retry_loop nx mw w m None 0 [] 0 =
           Returned (snd (nx (int k))) (map (\<lambda>i. backoff mw w (push_bit i 1)) [0..<k]) (Suc k)"
  using retry_loop_first_success_from [of k m nx 0 mw w None "[]" 0] assms by (simp add: shl1_def)

theorem retry_loop_first_success_witness:
  "retry_loop (\<lambda>i. if i < 2 then (502, Some ''bad gateway'') else (404, None)) (30 * 1000000000) 1000000000
     5 None 0 [] 0 =
   Returned None [backoff (30 * 1000000000) 1000000000 1, backoff (30 * 1000000000) 1000000000 2] 3"
  using retry_loop_first_success [of 2 5 "\<lambda>i. if i < 2 then (502, Some ''bad gateway'') else (404, None)"
                                     "30 * 1000000000" 1000000000]
  by (simp add: max_int64_def less_Suc_eq numeral_2_eq_2)

text \<open>
  C35: the backoff wraps. With the default 30 s cap and a 1 s wait, a request whose
  attempts all fail sleeps 16 s before the fifth retry and 30 s (the cap) before the
  sixth, as intended; but \<open>waitTime * (1<<attempt)\<close> overflows \<open>int64\<close>: the sleep
  before retry 35 is negative and every sleep from retry 56 on is zero, so
  \<open>time.Sleep\<close> returns at once and the upstream is retried without delay.
\<close>

theorem rm_Middleware_backoff_wraps:
  assumes "cx_route c = None" and "\<forall>i. 500 \<le> fst (nx i)"
  shows "\<exists>e sl. rm_Middleware (NewRetryMiddleware 60 1000000000) pd c nx = Returned e sl 61 \<and>
           length sl = 60 \<and> sl ! 4 = 16000000000 \<and> sl ! 5 = 30000000000 \<and> sint (sl ! 34) < 0 \<and>
           (\<forall>i. 55 \<le> i \<and> i < 60 \<longrightarrow> sl ! i = 0)"
proof -
  have run: "rm_Middleware (NewRetryMiddleware 60 1000000000) pd c nx =
      Returned (snd (nx 60)) (map (\<lambda>i. backoff (30 * 1000000000) 1000000000 (push_bit i 1)) [0..<60]) 61"
    using retry_loop_all_fail_from [of 60 0 nx "30 * 1000000000" 1000000000 None "[]" 0] assms
    by (simp add: rm_Middleware_def retry_settings_no_route NewRetryMiddleware_def max_int64_def shl1_def)
  have "backoff (30 * 1000000000) 1000000000 (push_bit 4 1) = 16000000000"
    "backoff (30 * 1000000000) 1000000000 (push_bit 5 1) = 30000000000"
    by (simp_all add: backoff_def word_sless_alt)
  with run backoff_second_34 backoff_second_zero show ?thesis by simp
qed

theorem rm_Middleware_backoff_wraps_witness:
  "\<exists>e sl. rm_Middleware (NewRetryMiddleware 60 1000000000) (\<lambda>_. None) (new_ctx demo_request ''gw'')
            (\<lambda>_. (503, Some ''unavailable'')) = Returned e sl 61 \<and>
          sint (sl ! 34) < 0 \<and> sl ! 55 = 0"
  using rm_Middleware_backoff_wraps [of "new_ctx demo_request ''gw''" "\<lambda>_. (503, Some ''unavailable'')"
                                       "\<lambda>_. None"]
  by fastforce

end
