(* ===== verification/BreakerSpec.thy ===== *)
theory BreakerSpec
  imports Breaker
begin

text \<open>
  The breaker's contract: the state table of specification 4.4 as an abstract machine,
  and the refinement of it by the breaker model of \<open>Breaker\<close>. An abstract breaker
  is its state and the instant its current period ends (the expiry); the abstract
  steps are the transitions of the table, each with its condition on the clock, and
  the stutter step. The concrete machine is the breaker of \<open>Breaker\<close> under its
  three operations (\<open>currentState\<close>, \<open>beforeRequest\<close>, \<open>afterRequest\<close>), from a
  freshly created breaker; the abstraction keeps state and expiry.
\<close>

section \<open>The abstract machine\<close>

type_synonym abs_breaker = "State \<times> nat option"

definition abs_cb :: "CircuitBreaker \<Rightarrow> abs_breaker" where
  "abs_cb cb = (state cb, expiry cb)"

text \<open>
  One transition at time \<open>now\<close> for a breaker with open timeout \<open>T\<close>: a closed
  breaker may start a new counting window or trip, opening for \<open>T\<close>; an open
  breaker moves to half-open only once its expiry has passed; a half-open breaker
  closes or reopens for \<open>T\<close>.
\<close>

inductive spec_step :: "nat \<Rightarrow> nat \<Rightarrow> abs_breaker \<Rightarrow> abs_breaker \<Rightarrow> bool" for T now where
  stay: "spec_step T now s s"
| window: "spec_step T now (StateClosed, e) (StateClosed, e')"
| trip: "spec_step T now (StateClosed, e) (StateOpen, Some (now + T))"
| probe: "e < now \<Longrightarrow> spec_step T now (StateOpen, Some e) (StateHalfOpen, None)"
| close: "spec_step T now (StateHalfOpen, e) (StateClosed, e')"
| reopen: "spec_step T now (StateHalfOpen, e) (StateOpen, Some (now + T))"

inductive_cases spec_step_OpenE: "spec_step T now (StateOpen, e) s'"
inductive_cases spec_step_ClosedE: "spec_step T now (StateClosed, e) s'"

section \<open>The concrete machine\<close>

text \<open>One operation of the breaker at time \<open>now\<close>, with any generation and outcome.\<close>

inductive cb_step :: "nat \<Rightarrow> CircuitBreaker \<Rightarrow> CircuitBreaker \<Rightarrow> bool" for now where
  current: "cb_step now cb (currentState now cb)"
| before: "cb_step now cb (snd (beforeRequest now cb))"
| after: "cb_step now cb (afterRequest g ok now cb)"

text \<open>The breakers \<open>NewCircuitBreaker st t0\<close> can become.\<close>

inductive cb_reach :: "Settings \<Rightarrow> nat \<Rightarrow> CircuitBreaker \<Rightarrow> bool" for st t0 where
  init: "cb_reach st t0 (NewCircuitBreaker st t0)"
| step: "cb_reach st t0 cb \<Longrightarrow> cb_step now cb cb' \<Longrightarrow> cb_reach st t0 cb'"

section \<open>Lemmas\<close>

lemma cb_reach_inv: "cb_reach st t0 cb \<Longrightarrow> cb_inv cb"
proof (induction rule: cb_reach.induct)
  case init
  then show ?case by (rule NewCircuitBreaker_inv)
next
  case (step cb now cb')
  from step.hyps(2) step.IH show ?case
    by cases (simp_all add: currentState_inv beforeRequest_inv afterRequest_inv)
qed

lemma currentState_spec:
  "cb_inv cb \<Longrightarrow> spec_step (timeout cb) now (abs_cb cb) (abs_cb (currentState now cb))"
  by (cases "state cb")
     (auto simp: currentState_def cb_inv_def abs_cb_def expired_def setState_def toNewGeneration_def
           intro: spec_step.intros split: option.splits)

lemma beforeRequest_abs: "abs_cb (snd (beforeRequest now cb)) = abs_cb (currentState now cb)"
  by (simp add: beforeRequest_def Let_def abs_cb_def)

lemma onSuccess_spec:
  "spec_step (timeout cb) now (abs_cb cb) (abs_cb (breaker_onSuccess (state cb) now cb))"
  by (cases "state cb")
     (auto simp: breaker_onSuccess_def abs_cb_def setState_def toNewGeneration_def Let_def
           intro: spec_step.intros)

lemma onFailure_spec:
  "spec_step (timeout cb) now (abs_cb cb) (abs_cb (breaker_onFailure (state cb) now cb))"
  by (cases "state cb")
     (auto simp: breaker_onFailure_def abs_cb_def setState_def toNewGeneration_def Let_def
           intro: spec_step.intros)

lemma afterRequest_spec:
  assumes "cb_inv cb"
  shows "(spec_step (timeout cb) now)\<^sup>*\<^sup>* (abs_cb cb) (abs_cb (afterRequest g ok now cb))"
proof -
  let ?c = "currentState now cb"
  have first: "spec_step (timeout cb) now (abs_cb cb) (abs_cb ?c)"
    using assms by (rule currentState_spec)
  have "spec_step (timeout cb) now (abs_cb ?c) (abs_cb (afterRequest g ok now cb))"
    using onSuccess_spec [of ?c now] onFailure_spec [of ?c now]
    by (auto simp: afterRequest_def Let_def intro: spec_step.stay)
  with first show ?thesis by auto
qed

lemma cb_step_spec:
  assumes "cb_inv cb" and "cb_step now cb cb'"
  shows "(spec_step (timeout cb) now)\<^sup>*\<^sup>* (abs_cb cb) (abs_cb cb')"
  using assms(2)
proof cases
  case current
  then show ?thesis using currentState_spec [OF assms(1)] by auto
next
  case before
  then show ?thesis using currentState_spec [OF assms(1)] by (auto simp: beforeRequest_abs)
next
  case (after g ok)
  then show ?thesis using afterRequest_spec [OF assms(1)] by simp
qed

text \<open>
  Within one instant the abstract machine cannot take a closed breaker to half-open: an
  opening sets the expiry to \<open>now + T\<close>, which has not passed.
\<close>

lemma spec_steps_from_closed:
  "(spec_step T now)\<^sup>*\<^sup>* (StateClosed, e) s' \<Longrightarrow>
   fst s' = StateClosed \<or> s' = (StateOpen, Some (now + T))"
proof (induction rule: rtranclp_induct)
  case base
  then show ?case by simp
next
  case (step s s')
  then show ?case
  proof (cases "fst s = StateClosed")
    case True
    then obtain e0 where "s = (StateClosed, e0)" by (cases s) auto
    with step.hyps(2) show ?thesis by (auto elim: spec_step_ClosedE)
  next
    case False
    with step.IH have "s = (StateOpen, Some (now + T))" by simp
    with step.hyps(2) show ?thesis by (auto elim: spec_step_OpenE)
  qed
qed

lemma cb_closed_not_half_open:
  "cb_reach st t0 cb \<Longrightarrow> state cb = StateClosed \<Longrightarrow> cb_step now cb cb' \<Longrightarrow> state cb' \<noteq> StateHalfOpen"
  using cb_step_spec [OF cb_reach_inv] spec_steps_from_closed
  by (fastforce simp: abs_cb_def)

section \<open>Properties\<close>

text \<open>
  C39: the breaker refines the state table of specification 4.4 (invariant I3). Every
  operation on a breaker that the manager created (\<open>GetBreaker\<close> builds it from
  \<open>breaker_settings\<close>) and that has evolved since moves its state and expiry along
  the table: by a sequence of abstract steps, each a transition the table allows under
  its clock condition or a stutter. So an open breaker leaves that state only once its
  expiry has passed, every opening lasts the configured timeout from the instant it
  happens, and (\<open>cb_closed_not_half_open\<close>) no operation takes a closed breaker
  to half-open.
\<close>

theorem cb_refines_spec:
  assumes "cb_reach (breaker_settings cfg name) t0 cb" and "cb_step now cb cb'"
  shows "(spec_step (timeout cb) now)\<^sup>*\<^sup>* (abs_cb cb) (abs_cb cb')"
  using cb_step_spec [OF cb_reach_inv [OF assms(1)] assms(2)] .

theorem cb_refines_spec_witness:
  "(spec_step (timeout (NewCircuitBreaker (breaker_settings default_circuit_config ''auth'') 0)) 5)\<^sup>*\<^sup>*
     (StateClosed, expiry (NewCircuitBreaker (breaker_settings default_circuit_config ''auth'') 0))
     (abs_cb (afterRequest 1 False 5 (NewCircuitBreaker (breaker_settings default_circuit_config ''auth'') 0)))"
  using cb_refines_spec [OF cb_reach.init cb_step.after,
                         of default_circuit_config "''auth''" 0 5 1 False]
  by (simp add: abs_cb_def NewCircuitBreaker_def toNewGeneration_def)

end
