(* ===== verification/Logging.thy ===== *)
theory Logging
  imports Middleware
begin

text \<open>
  The parts of \<open>internal/middleware/logging.go\<close> that \<open>Middleware\<close> leaves out: the
  text \<open>SimpleLogger.log\<close> writes for an event, in its JSON and its plain format,
  \<open>TransformHeaders\<close> (added, removed and renamed request headers) and
  \<open>RequestTimeout\<close>. The clock reading formatted as RFC 3339 is a parameter. Go's
  \<open>%v\<close> of a string is the string itself; the variadic fields are the flat list of
  keys and values the callers pass. Go maps iterated by \<open>TransformHeaders\<close> are
  association lists, in the order the iteration happens to take.
\<close>

section \<open>Log lines\<close>

definition qt :: string where
  "qt = [CHR 0x22]"

text \<open>The level names \<open>Debug\<close>, \<open>Info\<close>, \<open>Warn\<close> and \<open>Error\<close> hand to \<open>log\<close>.\<close>

definition level_tag :: "LogLevel \<Rightarrow> string" where
  "level_tag lv = (case lv of LogDebug \<Rightarrow> ''DEBUG'' | LogInfo \<Rightarrow> ''INFO'' | LogWarn \<Rightarrow> ''WARN''
                            | LogError \<Rightarrow> ''ERROR'')"

text \<open>
  The loops over the fields, \<open>for i := 0; i < len(fields)-1; i += 2\<close>: a pair per
  step; a last key without a value is dropped.
\<close>

fun fields_json :: "string list \<Rightarrow> string" where
  "fields_json (k # v # rest) = '','' @ qt @ k @ qt @ '':'' @ qt @ v @ qt @ fields_json rest"
| "fields_json _ = []"

fun fields_text :: "string list \<Rightarrow> string" where
  "fields_text (k # v # rest) = '' '' @ k @ ''='' @ v @ fields_text rest"
| "fields_text _ = []"

definition log_line :: "SimpleLogger \<Rightarrow> string \<Rightarrow> string \<Rightarrow> string \<Rightarrow> string list \<Rightarrow> string" where
  "log_line l level timestamp msg fs =
     (if lg_format l = ''json''
      then ''{'' @ qt @ ''level'' @ qt @ '':'' @ qt @ level @ qt @ '','' @ qt @ ''time'' @ qt @ '':'' @ qt @
           timestamp @ qt @ '','' @ qt @ ''msg'' @ qt @ '':'' @ qt @ msg @ qt @ fields_json fs @ ''}'' @
           [CHR 0x0A]
      else timestamp @ '' ['' @ level @ ''] '' @ msg @ fields_text fs @ [CHR 0x0A])"

text \<open>The key-value pairs of an event, as the caller passes them.\<close>

definition flatten_fields :: "(string \<times> string) list \<Rightarrow> string list" where
  "flatten_fields fs = concat (map (\<lambda>(k, v). [k, v]) fs)"

text \<open>What a logger call writes to standard output: the event's line, if its level passes.\<close>

definition event_output :: "SimpleLogger \<Rightarrow> string \<Rightarrow> LogEvent \<Rightarrow> string" where
  "event_output l timestamp e =
     concat (map (\<lambda>e. log_line l (level_tag (ev_level e)) timestamp (ev_msg e) (flatten_fields (ev_fields e)))
                 (emit l e))"

section \<open>Header transformation\<close>

text \<open>\<open>c.Request().Header.Del(key)\<close>: every entry under the normalised key goes.\<close>

definition req_del :: "string \<Rightarrow> ReqCtx \<Rightarrow> ReqCtx" where
  "req_del k c =
     c\<lparr>cx_req := (cx_req c)\<lparr>rq_headers :=
        filter (\<lambda>(k', _). normalizeHeaderKey k' \<noteq> normalizeHeaderKey k) (rq_headers (cx_req c))\<rparr>\<rparr>"

record HeaderTransform =
  AddHeaders :: "(string \<times> string) list"
  RemoveHeaders :: "string list"
  RenameHeaders :: "(string \<times> string) list"

text \<open>One step of the rename loop: set the new name, then delete the old one.\<close>

definition rename_header :: "string \<times> string \<Rightarrow> ReqCtx \<Rightarrow> ReqCtx" where
  "rename_header kv c =
     (let (oldKey, newKey) = kv; value = ctx_get oldKey c
      in if value \<noteq> [] then req_del oldKey (req_set newKey value c) else c)"

definition TransformHeaders :: "HeaderTransform \<Rightarrow> ReqCtx \<Rightarrow> StageResult" where
  "TransformHeaders t c =
     (let c1 = fold (\<lambda>(k, v). req_set k v) (AddHeaders t) c;
          c2 = fold req_del (RemoveHeaders t) c1;
          c3 = fold rename_header (RenameHeaders t) c2
      in Next c3)"

text \<open>\<open>RequestTimeout\<close> only calls the handler it wraps.\<close>

definition RequestTimeout :: "(ReqCtx \<Rightarrow> 'a) \<Rightarrow> ReqCtx \<Rightarrow> 'a" where
  "RequestTimeout handler c = handler c"

section \<open>Lemmas\<close>

lemma fields_json_flatten:
  "fields_json (flatten_fields fs) = concat (map (\<lambda>(k, v). '','' @ qt @ k @ qt @ '':'' @ qt @ v @ qt) fs)"
  by (induction fs) (auto simp: flatten_fields_def)

lemma hdr_get_filter_same:
  "hdr_get nk k (filter (\<lambda>(k', _). nk k' \<noteq> nk k) hs) = []"
  by (simp add: hdr_get_def filter_filter case_prod_beta)

lemma ctx_get_req_del_same: "ctx_get k (req_del k c) = []"
  by (simp add: ctx_get_def req_del_def hdr_get_filter_same)

text \<open>
  Renaming a header to a name that normalises to the same key (\<open>x-id\<close> to
  \<open>X-Id\<close>) deletes it: \<open>Set\<close> overwrites the entry, \<open>Del\<close> then removes it.
\<close>

lemma rename_same_key_deletes:
  "normalizeHeaderKey newKey = normalizeHeaderKey oldKey \<Longrightarrow>
   ctx_get newKey (rename_header (oldKey, newKey) c) = []"
  by (auto simp: rename_header_def Let_def ctx_get_req_del_same ctx_get_def req_del_def hdr_get_def
           filter_filter case_prod_beta)

lemma hdr_get_filter_other:
  "nk ok \<noteq> nk k \<Longrightarrow> hdr_get nk k (filter (\<lambda>(k', _). nk k' \<noteq> nk ok) hs) = hdr_get nk k hs"
proof -
  assume "nk ok \<noteq> nk k"
  then have "filter (\<lambda>(k', _). nk k' = nk k) (filter (\<lambda>(k', _). nk k' \<noteq> nk ok) hs) =
             filter (\<lambda>(k', _). nk k' = nk k) hs"
    by (induction hs) auto
  then show ?thesis by (simp add: hdr_get_def)
qed

lemma ctx_get_req_del_other:
  "normalizeHeaderKey ok \<noteq> normalizeHeaderKey k \<Longrightarrow> ctx_get k (req_del ok c) = ctx_get k c"
  by (simp add: ctx_get_def req_del_def hdr_get_filter_other)

lemma ctx_get_req_del:
  "ctx_get k (req_del ok c) = (if normalizeHeaderKey ok = normalizeHeaderKey k then [] else ctx_get k c)"
  by (metis ctx_get_req_del_other ctx_get_req_del_same ctx_get_def req_del_def hdr_get_filter_same)

text \<open>A rename whose new name is another key leaves a missing header missing.\<close>

lemma rename_header_keeps_absent:
  "normalizeHeaderKey (snd kv) \<noteq> normalizeHeaderKey k \<Longrightarrow> ctx_get k c = [] \<Longrightarrow>
   ctx_get k (rename_header kv c) = []"
  by (cases kv) (auto simp: rename_header_def Let_def ctx_get_req_del ctx_get_req_set)

lemma fold_rename_keeps_absent:
  "\<forall>kv \<in> set kvs. normalizeHeaderKey (snd kv) \<noteq> normalizeHeaderKey k \<Longrightarrow> ctx_get k c = [] \<Longrightarrow>
   ctx_get k (fold rename_header kvs c) = []"
  by (induction kvs arbitrary: c) (auto simp: rename_header_keeps_absent)

lemma fold_req_del_member:
  "k \<in> set ks \<Longrightarrow> ctx_get k (fold req_del ks c) = []"
proof (induction ks arbitrary: c rule: rev_induct)
  case (snoc x xs)
  then show ?case by (cases "k = x") (auto simp: ctx_get_req_del)
qed simp

text \<open>
  A header both added and removed by one transformation is absent afterwards, unless a
  rename brings it back: the removals run after the additions.
\<close>

lemma TransformHeaders_remove_wins:
  assumes "TransformHeaders t c = Next c'" and "k \<in> set (RemoveHeaders t)"
    and "\<forall>kv \<in> set (RenameHeaders t). normalizeHeaderKey (snd kv) \<noteq> normalizeHeaderKey k"
  shows "ctx_get k c' = []"
  using assms fold_rename_keeps_absent fold_req_del_member
  by (auto simp: TransformHeaders_def Let_def)

text \<open>
  In the JSON format the request path is written into the request log line as it came,
  between quotes and without escaping.
\<close>

lemma request_log_embeds_path:
  assumes "lg_format l = ''json''" and "shouldLog l (level_name (request_log_level s))"
  shows "event_output l ts (RequestLogger_event c s d) =
           ''{'' @ qt @ ''level'' @ qt @ '':'' @ qt @ level_tag (request_log_level s) @ qt @ '','' @ qt @ ''time'' @
           qt @ '':'' @ qt @ ts @ qt @ '','' @ qt @ ''msg'' @ qt @ '':'' @ qt @ ''HTTP Request'' @ qt @
           '','' @ qt @ ''method'' @ qt @ '':'' @ qt @ rq_method (cx_req c) @ qt @
           '','' @ qt @ ''path'' @ qt @ '':'' @ qt @ rq_path (cx_req c) @ qt @
           fields_json (flatten_fields (drop 2 (ev_fields (RequestLogger_event c s d)))) @ ''}'' @ [CHR 0x0A]"
  using assms
  by (simp add: event_output_def emit_def log_line_def RequestLogger_event_def flatten_fields_def)

text \<open>
  C24: log lines can be forged (CWE-117). With the JSON format, a client that requests
  the path \<open>/x","level":"DEBUG\<close> gets its request logged at level INFO by a line that
  carries a second \<open>level\<close> key with the client's value: the logger writes fields
  between quotes without escaping them.
\<close>

theorem request_log_injection:
  assumes "lg_format l = ''json''" and "shouldLog l ''info''"
    and "rq_path (cx_req c) = ''/x'' @ qt @ '','' @ qt @ ''level'' @ qt @ '':'' @ qt @ ''DEBUG''"
  shows "\<exists>pre post. event_output l ts (RequestLogger_event c 200 d) =
           ''{'' @ qt @ ''level'' @ qt @ '':'' @ qt @ ''INFO'' @ qt @ pre @
           qt @ ''level'' @ qt @ '':'' @ qt @ ''DEBUG'' @ qt @ post"
proof -
  have "request_log_level 200 = LogInfo" by (simp add: request_log_level_def)
  then have eq: "event_output l ts (RequestLogger_event c 200 d) =
           ''{'' @ qt @ ''level'' @ qt @ '':'' @ qt @ ''INFO'' @ qt @ '','' @ qt @ ''time'' @
           qt @ '':'' @ qt @ ts @ qt @ '','' @ qt @ ''msg'' @ qt @ '':'' @ qt @ ''HTTP Request'' @ qt @
           '','' @ qt @ ''method'' @ qt @ '':'' @ qt @ rq_method (cx_req c) @ qt @
           '','' @ qt @ ''path'' @ qt @ '':'' @ qt @ (''/x'' @ qt @ '','') @
           (qt @ ''level'' @ qt @ '':'' @ qt @ ''DEBUG'' @ qt @
           fields_json (flatten_fields (drop 2 (ev_fields (RequestLogger_event c 200 d)))) @ ''}'' @ [CHR 0x0A])"
    using request_log_embeds_path [of l 200 ts c d] assms by (simp add: level_name_def level_tag_def)
  show ?thesis
    by (rule exI [of _ "'','' @ qt @ ''time'' @ qt @ '':'' @ qt @ ts @ qt @ '','' @ qt @ ''msg'' @ qt @ '':'' @ qt @
                       ''HTTP Request'' @ qt @ '','' @ qt @ ''method'' @ qt @ '':'' @ qt @ rq_method (cx_req c) @ qt @
                       '','' @ qt @ ''path'' @ qt @ '':'' @ qt @ ''/x'' @ qt @ '',''"],
        rule exI [of _ "fields_json (flatten_fields (drop 2 (ev_fields (RequestLogger_event c 200 d)))) @ ''}'' @
                        [CHR 0x0A]"])
       (simp add: eq)
qed

theorem request_log_injection_witness:
  "\<exists>pre post. event_output \<lparr>lg_level = ''info'', lg_format = ''json''\<rparr> ''2025-01-01T00:00:00Z''
       (RequestLogger_event (new_ctx (demo_request\<lparr>rq_path := ''/x'' @ qt @ '','' @ qt @ ''level'' @ qt @ '':'' @
                                                   qt @ ''DEBUG''\<rparr>) ''gw'') 200 3) =
     ''{'' @ qt @ ''level'' @ qt @ '':'' @ qt @ ''INFO'' @ qt @ pre @ qt @ ''level'' @ qt @ '':'' @ qt @ ''DEBUG'' @
     qt @ post"
  using request_log_injection [of "\<lparr>lg_level = ''info'', lg_format = ''json''\<rparr>"
          "new_ctx (demo_request\<lparr>rq_path := ''/x'' @ qt @ '','' @ qt @ ''level'' @ qt @ '':'' @ qt @ ''DEBUG''\<rparr>) ''gw''"
          "''2025-01-01T00:00:00Z''" 3]
  by (simp add: shouldLog_def level_rank_def)

text \<open>
  The renames run in the iteration order of a Go map, which is unspecified: with the
  renames \<open>X-A\<close> to \<open>X-B\<close> and \<open>X-B\<close> to \<open>X-C\<close> the value ends under
  \<open>X-C\<close> in one order and under \<open>X-B\<close> in the other.
\<close>

lemma rename_order_matters:
  "ctx_get ''X-C'' (fold rename_header [(''X-A'', ''X-B''), (''X-B'', ''X-C'')]
      (new_ctx (demo_request\<lparr>rq_headers := [(''X-A'', ''v'')]\<rparr>) ''gw'')) = ''v'' \<and>
   ctx_get ''X-B'' (fold rename_header [(''X-B'', ''X-C''), (''X-A'', ''X-B'')]
      (new_ctx (demo_request\<lparr>rq_headers := [(''X-A'', ''v'')]\<rparr>) ''gw'')) = ''v''"
  by code_simp

end
