(* ===== verification/Config.thy ===== *)
theory Config
  imports Pipeline
begin

text \<open>
  The configuration package (\<open>config/config.go\<close> and \<open>config/routes.go\<close>, staged in
  \<open>src/Dockerfile\<close>) and the wiring of \<open>main\<close> (\<open>src/tests/integration/gateway_test.go\<close>).
  \<open>config.Load\<close> reads the process environment through \<open>os.Getenv\<close>, which is a
  function from names to values with \<open>""\<close> for an unset name; \<open>godotenv.Load\<close> only
  fills that environment. \<open>strconv.Atoi\<close> and \<open>strconv.ParseBool\<close> are written out;
  \<open>time.ParseDuration\<close> and \<open>strconv.ParseFloat\<close> are parameters, as are the routes
  file (its contents, if it can be read, and the YAML decoder) and whether the Redis
  server answers the start-up ping.
\<close>

section \<open>Configuration records\<close>

record ServerConfig =
  Port :: string
  Host :: string
  ReadTimeout :: nanos
  WriteTimeout :: nanos
  IdleTimeout :: nanos
  ShutdownTimeout :: nanos
  TrustedProxies :: "string list"

record RedisConfig =
  RedisHost :: string
  RedisPort :: string
  RedisPassword :: string
  RedisDB :: int

record JWTConfig =
  Secret :: string
  AccessExpiresIn :: nanos
  RefreshExpiresIn :: nanos

record TracingConfig =
  TracingEnabled :: bool
  ServiceName :: string
  Endpoint :: string
  SampleRate :: real

record LoggingConfig =
  Level :: string
  Format :: string

record Config =
  CfgServer :: ServerConfig
  CfgServices :: ServicesConfig
  CfgRedis :: RedisConfig
  CfgJWT :: JWTConfig
  CfgRateLimit :: RateLimitConfig
  CfgCircuit :: CircuitConfig
  CfgTracing :: TracingConfig
  CfgLogging :: LoggingConfig

type_synonym environ = "string \<Rightarrow> string"

section \<open>Parsing (strconv)\<close>

definition is_digit :: "char \<Rightarrow> bool" where
  "is_digit c \<longleftrightarrow> 48 \<le> (of_char c :: nat) \<and> (of_char c :: nat) \<le> 57"

definition digits_value :: "string \<Rightarrow> nat" where
  "digits_value ds = foldl (\<lambda>acc c. 10 * acc + (of_char c - 48)) 0 ds"

text \<open>
  \<open>strconv.Atoi\<close>: an optional sign, then at least one decimal digit; a value outside
  the 64-bit \<open>int\<close> range is a range error.
\<close>

definition Atoi :: "string \<Rightarrow> int option" where
  "Atoi s =
     (let (neg, ds) = (case s of
                         c # r \<Rightarrow> if c = CHR ''-'' then (True, r) else if c = CHR ''+'' then (False, r) else (False, s)
                       | [] \<Rightarrow> (False, []))
      in if ds = [] \<or> \<not> list_all is_digit ds then None
         else (let n = (if neg then - int (digits_value ds) else int (digits_value ds))
               in if n < - (2 ^ 63) \<or> 2 ^ 63 - 1 < n then None else Some n))"

definition ParseBool :: "string \<Rightarrow> bool option" where
  "ParseBool s =
     (if s \<in> set [''1'', ''t'', ''T'', ''TRUE'', ''true'', ''True''] then Some True
      else if s \<in> set [''0'', ''f'', ''F'', ''FALSE'', ''false'', ''False''] then Some False
      else None)"

section \<open>Environment lookups\<close>

definition getEnv :: "environ \<Rightarrow> string \<Rightarrow> string \<Rightarrow> string" where
  "getEnv env key defaultValue = (let value = env key in if value \<noteq> [] then value else defaultValue)"

definition getEnvInt :: "environ \<Rightarrow> string \<Rightarrow> int \<Rightarrow> int" where
  "getEnvInt env key defaultValue =
     (let value = env key in
      if value \<noteq> [] then (case Atoi value of Some i \<Rightarrow> i | None \<Rightarrow> defaultValue) else defaultValue)"

definition getEnvBool :: "environ \<Rightarrow> string \<Rightarrow> bool \<Rightarrow> bool" where
  "getEnvBool env key defaultValue =
     (let value = env key in
      if value \<noteq> [] then (case ParseBool value of Some b \<Rightarrow> b | None \<Rightarrow> defaultValue) else defaultValue)"

definition getEnvFloat :: "(string \<Rightarrow> real option) \<Rightarrow> environ \<Rightarrow> string \<Rightarrow> real \<Rightarrow> real" where
  "getEnvFloat pf env key defaultValue =
     (let value = env key in
      if value \<noteq> [] then (case pf value of Some f \<Rightarrow> f | None \<Rightarrow> defaultValue) else defaultValue)"

definition getDuration :: "(string \<Rightarrow> nanos option) \<Rightarrow> environ \<Rightarrow> string \<Rightarrow> nanos \<Rightarrow> nanos" where
  "getDuration pd env key defaultValue =
     (let value = env key in
      if value \<noteq> [] then (case pd value of Some d \<Rightarrow> d | None \<Rightarrow> defaultValue) else defaultValue)"

definition getEnvSlice :: "environ \<Rightarrow> string \<Rightarrow> string list \<Rightarrow> string list" where
  "getEnvSlice env key defaultValue =
     (let value = env key in if value \<noteq> [] then Split CHR '','' value else defaultValue)"

section \<open>Loading\<close>

text \<open>\<open>config.Load\<close>; \<open>uint32(...)\<close> of an \<open>int\<close> keeps its low 32 bits.\<close>

definition Load :: "(string \<Rightarrow> nanos option) \<Rightarrow> (string \<Rightarrow> real option) \<Rightarrow> environ \<Rightarrow> Config" where
  "Load pd pf env =
     \<lparr>CfgServer = \<lparr>Port = getEnv env ''SERVER_PORT'' ''8080'', Host = getEnv env ''SERVER_HOST'' ''0.0.0.0'',
                   ReadTimeout = getDuration pd env ''SERVER_READ_TIMEOUT'' (30 * second),
                   WriteTimeout = getDuration pd env ''SERVER_WRITE_TIMEOUT'' (30 * second),
                   IdleTimeout = getDuration pd env ''SERVER_IDLE_TIMEOUT'' (120 * second),
                   ShutdownTimeout = getDuration pd env ''SERVER_SHUTDOWN_TIMEOUT'' (30 * second),
                   TrustedProxies = getEnvSlice env ''TRUSTED_PROXIES'' [''127.0.0.1'']\<rparr>,
      CfgServices =
        \<lparr>AuthService = \<lparr>SC_URL = getEnv env ''AUTH_SERVICE_URL'' ''http://localhost:5000'',
                        SC_Timeout = getDuration pd env ''AUTH_SERVICE_TIMEOUT'' (30 * second),
                        SC_MaxIdleConns = getEnvInt env ''AUTH_MAX_IDLE_CONNS'' 100,
                        SC_MaxConnsPerHost = getEnvInt env ''AUTH_MAX_CONNS_PER_HOST'' 100,
                        SC_HealthPath = getEnv env ''AUTH_HEALTH_PATH'' ''/api/health''\<rparr>,
         NotifierService = \<lparr>SC_URL = getEnv env ''NOTIFIER_SERVICE_URL'' ''http://localhost:5001'',
                            SC_Timeout = getDuration pd env ''NOTIFIER_SERVICE_TIMEOUT'' (30 * second),
                            SC_MaxIdleConns = getEnvInt env ''NOTIFIER_MAX_IDLE_CONNS'' 100,
                            SC_MaxConnsPerHost = getEnvInt env ''NOTIFIER_MAX_CONNS_PER_HOST'' 100,
                            SC_HealthPath = getEnv env ''NOTIFIER_HEALTH_PATH'' ''/api/health''\<rparr>\<rparr>,
      CfgRedis = \<lparr>RedisHost = getEnv env ''REDIS_HOST'' ''localhost'', RedisPort = getEnv env ''REDIS_PORT'' ''6379'',
                  RedisPassword = getEnv env ''REDIS_PASSWORD'' [], RedisDB = getEnvInt env ''REDIS_DB'' 0\<rparr>,
      CfgJWT = \<lparr>Secret = getEnv env ''JWT_SECRET'' ''your-secret-key'',
                AccessExpiresIn = getDuration pd env ''JWT_ACCESS_EXPIRES'' (15 * 60 * second),
                RefreshExpiresIn = getDuration pd env ''JWT_REFRESH_EXPIRES'' (7 * 24 * 3600 * second)\<rparr>,
      CfgRateLimit = \<lparr>RLEnabled = getEnvBool env ''RATE_LIMIT_ENABLED'' True,
                      RLRequestsPerSec = getEnvInt env ''RATE_LIMIT_RPS'' 100,
                      RLBurstSize = getEnvInt env ''RATE_LIMIT_BURST'' 200,
                      RLCleanupInterval = getDuration pd env ''RATE_LIMIT_CLEANUP'' (60 * second)\<rparr>,
      CfgCircuit = \<lparr>CEnabled = getEnvBool env ''CIRCUIT_ENABLED'' True,
                    CMaxRequests = word_of_int (getEnvInt env ''CIRCUIT_MAX_REQUESTS'' 5),
                    CInterval = getDuration pd env ''CIRCUIT_INTERVAL'' (60 * second),
                    CTimeout = getDuration pd env ''CIRCUIT_TIMEOUT'' (30 * second),
                    CFailureThreshold = word_of_int (getEnvInt env ''CIRCUIT_FAILURE_THRESHOLD'' 5)\<rparr>,
      CfgTracing = \<lparr>TracingEnabled = getEnvBool env ''TRACING_ENABLED'' True,
                    ServiceName = getEnv env ''SERVICE_NAME'' ''minisource-gateway'',
                    Endpoint = getEnv env ''OTEL_EXPORTER_OTLP_ENDPOINT'' ''http://localhost:4318'',
                    SampleRate = getEnvFloat pf env ''TRACING_SAMPLE_RATE'' 1\<rparr>,
      CfgLogging = \<lparr>Level = getEnv env ''LOG_LEVEL'' ''info'', Format = getEnv env ''LOG_FORMAT'' ''json''\<rparr>\<rparr>"

text \<open>
  \<open>LoadRoutes\<close>: the file's contents if it can be read, decoded by the YAML library; an
  unreadable file gives the default table, a decoding error is returned.
\<close>

definition LoadRoutes :: "string option \<Rightarrow> (string \<Rightarrow> string + Route list) \<Rightarrow> string + Route list" where
  "LoadRoutes contents unmarshal = (case contents of None \<Rightarrow> Inr DefaultRoutes | Some d \<Rightarrow> unmarshal d)"

section \<open>Start-up (main)\<close>

definition NewLogger :: "LoggingConfig \<Rightarrow> SimpleLogger" where
  "NewLogger cfg = \<lparr>lg_level = Level cfg, lg_format = Format cfg\<rparr>"

text \<open>
  What \<open>main\<close> builds before serving: the routes (the default table when loading fails),
  the logger, the Redis client (kept only if a host is configured and the ping
  succeeds), the registry, the breaker manager, the limiter, and the middleware
  configuration \<open>setupMiddleware\<close> reads.
\<close>

definition main_setup ::
  "Config \<Rightarrow> (string + Route list) \<Rightarrow> bool \<Rightarrow> Gateway \<times> GwState" where
  "main_setup cfg loaded pingOk =
     (let routes = (case loaded of Inl _ \<Rightarrow> DefaultRoutes | Inr rs \<Rightarrow> rs);
          logger = NewLogger (CfgLogging cfg);
          redisClient = (RedisHost (CfgRedis cfg) \<noteq> [] \<and> pingOk)
      in (\<lparr>gw_routes = routes, gw_auth = NewAuthMiddleware (Secret (CfgJWT cfg)) routes, gw_logger = logger,
           gw_origins = [''*''], gw_tracing = TracingEnabled (CfgTracing cfg)\<rparr>,
          \<lparr>gw_limiter = NewRateLimiter (CfgRateLimit cfg) redisClient,
           gw_breakers = NewCircuitBreakerManager (CfgCircuit cfg),
           gw_proxy = NewServiceProxy (CfgServices cfg), gw_metrics = empty_metrics\<rparr>))"

section \<open>Lemmas\<close>

text \<open>
  With no variable set, \<open>Load\<close> gives the breaker, limiter and registry settings the
  other theories use as their defaults, tracing on, and the hard-coded JWT secret.
\<close>

lemma Load_defaults:
  "CfgCircuit (Load pd pf (\<lambda>_. [])) = default_circuit_config"
  "CfgServices (Load pd pf (\<lambda>_. [])) = demo_services"
  "CfgRateLimit (Load pd pf (\<lambda>_. [])) =
     \<lparr>RLEnabled = True, RLRequestsPerSec = 100, RLBurstSize = 200, RLCleanupInterval = 60 * second\<rparr>"
  "TracingEnabled (CfgTracing (Load pd pf (\<lambda>_. [])))"
  "Secret (CfgJWT (Load pd pf (\<lambda>_. []))) = ''your-secret-key''"
  "CfgLogging (Load pd pf (\<lambda>_. [])) = \<lparr>Level = ''info'', Format = ''json''\<rparr>"
  by (simp_all add: Load_def getEnv_def getEnvInt_def getEnvBool_def getDuration_def getEnvFloat_def
      default_circuit_config_def demo_services_def second_def)

text \<open>
  \<open>strconv.Atoi\<close> reads back what \<open>Itoa\<close> prints, over the whole 64-bit range: the
  digits of \<open>nat_digits\<close> are decimal digits whose value is the number, and the first
  is never a sign.
\<close>

lemma of_char_digit: "m < 10 \<Longrightarrow> of_char (char_of (48 + m)) = 48 + (m::nat)"
  by (simp add: of_char_of)

lemma digit_is_digit: "(m::nat) < 10 \<Longrightarrow> is_digit (char_of (48 + m))"
  by (simp add: is_digit_def of_char_digit)

lemma digit_not_sign:
  assumes "(m::nat) < 10"
  shows "char_of (48 + m) \<notin> {CHR ''-'', CHR ''+''}"
proof
  assume "char_of (48 + m) \<in> {CHR ''-'', CHR ''+''}"
  then obtain c where c: "c \<in> {CHR ''-'', CHR ''+''}" "char_of (48 + m) = c" by blast
  have "of_char (char_of (48 + m)) = (of_char c :: nat)" by (simp only: c(2))
  then have "of_char c = 48 + m" using of_char_digit [OF assms] by simp
  with c(1) show False by auto
qed

lemma nat_digits_parse:
  "nat_digits n \<noteq> [] \<and> list_all is_digit (nat_digits n) \<and> digits_value (nat_digits n) = n \<and>
   hd (nat_digits n) \<notin> {CHR ''-'', CHR ''+''}"
proof (induction n rule: nat_digits.induct)
  case (1 n)
  note eq = nat_digits.simps [of n]
  show ?case
  proof (cases "n < 10")
    case True
    then show ?thesis
      using digit_not_sign [of n] by (simp add: eq digit_is_digit digits_value_def of_char_digit)
  next
    case False
    with "1.IH" have ih: "nat_digits (n div 10) \<noteq> [] \<and> list_all is_digit (nat_digits (n div 10)) \<and>
        digits_value (nat_digits (n div 10)) = n div 10 \<and> hd (nat_digits (n div 10)) \<notin> {CHR ''-'', CHR ''+''}"
      by simp
    have "digits_value (nat_digits (n div 10) @ [char_of (48 + n mod 10)]) = 10 * (n div 10) + n mod 10"
      using ih by (simp add: digits_value_def of_char_digit)
    with ih False show ?thesis
      by (simp add: eq digit_is_digit)
  qed
qed

lemma Atoi_Itoa:
  assumes "- (2 ^ 63) \<le> i" and "i \<le> 2 ^ 63 - 1"
  shows "Atoi (Itoa i) = Some i"
proof (cases "i < 0")
  case True
  with assms nat_digits_parse [of "nat (- i)"] show ?thesis
    by (auto simp: Atoi_def Itoa_def)
next
  case False
  with assms nat_digits_parse [of "nat i"] show ?thesis
    by (cases "nat_digits (nat i)") (auto simp: Atoi_def Itoa_def)
qed

text \<open>
  \<open>uint32(getEnvInt(...))\<close> keeps the low 32 bits: a failure threshold of \<open>-1\<close>
  becomes \<open>2^32 - 1\<close>, and the breakers built from it trip only once the request
  count has reached that value.
\<close>

lemma Atoi_minus_one: "Atoi ''-1'' = Some (- 1)"
  by (simp add: Atoi_def is_digit_def digits_value_def)

lemma Load_threshold_wraps:
  assumes "env ''CIRCUIT_FAILURE_THRESHOLD'' = ''-1''"
  shows "CFailureThreshold (CfgCircuit (Load pd pf env)) = - 1"
  using assms by (simp add: Load_def getEnvInt_def Atoi_minus_one)

lemma word32_minus_one: "(- 1 :: 32 word) = 4294967295"
  by simp

text \<open>
  C19: \<open>Load\<close> reads \<open>CIRCUIT_FAILURE_THRESHOLD=-1\<close> as the failure threshold
  \<open>2^32 - 1\<close> (\<open>uint32\<close> of a negative \<open>int\<close>), and a breaker manager configured
  so considers tripping only at a request count of \<open>2^32 - 1\<close> (spec 4.4: the
  threshold is a count of requests).
\<close>

theorem Load_threshold_wraps_never_trips:
  assumes "env ''CIRCUIT_FAILURE_THRESHOLD'' = ''-1''"
    and "managerReadyToTrip (CfgCircuit (Load pd pf env)) cnt"
  shows "CFailureThreshold (CfgCircuit (Load pd pf env)) = 4294967295 \<and> Requests cnt = 4294967295"
proof -
  have "Requests cnt = - 1"
    using assms word_n1_ge [of "Requests cnt"]
    by (simp add: managerReadyToTrip_def Load_threshold_wraps)
  then show ?thesis
    using Load_threshold_wraps [where env = env and pd = pd and pf = pf, OF assms(1)]
    by (simp add: word32_minus_one)
qed

theorem Load_threshold_wraps_never_trips_witness:
  "(\<lambda>k. if k = ''CIRCUIT_FAILURE_THRESHOLD'' then ''-1'' else []) ''CIRCUIT_FAILURE_THRESHOLD'' = ''-1'' \<and>
   managerReadyToTrip (CfgCircuit (Load (\<lambda>_. None) (\<lambda>_. None) (\<lambda>k. if k = ''CIRCUIT_FAILURE_THRESHOLD'' then ''-1'' else [])))
     \<lparr>Requests = 4294967295, TotalSuccesses = 0, TotalFailures = 4294967295,
      ConsecutiveSuccesses = 0, ConsecutiveFailures = 4294967295\<rparr> \<and>
   CFailureThreshold (CfgCircuit (Load (\<lambda>_. None) (\<lambda>_. None) (\<lambda>k. if k = ''CIRCUIT_FAILURE_THRESHOLD'' then ''-1'' else []))) = 4294967295"
proof -
  let ?env = "\<lambda>k. if k = ''CIRCUIT_FAILURE_THRESHOLD'' then ''-1'' else []"
  let ?cnt = "\<lparr>Requests = (4294967295 :: 32 word), TotalSuccesses = 0, TotalFailures = 4294967295,
      ConsecutiveSuccesses = 0, ConsecutiveFailures = 4294967295\<rparr>"
  have e: "?env ''CIRCUIT_FAILURE_THRESHOLD'' = ''-1''" by simp
  have t: "managerReadyToTrip (CfgCircuit (Load (\<lambda>_. None) (\<lambda>_. None) ?env)) ?cnt"
    using Load_threshold_wraps [where env = ?env and pd = "\<lambda>_. None" and pf = "\<lambda>_. None", OF e]
    by (simp add: managerReadyToTrip_def failure_ratio_at_least_half_def word32_minus_one)
  show ?thesis using Load_threshold_wraps_never_trips [where env = ?env, OF e t] e t by simp
qed


text \<open>
  The gateway \<open>main\<close> builds from an empty environment verifies tokens with the
  public default secret, traces, and uses the default breaker settings.
\<close>

lemma main_setup_default:
  "JWTSecret (gw_auth (fst (main_setup (Load pd pf (\<lambda>_. [])) l p))) = ''your-secret-key''"
  "gw_tracing (fst (main_setup (Load pd pf (\<lambda>_. [])) l p))"
  "gw_breakers (snd (main_setup (Load pd pf (\<lambda>_. [])) l p)) = NewCircuitBreakerManager default_circuit_config"
  by (simp_all add: main_setup_def Let_def NewAuthMiddleware_def DefaultAuthConfig_def Load_defaults)

end
