(* ===== verification/Telemetry.thy ===== *)
theory Telemetry
  imports Config
begin

text \<open>
  Tracer initialisation (\<open>InitTracer\<close> in \<open>internal/middleware/tracing.go\<close>) and what
  the OpenTelemetry SDK it configures does with a request's span: the trace-id ratio
  sampler, the W3C \<open>traceparent\<close> header the propagator writes, and the URL the OTLP
  HTTP exporter sends to. The SDK is not part of the repository; its definitions here
  follow its documentation (\<open>sdktrace.TraceIDRatioBased\<close>, \<open>propagation.TraceContext\<close>,
  \<open>otlptracehttp.WithEndpoint\<close> and \<open>WithInsecure\<close>). Trace and span ids are the
  16- and 8-byte arrays of the SDK, read big-endian as 128- and 64-bit words.
\<close>

section \<open>The SDK's sampler\<close>

text \<open>
  \<open>TraceIDRatioBased(fraction)\<close>: a fraction of at least one samples everything;
  otherwise the bound is \<open>uint64(fraction * 2^63)\<close> (a negative fraction counts as
  zero), and a trace is sampled when the last 8 bytes of its id, shifted right by one,
  are below the bound. The parent's decision is not consulted.
\<close>

datatype Sampler = AlwaysSample | RatioSampler "64 word"

definition TraceIDRatioBased :: "real \<Rightarrow> Sampler" where
  "TraceIDRatioBased fraction =
     (if 1 \<le> fraction then AlwaysSample
      else (let f = (if fraction \<le> 0 then 0 else fraction)
            in RatioSampler (word_of_nat (nat \<lfloor>f * 2 ^ 63\<rfloor>))))"

definition ShouldSample :: "Sampler \<Rightarrow> 128 word \<Rightarrow> bool" where
  "ShouldSample s tid =
     (case s of AlwaysSample \<Rightarrow> True
      | RatioSampler bound \<Rightarrow> drop_bit 1 (ucast tid :: 64 word) < bound)"

section \<open>Initialisation\<close>

text \<open>
  The tracer provider \<open>InitTracer\<close> installs: the exporter's endpoint, the resource's
  service name and version, and the sampler. The exporter and resource constructors
  can fail; their errors are parameters.
\<close>

record TracerProvider =
  tp_endpoint :: string
  tp_service_name :: string
  tp_service_version :: string
  tp_sampler :: Sampler

text \<open>
  \<open>InitTracer\<close>: disabled tracing returns a no-op shutdown function and installs
  nothing (\<open>Inr None\<close>); an exporter or resource error is returned (\<open>Inl\<close>, and
  \<open>main\<close> then has no shutdown function); otherwise the provider and the W3C
  propagator become the global ones (\<open>Inr (Some tp)\<close>).
\<close>

definition InitTracer ::
  "TracingConfig \<Rightarrow> GoError option \<Rightarrow> GoError option \<Rightarrow> GoError + TracerProvider option" where
  "InitTracer cfg exporterErr resourceErr =
     (if \<not> TracingEnabled cfg then Inr None
      else (case exporterErr of Some err \<Rightarrow> Inl err
            | None \<Rightarrow> (case resourceErr of Some err \<Rightarrow> Inl err
                       | None \<Rightarrow> Inr (Some \<lparr>tp_endpoint = Endpoint cfg, tp_service_name = ServiceName cfg,
                                             tp_service_version = ''1.0.0'',
                                             tp_sampler = TraceIDRatioBased (SampleRate cfg)\<rparr>))))"

text \<open>The provider the middleware's tracer comes from: none unless \<open>InitTracer\<close> installed one.\<close>

definition installed_provider :: "GoError + TracerProvider option \<Rightarrow> TracerProvider option" where
  "installed_provider r = (case r of Inr p \<Rightarrow> p | Inl _ \<Rightarrow> None)"

text \<open>
  \<open>otlptracehttp\<close> with \<open>WithEndpoint(e)\<close> and \<open>WithInsecure()\<close> posts to
  \<open>http://e/v1/traces\<close>: the option takes a host and port, without scheme or path.
\<close>

definition export_url :: "TracerProvider \<Rightarrow> string" where
  "export_url tp = ''http://'' @ tp_endpoint tp @ ''/v1/traces''"

section \<open>Span contexts and the traceparent header\<close>

text \<open>
  A span context: trace id, span id, sampled flag. The server span the middleware
  starts takes the trace id of the remote parent the propagator extracted, or a fresh
  one, and always a fresh span id; the sampler decides its flag. Without an installed
  provider the global tracer and propagator are no-ops: nothing is extracted and the
  span context is invalid.
\<close>

type_synonym SpanContext = "128 word \<times> 64 word \<times> bool"

definition server_span_context ::
  "TracerProvider option \<Rightarrow> SpanContext option \<Rightarrow> 128 word \<Rightarrow> 64 word \<Rightarrow> SpanContext option" where
  "server_span_context prov parent freshTid freshSid =
     (case prov of None \<Rightarrow> None
      | Some tp \<Rightarrow>
          (let tid = (case parent of Some (t, _, _) \<Rightarrow> t | None \<Rightarrow> freshTid)
           in Some (tid, freshSid, ShouldSample (tp_sampler tp) tid)))"

text \<open>
  \<open>CreateSpan(ctx, name)\<close>: \<open>otel.Tracer("gateway").Start(ctx, name)\<close>, a span of
  the given name whose context is derived from the span in \<open>ctx\<close> exactly as the
  server span's is from its remote parent. Nothing in the repository calls it.
\<close>

definition CreateSpan ::
  "TracerProvider option \<Rightarrow> SpanContext option \<Rightarrow> string \<Rightarrow> 128 word \<Rightarrow> 64 word \<Rightarrow> string \<times> SpanContext option" where
  "CreateSpan prov parent name freshTid freshSid = (name, server_span_context prov parent freshTid freshSid)"

text \<open>Lower-case hexadecimal of fixed width, as \<open>hex.EncodeToString\<close> writes an id.\<close>

definition hex_digit :: "nat \<Rightarrow> char" where
  "hex_digit d = (if d < 10 then char_of (48 + d) else char_of (87 + d))"

primrec hex_fixed :: "nat \<Rightarrow> nat \<Rightarrow> string" where
  "hex_fixed 0 n = []"
| "hex_fixed (Suc k) n = hex_fixed k (n div 16) @ [hex_digit (n mod 16)]"

text \<open>
  \<open>TraceContext.Inject\<close>: nothing for an invalid span context; otherwise
  \<open>00-<trace id>-<span id>-<flags>\<close>, the flags \<open>01\<close> when sampled.
\<close>

definition traceparent_of :: "SpanContext option \<Rightarrow> string option" where
  "traceparent_of sc =
     (case sc of None \<Rightarrow> None
      | Some (tid, sid, sampled) \<Rightarrow>
          Some (''00-'' @ hex_fixed 32 (unat tid) @ ''-'' @ hex_fixed 16 (unat sid) @ ''-'' @
                (if sampled then ''01'' else ''00'')))"

text \<open>Reading a hexadecimal field back, as the next hop's extractor does.\<close>

definition hex_value :: "string \<Rightarrow> nat" where
  "hex_value s = foldl (\<lambda>acc c. 16 * acc + (let n = (of_char c :: nat) in if n < 97 then n - 48 else n - 87)) 0 s"

definition traceparent_trace_id :: "string \<Rightarrow> 128 word" where
  "traceparent_trace_id h = word_of_nat (hex_value (take 32 (drop 3 h)))"

definition traceparent_sampled :: "string \<Rightarrow> bool" where
  "traceparent_sampled h = (drop 53 h = ''01'')"

text \<open>
  The tracing middleware of a gateway whose start-up \<open>InitTracer\<close> call returned
  \<open>init\<close>: the span and request \<open>Tracing_start\<close> produces with the header the
  propagator injects.
\<close>

definition traced_start ::
  "GoError + TracerProvider option \<Rightarrow> SpanContext option \<Rightarrow> 128 word \<Rightarrow> 64 word \<Rightarrow>
   string \<Rightarrow> ReqCtx \<Rightarrow> Span \<times> ReqCtx" where
  "traced_start init parent freshTid freshSid routePath c =
     Tracing_start routePath
       (traceparent_of (server_span_context (installed_provider init) parent freshTid freshSid)) c"


section \<open>Lemmas\<close>

text \<open>
  The sampler: a rate of one or more samples every trace, a rate of zero or less none;
  in between, a trace is sampled exactly when the last 64 bits of its id are below
  \<open>2 * uint64(f * 2^63)\<close>, so exactly that many of the \<open>2^64\<close> suffixes are sampled,
  and raising the rate never unsamples a trace.
\<close>

lemma ShouldSample_ge1: "1 \<le> f \<Longrightarrow> ShouldSample (TraceIDRatioBased f) t"
  by (simp add: TraceIDRatioBased_def ShouldSample_def)

lemma ShouldSample_le0: "f \<le> 0 \<Longrightarrow> \<not> ShouldSample (TraceIDRatioBased f) t"
  by (simp add: TraceIDRatioBased_def ShouldSample_def)

lemma ratio_bound_lt: "0 \<le> f \<Longrightarrow> f < 1 \<Longrightarrow> nat \<lfloor>(f :: real) * 2 ^ 63\<rfloor> < 2 ^ 63"
proof -
  assume "0 \<le> f" "f < 1"
  then have "f * 2 ^ 63 < 2 ^ 63" by simp
  then have "\<lfloor>f * 2 ^ 63\<rfloor> < 2 ^ 63" by (simp add: floor_less_iff)
  moreover have "0 \<le> \<lfloor>f * 2 ^ 63\<rfloor>" using \<open>0 \<le> f\<close> by simp
  ultimately show ?thesis by (simp add: nat_less_iff)
qed

lemma drop_bit_1_less_iff: "(drop_bit 1 x < b) \<longleftrightarrow> unat (x :: 64 word) < 2 * unat b"
  by (simp add: word_less_nat_alt drop_bit_eq_div unat_div div_less_iff_less_mult mult.commute)

lemma ShouldSample_ratio:
  assumes "0 \<le> f" and "f < 1"
  shows "ShouldSample (TraceIDRatioBased f) t \<longleftrightarrow> unat (ucast t :: 64 word) < 2 * nat \<lfloor>f * 2 ^ 63\<rfloor>"
proof -
  define n where "n = nat \<lfloor>f * 2 ^ 63\<rfloor>"
  have s: "TraceIDRatioBased f = RatioSampler (word_of_nat n)"
    using assms by (auto simp: TraceIDRatioBased_def n_def)
  have "n < 2 ^ 64" using ratio_bound_lt [OF assms] by (simp add: n_def)
  then have u: "unat (word_of_nat n :: 64 word) = n" by (simp add: unat_of_nat)
  show ?thesis
    unfolding s ShouldSample_def n_def [symmetric] by (simp only: Sampler.case drop_bit_1_less_iff u)
qed

lemma ShouldSample_mono:
  assumes "f \<le> g" and "ShouldSample (TraceIDRatioBased f) t"
  shows "ShouldSample (TraceIDRatioBased g) t"
proof (cases "1 \<le> g")
  case True
  then show ?thesis by (rule ShouldSample_ge1)
next
  case False
  have "0 < f" using assms(2) ShouldSample_le0 [of f t] by fastforce
  moreover have "\<lfloor>f * 2 ^ 63\<rfloor> \<le> \<lfloor>g * 2 ^ 63\<rfloor>" using assms(1) by (intro floor_mono) simp
  ultimately show ?thesis
    using assms False ShouldSample_ratio [of f t] ShouldSample_ratio [of g t] by auto
qed

lemma card_unat_less: "n \<le> 2 ^ 64 \<Longrightarrow> card {x :: 64 word. unat x < n} = n"
proof -
  assume n: "n \<le> 2 ^ 64"
  have "{x :: 64 word. unat x < n} = word_of_nat ` {..<n}"
  proof (intro set_eqI iffI)
    fix x :: "64 word" assume "x \<in> {x. unat x < n}"
    then show "x \<in> word_of_nat ` {..<n}" by (intro image_eqI [of _ _ "unat x"]) simp_all
  next
    fix x :: "64 word" assume "x \<in> word_of_nat ` {..<n}"
    then obtain m where "m < n" "x = word_of_nat m" by auto
    with n show "x \<in> {x. unat x < n}" by (simp add: unat_of_nat)
  qed
  moreover have "inj_on (word_of_nat :: nat \<Rightarrow> 64 word) {..<n}"
    using n by (intro inj_onI) (simp add: word_of_nat_eq_iff take_bit_nat_eq_self)
  ultimately show ?thesis by (simp add: card_image)
qed

lemma ratio_sampled_count:
  assumes "0 \<le> f" and "f < 1"
  shows "card {x :: 64 word. ShouldSample (TraceIDRatioBased f) (ucast x)} = 2 * nat \<lfloor>f * 2 ^ 63\<rfloor>"
proof -
  have "{x :: 64 word. ShouldSample (TraceIDRatioBased f) (ucast x)} = {x. unat x < 2 * nat \<lfloor>f * 2 ^ 63\<rfloor>}"
    using ShouldSample_ratio [OF assms] by (simp add: ucast_up_ucast_id is_up)
  moreover have "2 * nat \<lfloor>f * 2 ^ 63\<rfloor> \<le> 2 ^ 64" using ratio_bound_lt [OF assms] by simp
  ultimately show ?thesis by (simp add: card_unat_less)
qed

text \<open>
  The header round trip: the trace id and the sampled flag the next hop reads from the
  injected \<open>traceparent\<close> are those of the span context, and the header has the 55
  characters of version 00.
\<close>

lemma hex_fixed_length [simp]: "length (hex_fixed k n) = k"
  by (induction k arbitrary: n) simp_all

lemma hex_value_snoc: "hex_value (xs @ [c]) = 16 * hex_value xs + (let n = (of_char c :: nat) in if n < 97 then n - 48 else n - 87)"
  by (simp add: hex_value_def)

lemma hex_digit_value:
  assumes "d < 16"
  shows "(let n = (of_char (hex_digit d) :: nat) in if n < 97 then n - 48 else n - 87) = d"
  using assms by (simp add: hex_digit_def of_char_of Let_def)

lemma hex_value_hex_fixed: "hex_value (hex_fixed k n) = n mod 16 ^ k"
proof (induction k arbitrary: n)
  case 0
  then show ?case by (simp add: hex_value_def)
next
  case (Suc k)
  have "hex_value (hex_fixed (Suc k) n) = 16 * (n div 16 mod 16 ^ k) + n mod 16"
    by (simp add: hex_value_snoc Suc.IH hex_digit_value)
  also have "\<dots> = n mod (16 * 16 ^ k)" by (simp add: mod_mult2_eq)
  finally show ?case by simp
qed

lemma traceparent_roundtrip:
  assumes "traceparent_of (Some (tid, sid, smp)) = Some h"
  shows "traceparent_trace_id h = tid \<and> (traceparent_sampled h \<longleftrightarrow> smp) \<and> length h = 55"
proof -
  have "unat tid < 16 ^ 32" using unsigned_less [of tid] by simp
  then have "word_of_nat (hex_value (hex_fixed 32 (unat tid))) = tid"
    by (simp add: hex_value_hex_fixed)
  then show ?thesis using assms
    by (auto simp: traceparent_of_def traceparent_trace_id_def traceparent_sampled_def split: if_splits)
qed

text \<open>
  Without an installed provider (tracing disabled, or \<open>InitTracer\<close> failed and
  \<open>main\<close> went on) the middleware injects nothing.
\<close>

lemma traced_start_header:
  "traceparent_of (server_span_context (installed_provider init) parent ft fs) = Some h \<Longrightarrow>
   fiberRequestCarrier_Get ''traceparent'' (snd (traced_start init parent ft fs rp c)) = h"
  by (simp add: traced_start_def Tracing_start_injects)

lemma traced_start_no_provider:
  "installed_provider init = None \<Longrightarrow> snd (traced_start init parent ft fs rp c) = c"
  by (simp add: traced_start_def Tracing_start_def Let_def server_span_context_def traceparent_of_def)



text \<open>
  With an empty environment, \<open>InitTracer\<close> installs an always-on sampler and hands
  the exporter the endpoint \<open>http://localhost:4318\<close>, which \<open>WithEndpoint\<close> reads
  as a host name: the spans are posted to \<open>http://http://localhost:4318/v1/traces\<close>.
\<close>

lemma InitTracer_default:
  "InitTracer (CfgTracing (Load pd pf (\<lambda>_. []))) None None =
     Inr (Some \<lparr>tp_endpoint = ''http://localhost:4318'', tp_service_name = ''minisource-gateway'',
               tp_service_version = ''1.0.0'', tp_sampler = AlwaysSample\<rparr>)"
  by (simp add: InitTracer_def Load_def getEnv_def getEnvBool_def getEnvFloat_def TraceIDRatioBased_def)

lemma default_export_url:
  "InitTracer (CfgTracing (Load pd pf (\<lambda>_. []))) None None = Inr (Some tp) \<Longrightarrow>
   export_url tp = ''http://http://localhost:4318/v1/traces''"
  by (auto simp: InitTracer_default export_url_def)


text \<open>A span created under the server span stays in its trace with the same sampling decision.\<close>

lemma CreateSpan_same_trace:
  assumes "server_span_context (Some tp) parent ft fs = Some (t, sid, smp)"
  shows "snd (CreateSpan (Some tp) (Some (t, sid, smp)) n ft' fs') = Some (t, fs', smp)"
  using assms by (auto simp: CreateSpan_def server_span_context_def Let_def split: option.splits)

end
