(* ===== verification/Lifecycle.thy ===== *)
theory Lifecycle
  imports Telemetry
begin

text \<open>
  The life of the gateway process (\<open>main\<close> in \<open>cmd/main.go\<close>, staged in
  \<open>src/tests/integration/gateway_test.go\<close>): start-up, serving while the two
  background goroutines tick, the termination signal, the drain bounded by
  \<open>ShutdownTimeout\<close>, and the cleanup sequence after it. The process is a record of
  what these steps read and change; the steps form an inductive relation, and its
  invariants are proved by rule induction over the states reachable from start-up.
  Fiber's \<open>ShutdownWithContext\<close> is modelled from its documentation: it stops accepting
  connections and waits for the requests in flight, returning the context's error if
  the deadline passes first.
\<close>

section \<open>Process state\<close>

datatype Phase = Serving | Draining | Stopped | Exited

text \<open>The phases in which the process runs (its goroutines tick, its requests complete).\<close>

definition running :: "Phase \<Rightarrow> bool" where
  "running ph \<longleftrightarrow> ph = Serving \<or> ph = Draining"

text \<open>The goroutines started during start-up that loop for the life of the process.\<close>

datatype BgTask = HealthProber | LimiterCleanup

record Proc =
  pr_phase :: Phase
  pr_gw :: Gateway
  pr_state :: GwState
  pr_bg :: "BgTask set"
  pr_listening :: bool
  pr_inflight :: nat
  pr_redis_open :: bool
  pr_shutdown_fn :: bool
  pr_provider :: bool
  pr_flushed :: bool
  pr_forced :: bool
  pr_log :: "string list"

section \<open>Start-up\<close>

text \<open>
  \<open>main\<close> up to \<open>Listen\<close>: the gateway and state of \<open>main_setup\<close>, the tracer of
  \<open>InitTracer\<close> (its shutdown function is \<open>nil\<close> after an error), the Redis client
  kept only when the ping succeeded, the prober started by \<open>StartHealthChecks\<close> and
  the limiter's sweeper started by \<open>NewRateLimiter\<close> when there is no Redis client.
  The log lines are the messages \<open>main\<close> hands to its logger, before the level filter.
\<close>

definition main_boot ::
  "Config \<Rightarrow> (string + Route list) \<Rightarrow> bool \<Rightarrow> GoError option \<Rightarrow> GoError option \<Rightarrow> Proc" where
  "main_boot cfg loaded pingOk exporterErr resourceErr =
     (let (gw, st) = main_setup cfg loaded pingOk;
          init = InitTracer (CfgTracing cfg) exporterErr resourceErr;
          hasHost = (RedisHost (CfgRedis cfg) \<noteq> []);
          redisUp = (hasHost \<and> pingOk)
      in \<lparr>pr_phase = Serving, pr_gw = gw, pr_state = st,
          pr_bg = {HealthProber} \<union> (if sweeper_running (gw_limiter st) then {LimiterCleanup} else {}),
          pr_listening = False, pr_inflight = 0, pr_redis_open = redisUp,
          pr_shutdown_fn = (case init of Inl _ \<Rightarrow> False | Inr _ \<Rightarrow> True),
          pr_provider = (installed_provider init \<noteq> None),
          pr_flushed = False, pr_forced = False,
          pr_log = [''Starting Minisource API Gateway''] @
                   (if hasHost then (if pingOk then [''Connected to Redis'']
                                     else [''Redis connection failed, using in-memory rate limiter''])
                    else []) @ [''Gateway listening'']\<rparr>)"

section \<open>Shutdown\<close>

text \<open>
  After \<open>ShutdownWithContext\<close> returned (\<open>forced\<close>: the deadline passed with
  requests still in flight, and the context is expired): log the forced shutdown,
  \<open>serviceProxy.Close()\<close> (logging its error, which it never returns), close the Redis client if there is
  one, and call the tracer's shutdown function if there is one, with the same context.
  \<open>TracerProvider.Shutdown\<close> returns the context's error before flushing when the
  context is done; a no-op shutdown function (tracing disabled) flushes nothing.
\<close>

definition main_cleanup :: "bool \<Rightarrow> Proc \<Rightarrow> Proc" where
  "main_cleanup forced p =
     (let log1 = pr_log p @ (if forced then [''Server forced to shutdown''] else []) @
                 (case proxy_Close (gw_proxy (pr_state p)) of Some _ \<Rightarrow> [''Failed to close proxy''] | None \<Rightarrow> []);
          log2 = log1 @ (if pr_shutdown_fn p \<and> pr_provider p \<and> forced then [''Failed to shutdown tracer''] else [])
      in p\<lparr>pr_phase := Stopped, pr_redis_open := False,
           pr_flushed := (pr_shutdown_fn p \<and> pr_provider p \<and> \<not> forced),
           pr_forced := forced, pr_log := log2 @ [''Gateway stopped'']\<rparr>)"

section \<open>Steps\<close>

text \<open>
  One step of the running process. The goroutine started by \<open>main\<close> calls
  \<open>app.Listen\<close>, which either binds its socket or fails; a failure other than
  \<open>ErrServerClosed\<close> is \<open>log.Fatalf\<close>, which writes to the standard logger and ends
  the process at once (\<open>Exited\<close>): no deferred call and no cleanup runs. A request is
  accepted only while serving on a bound socket; one in
  flight completes through the pipeline (\<open>serve\<close>, on the fresh context Fiber gives
  every request) in either running phase; the
  background goroutines tick while the process runs, since nothing stops them; the
  signal starts the drain; the drain ends when no request is in flight, or when the
  deadline passes with requests in flight, and \<open>main\<close> then runs its cleanup and
  returns, which ends the process.
\<close>

inductive proc_step :: "Proc \<Rightarrow> Proc \<Rightarrow> bool" where
  listen_ok: "running (pr_phase p) \<Longrightarrow> \<not> pr_listening p \<Longrightarrow> proc_step p (p\<lparr>pr_listening := True\<rparr>)"
| listen_fatal: "running (pr_phase p) \<Longrightarrow> \<not> pr_listening p \<Longrightarrow> proc_step p (p\<lparr>pr_phase := Exited\<rparr>)"
| accept: "pr_phase p = Serving \<Longrightarrow> pr_listening p \<Longrightarrow> proc_step p (p\<lparr>pr_inflight := Suc (pr_inflight p)\<rparr>)"
| complete: "running (pr_phase p) \<Longrightarrow> 0 < pr_inflight p \<Longrightarrow>
     proc_step p (p\<lparr>pr_state := snd (serve (pr_gw p) e (new_ctx rq h) (pr_state p)), pr_inflight := pr_inflight p - 1\<rparr>)"
| probe_tick: "running (pr_phase p) \<Longrightarrow> HealthProber \<in> pr_bg p \<Longrightarrow>
     proc_step p (p\<lparr>pr_state := (pr_state p)\<lparr>gw_proxy := health_tick pb clk (gw_proxy (pr_state p))\<rparr>\<rparr>)"
| sweep_tick: "running (pr_phase p) \<Longrightarrow> LimiterCleanup \<in> pr_bg p \<Longrightarrow>
     proc_step p (p\<lparr>pr_state := (pr_state p)\<lparr>gw_limiter := (gw_limiter (pr_state p))\<lparr>local :=
        cleanup_step (RLCleanupInterval (rl_cfg (gw_limiter (pr_state p)))) tnow
          (local (gw_limiter (pr_state p)))\<rparr>\<rparr>\<rparr>)"
| signal: "pr_phase p = Serving \<Longrightarrow>
     proc_step p (p\<lparr>pr_phase := Draining, pr_log := pr_log p @ [''Shutting down gateway...'']\<rparr>)"
| drained: "pr_phase p = Draining \<Longrightarrow> pr_inflight p = 0 \<Longrightarrow> proc_step p (main_cleanup False p)"
| deadline: "pr_phase p = Draining \<Longrightarrow> 0 < pr_inflight p \<Longrightarrow> proc_step p (main_cleanup True p)"

text \<open>The states of a process started with \<open>main_boot\<close>.\<close>

inductive proc_reach :: "Proc \<Rightarrow> Proc \<Rightarrow> bool" for p0 :: Proc where
  boot: "proc_reach p0 p0"
| step: "proc_reach p0 p \<Longrightarrow> proc_step p p' \<Longrightarrow> proc_reach p0 p'"

text \<open>What holds once \<open>main\<close> has returned.\<close>

definition stopped_inv :: "Proc \<Rightarrow> bool" where
  "stopped_inv p \<longleftrightarrow>
     (pr_phase p = Stopped \<longrightarrow>
        \<not> pr_redis_open p \<and> (pr_forced p \<longleftrightarrow> 0 < pr_inflight p) \<and>
        (pr_flushed p \<longleftrightarrow> pr_shutdown_fn p \<and> pr_provider p \<and> pr_inflight p = 0))"


text \<open>What holds while \<open>Listen\<close> has not bound its socket, and after \<open>log.Fatalf\<close>.\<close>

definition unbound_inv :: "Proc \<Rightarrow> Proc \<Rightarrow> bool" where
  "unbound_inv p0 p \<longleftrightarrow>
     (pr_phase p = Exited \<longrightarrow> \<not> pr_listening p) \<and>
     (\<not> pr_listening p \<and> pr_phase p \<noteq> Stopped \<longrightarrow>
        pr_inflight p = 0 \<and> \<not> pr_flushed p \<and> pr_redis_open p = pr_redis_open p0)"

section \<open>Lemmas\<close>

lemmas proc_step_cases = proc_step.cases [case_names listen_ok listen_fatal accept complete probe_tick sweep_tick signal drained deadline]

lemma main_cleanup_sel [simp]:
  "pr_phase (main_cleanup f p) = Stopped" "pr_bg (main_cleanup f p) = pr_bg p"
  "pr_inflight (main_cleanup f p) = pr_inflight p" "pr_redis_open (main_cleanup f p) = False"
  "pr_shutdown_fn (main_cleanup f p) = pr_shutdown_fn p" "pr_provider (main_cleanup f p) = pr_provider p"
  "pr_flushed (main_cleanup f p) = (pr_shutdown_fn p \<and> pr_provider p \<and> \<not> f)"
  "pr_forced (main_cleanup f p) = f" "pr_state (main_cleanup f p) = pr_state p"
  "pr_listening (main_cleanup f p) = pr_listening p"
  by (simp_all add: main_cleanup_def Let_def)

lemma main_boot_sel:
  "pr_phase (main_boot cfg l ok ee re) = Serving"
  "pr_bg (main_boot cfg l ok ee re) =
     {HealthProber} \<union> (if \<not> (RedisHost (CfgRedis cfg) \<noteq> [] \<and> ok) then {LimiterCleanup} else {})"
  "pr_inflight (main_boot cfg l ok ee re) = 0" "\<not> pr_listening (main_boot cfg l ok ee re)"
  "pr_shutdown_fn (main_boot cfg l ok ee re) \<and> pr_provider (main_boot cfg l ok ee re) \<longleftrightarrow>
     installed_provider (InitTracer (CfgTracing cfg) ee re) \<noteq> None"
  by (auto simp: main_boot_def main_setup_def Let_def NewRateLimiter_def installed_provider_def
      split: sum.splits)

text \<open>Every step keeps the background goroutines and the tracer's set-up.\<close>

lemma proc_step_keeps:
  assumes "proc_step p p'"
  shows "pr_bg p' = pr_bg p \<and> pr_shutdown_fn p' = pr_shutdown_fn p \<and> pr_provider p' = pr_provider p"
  using assms by (cases rule: proc_step_cases) simp_all

text \<open>
  \<open>main\<close> returning or \<open>log.Fatalf\<close> ends the process: a stopped or exited
  process takes no step. After the
  signal the process does not go back to serving and accepts no request, so the number
  in flight only falls.
\<close>

lemma proc_step_running: "proc_step p p' \<Longrightarrow> running (pr_phase p)"
  by (erule proc_step.cases) (simp_all add: running_def)

lemma proc_step_after_signal:
  assumes "proc_step p p'" and "pr_phase p \<noteq> Serving"
  shows "pr_phase p' \<noteq> Serving \<and> pr_inflight p' \<le> pr_inflight p"
  using assms by (cases rule: proc_step_cases) (simp_all add: running_def)

text \<open>
  Nothing stops the background goroutines: every reachable state runs the ones
  started at boot, the health prober always among them, through the drain as well
  (spec 5: background tasks observe shutdown and exit).
\<close>

lemma proc_reach_keeps:
  "proc_reach p0 p \<Longrightarrow> pr_bg p = pr_bg p0 \<and> pr_shutdown_fn p = pr_shutdown_fn p0 \<and> pr_provider p = pr_provider p0"
  by (induction rule: proc_reach.induct) (auto dest: proc_step_keeps)

lemma proc_reach_prober:
  "proc_reach (main_boot cfg l ok ee re) p \<Longrightarrow> HealthProber \<in> pr_bg p"
  using proc_reach_keeps [of "main_boot cfg l ok ee re" p] by (simp add: main_boot_sel)

lemma proc_reach_after_signal:
  "proc_reach p p' \<Longrightarrow> pr_phase p \<noteq> Serving \<Longrightarrow> pr_phase p' \<noteq> Serving \<and> pr_inflight p' \<le> pr_inflight p"
  by (induction rule: proc_reach.induct) (auto dest: proc_step_after_signal)


lemma proc_step_stopped_inv: "proc_step p p' \<Longrightarrow> stopped_inv p'"
  by (cases rule: proc_step_cases) (auto simp: stopped_inv_def running_def)

lemma proc_reach_stopped_inv: "proc_reach p0 p \<Longrightarrow> pr_phase p0 \<noteq> Stopped \<Longrightarrow> stopped_inv p"
  by (induction rule: proc_reach.induct) (auto simp: stopped_inv_def dest: proc_step_stopped_inv)

text \<open>
  A failed \<open>Listen\<close> ends the process through \<open>log.Fatalf\<close> before any request was
  accepted, and skips the whole cleanup: the Redis client is left as start-up made it
  and the tracer is never flushed. Under the default configuration, with Redis
  answering the ping, the client stays open.
\<close>

lemma proc_step_unbound_inv:
  assumes "proc_step p p'" and "unbound_inv p0 p"
  shows "unbound_inv p0 p'"
  using assms by (cases rule: proc_step_cases) (auto simp: unbound_inv_def running_def)

lemma proc_reach_unbound_inv:
  "proc_reach p0 p \<Longrightarrow> pr_inflight p0 = 0 \<Longrightarrow> \<not> pr_flushed p0 \<Longrightarrow> pr_phase p0 = Serving \<Longrightarrow> unbound_inv p0 p"
proof (induction rule: proc_reach.induct)
  case boot
  then show ?case by (simp add: unbound_inv_def)
next
  case (step p p')
  then show ?case using proc_step_unbound_inv by blast
qed

lemma fatal_exit_skips_cleanup:
  assumes "proc_reach (main_boot cfg l ok ee re) p" and "pr_phase p = Exited"
  shows "pr_inflight p = 0 \<and> \<not> pr_flushed p \<and> pr_redis_open p = (RedisHost (CfgRedis cfg) \<noteq> [] \<and> ok)"
proof -
  have "\<not> pr_flushed (main_boot cfg l ok ee re)" "pr_redis_open (main_boot cfg l ok ee re) = (RedisHost (CfgRedis cfg) \<noteq> [] \<and> ok)"
    by (simp_all add: main_boot_def main_setup_def Let_def)
  moreover have "unbound_inv (main_boot cfg l ok ee re) p"
    using proc_reach_unbound_inv [OF assms(1)] calculation(1) by (simp add: main_boot_sel)
  ultimately show ?thesis using assms(2) by (auto simp: unbound_inv_def)
qed

lemma fatal_exit_example:
  "proc_reach (main_boot (Load (\<lambda>_. None) (\<lambda>_. None) (\<lambda>_. [])) (Inr DefaultRoutes) True None None) ((main_boot (Load (\<lambda>_. None) (\<lambda>_. None) (\<lambda>_. [])) (Inr DefaultRoutes) True None None)\<lparr>pr_phase := Exited\<rparr>) \<and>
   pr_redis_open ((main_boot (Load (\<lambda>_. None) (\<lambda>_. None) (\<lambda>_. [])) (Inr DefaultRoutes) True None None)\<lparr>pr_phase := Exited\<rparr>) \<and>
   \<not> pr_flushed ((main_boot (Load (\<lambda>_. None) (\<lambda>_. None) (\<lambda>_. [])) (Inr DefaultRoutes) True None None)\<lparr>pr_phase := Exited\<rparr>)"
proof -
  let ?p0 = "main_boot (Load (\<lambda>_. None) (\<lambda>_. None) (\<lambda>_. [])) (Inr DefaultRoutes) True None None"
  have s: "proc_step ?p0 (?p0\<lparr>pr_phase := Exited\<rparr>)"
    by (rule proc_step.listen_fatal) (simp_all add: main_boot_sel running_def)
  have r: "proc_reach ?p0 (?p0\<lparr>pr_phase := Exited\<rparr>)" using proc_reach.step [OF proc_reach.boot s] .
  have "RedisHost (CfgRedis (Load (\<lambda>_. None) (\<lambda>_. None) (\<lambda>_. []))) \<noteq> []"
    by (simp add: Load_def getEnv_def)
  with fatal_exit_skips_cleanup [OF r] r show ?thesis by simp
qed

lemma proc_step_breakers:
  assumes "proc_step p p'"
  shows "gw_breakers (pr_state p') = gw_breakers (pr_state p)"
  using assms by (cases rule: proc_step_cases) (simp_all add: serve_breakers_unchanged)

lemma main_boot_breakers:
  "gw_breakers (pr_state (main_boot cfg l ok ee re)) = NewCircuitBreakerManager (CfgCircuit cfg)"
  by (simp add: main_boot_def main_setup_def Let_def)

text \<open>
  C28: the circuit breakers are never used. Over the whole life of the process, every
  state reachable from \<open>main\<close>'s start-up keeps the empty breaker manager \<open>main\<close>
  created: no request, however it is answered upstream, ever creates a breaker, because
  the breaker middleware reads the \<open>service\<close> context value before the route handler
  sets it (spec 4.4, scenario S3).
\<close>

theorem proc_reach_breakers_never_created:
  assumes "proc_reach (main_boot cfg loaded pingOk ee re) p"
  shows "gw_breakers (pr_state p) = NewCircuitBreakerManager (CfgCircuit cfg) \<and> breakers (gw_breakers (pr_state p)) = Map.empty"
  using assms
proof (induction rule: proc_reach.induct)
  case boot
  then show ?case by (simp add: main_boot_breakers NewCircuitBreakerManager_def)
next
  case (step p p')
  then show ?case by (simp add: proc_step_breakers NewCircuitBreakerManager_def)
qed

theorem proc_reach_breakers_never_created_witness:
  "proc_reach (main_boot (Load (\<lambda>_. None) (\<lambda>_. None) (\<lambda>_. [])) (Inr DefaultRoutes) False None None) ((((main_boot (Load (\<lambda>_. None) (\<lambda>_. None) (\<lambda>_. [])) (Inr DefaultRoutes) False None None)\<lparr>pr_listening := True\<rparr>)\<lparr>pr_inflight := 1\<rparr>)\<lparr>pr_state := snd (serve (pr_gw (((main_boot (Load (\<lambda>_. None) (\<lambda>_. None) (\<lambda>_. [])) (Inr DefaultRoutes) False None None)\<lparr>pr_listening := True\<rparr>)\<lparr>pr_inflight := 1\<rparr>)) demo_env (new_ctx demo_auth_request ''gw.example'') (pr_state (((main_boot (Load (\<lambda>_. None) (\<lambda>_. None) (\<lambda>_. [])) (Inr DefaultRoutes) False None None)\<lparr>pr_listening := True\<rparr>)\<lparr>pr_inflight := 1\<rparr>))), pr_inflight := pr_inflight (((main_boot (Load (\<lambda>_. None) (\<lambda>_. None) (\<lambda>_. [])) (Inr DefaultRoutes) False None None)\<lparr>pr_listening := True\<rparr>)\<lparr>pr_inflight := 1\<rparr>) - 1\<rparr>) \<and>
   breakers (gw_breakers (pr_state ((((main_boot (Load (\<lambda>_. None) (\<lambda>_. None) (\<lambda>_. [])) (Inr DefaultRoutes) False None None)\<lparr>pr_listening := True\<rparr>)\<lparr>pr_inflight := 1\<rparr>)\<lparr>pr_state := snd (serve (pr_gw (((main_boot (Load (\<lambda>_. None) (\<lambda>_. None) (\<lambda>_. [])) (Inr DefaultRoutes) False None None)\<lparr>pr_listening := True\<rparr>)\<lparr>pr_inflight := 1\<rparr>)) demo_env (new_ctx demo_auth_request ''gw.example'') (pr_state (((main_boot (Load (\<lambda>_. None) (\<lambda>_. None) (\<lambda>_. [])) (Inr DefaultRoutes) False None None)\<lparr>pr_listening := True\<rparr>)\<lparr>pr_inflight := 1\<rparr>))), pr_inflight := pr_inflight (((main_boot (Load (\<lambda>_. None) (\<lambda>_. None) (\<lambda>_. [])) (Inr DefaultRoutes) False None None)\<lparr>pr_listening := True\<rparr>)\<lparr>pr_inflight := 1\<rparr>) - 1\<rparr>))) = Map.empty"
proof -
  let ?p0 = "main_boot (Load (\<lambda>_. None) (\<lambda>_. None) (\<lambda>_. [])) (Inr DefaultRoutes) False None None"
  let ?pl = "?p0\<lparr>pr_listening := True\<rparr>"
  let ?p1 = "?pl\<lparr>pr_inflight := 1\<rparr>"
  have s0: "proc_step ?p0 ?pl" by (rule proc_step.listen_ok) (simp_all add: main_boot_sel running_def)
  have s1: "proc_step ?pl ?p1" using proc_step.accept [of ?pl] by (simp add: main_boot_sel)
  have s2: "proc_step ?p1 (?p1\<lparr>pr_state := snd (serve (pr_gw ?p1) demo_env (new_ctx demo_auth_request ''gw.example'') (pr_state ?p1)),
                               pr_inflight := pr_inflight ?p1 - 1\<rparr>)"
    by (rule proc_step.complete) (simp_all add: main_boot_sel running_def)
  have r: "proc_reach ?p0 (?p1\<lparr>pr_state := snd (serve (pr_gw ?p1) demo_env (new_ctx demo_auth_request ''gw.example'') (pr_state ?p1)),
                               pr_inflight := pr_inflight ?p1 - 1\<rparr>)"
    using proc_reach.step [OF proc_reach.step [OF proc_reach.step [OF proc_reach.boot s0] s1] s2] .
  from r conjunct2 [OF proc_reach_breakers_never_created [OF r]] show ?thesis by (rule conjI)
qed

text \<open>
  C34: when the gateway has stopped, its Redis client is closed, and the tracer has
  been flushed exactly when \<open>InitTracer\<close> installed a provider and the drain ended
  with no request in flight: after a forced shutdown \<open>main\<close> hands the expired
  shutdown context to \<open>TracerProvider.Shutdown\<close>, which returns before flushing
  (spec 5: close connection pools and flush the tracer).
\<close>

theorem shutdown_flush_iff_drained:
  assumes "proc_reach (main_boot cfg loaded pingOk ee re) p" and "pr_phase p = Stopped"
  shows "\<not> pr_redis_open p \<and>
         (pr_flushed p \<longleftrightarrow> installed_provider (InitTracer (CfgTracing cfg) ee re) \<noteq> None \<and> pr_inflight p = 0)"
proof -
  have "stopped_inv p" using proc_reach_stopped_inv [OF assms(1)] by (simp add: main_boot_sel)
  moreover have "pr_shutdown_fn p \<and> pr_provider p \<longleftrightarrow> installed_provider (InitTracer (CfgTracing cfg) ee re) \<noteq> None"
    using proc_reach_keeps [OF assms(1)] main_boot_sel(5) by simp
  ultimately show ?thesis using assms(2) by (auto simp: stopped_inv_def)
qed

theorem shutdown_flush_iff_drained_witness:
  "proc_reach (main_boot (Load (\<lambda>_. None) (\<lambda>_. None) (\<lambda>_. [])) (Inr DefaultRoutes) True None None)
     (main_cleanup True ((((main_boot (Load (\<lambda>_. None) (\<lambda>_. None) (\<lambda>_. [])) (Inr DefaultRoutes) True None None)\<lparr>pr_listening := True\<rparr>)\<lparr>pr_inflight := 1\<rparr>)\<lparr>pr_phase := Draining, pr_log := pr_log (((main_boot (Load (\<lambda>_. None) (\<lambda>_. None) (\<lambda>_. [])) (Inr DefaultRoutes) True None None)\<lparr>pr_listening := True\<rparr>)\<lparr>pr_inflight := 1\<rparr>) @ [''Shutting down gateway...'']\<rparr>)) \<and>
   pr_phase (main_cleanup True ((((main_boot (Load (\<lambda>_. None) (\<lambda>_. None) (\<lambda>_. [])) (Inr DefaultRoutes) True None None)\<lparr>pr_listening := True\<rparr>)\<lparr>pr_inflight := 1\<rparr>)\<lparr>pr_phase := Draining, pr_log := pr_log (((main_boot (Load (\<lambda>_. None) (\<lambda>_. None) (\<lambda>_. [])) (Inr DefaultRoutes) True None None)\<lparr>pr_listening := True\<rparr>)\<lparr>pr_inflight := 1\<rparr>) @ [''Shutting down gateway...'']\<rparr>)) = Stopped \<and> \<not> pr_redis_open (main_cleanup True ((((main_boot (Load (\<lambda>_. None) (\<lambda>_. None) (\<lambda>_. [])) (Inr DefaultRoutes) True None None)\<lparr>pr_listening := True\<rparr>)\<lparr>pr_inflight := 1\<rparr>)\<lparr>pr_phase := Draining, pr_log := pr_log (((main_boot (Load (\<lambda>_. None) (\<lambda>_. None) (\<lambda>_. [])) (Inr DefaultRoutes) True None None)\<lparr>pr_listening := True\<rparr>)\<lparr>pr_inflight := 1\<rparr>) @ [''Shutting down gateway...'']\<rparr>)) \<and>
   installed_provider (InitTracer (CfgTracing (Load (\<lambda>_. None) (\<lambda>_. None) (\<lambda>_. []))) None None) \<noteq> None \<and>
   \<not> pr_flushed (main_cleanup True ((((main_boot (Load (\<lambda>_. None) (\<lambda>_. None) (\<lambda>_. [])) (Inr DefaultRoutes) True None None)\<lparr>pr_listening := True\<rparr>)\<lparr>pr_inflight := 1\<rparr>)\<lparr>pr_phase := Draining, pr_log := pr_log (((main_boot (Load (\<lambda>_. None) (\<lambda>_. None) (\<lambda>_. [])) (Inr DefaultRoutes) True None None)\<lparr>pr_listening := True\<rparr>)\<lparr>pr_inflight := 1\<rparr>) @ [''Shutting down gateway...'']\<rparr>))"
proof -
  let ?p0 = "main_boot (Load (\<lambda>_. None) (\<lambda>_. None) (\<lambda>_. [])) (Inr DefaultRoutes) True None None"
  let ?pl = "?p0\<lparr>pr_listening := True\<rparr>"
  let ?p1 = "?pl\<lparr>pr_inflight := 1\<rparr>"
  let ?p2 = "?p1\<lparr>pr_phase := Draining, pr_log := pr_log ?p1 @ [''Shutting down gateway...'']\<rparr>"
  have s0: "proc_step ?p0 ?pl" by (rule proc_step.listen_ok) (simp_all add: main_boot_sel running_def)
  have s1: "proc_step ?pl ?p1" using proc_step.accept [of ?pl] by (simp add: main_boot_sel)
  have s2: "proc_step ?p1 ?p2" by (rule proc_step.signal) (simp add: main_boot_sel)
  have s3: "proc_step ?p2 (main_cleanup True ?p2)" by (rule proc_step.deadline) simp_all
  have r: "proc_reach ?p0 (main_cleanup True ?p2)"
    using proc_reach.step [OF proc_reach.step [OF proc_reach.step [OF proc_reach.step [OF proc_reach.boot s0] s1] s2] s3] .
  have i: "installed_provider (InitTracer (CfgTracing (Load (\<lambda>_. None) (\<lambda>_. None) (\<lambda>_. []))) None None) \<noteq> None"
    by (simp add: InitTracer_default installed_provider_def)
  from shutdown_flush_iff_drained [OF r] i r show ?thesis by simp
qed

end
