(* ===== verification/FiberApp.thy ===== *)
theory FiberApp
  imports Config
begin

text \<open>
  The Fiber application \<open>main\<close> creates (\<open>fiber.New(fiber.Config{...})\<close> in
  \<open>cmd/main.go\<close>, staged in \<open>src/tests/integration/gateway_test.go\<close>) and what its
  trusted-proxy settings decide: whether the peer of a connection is a trusted proxy,
  and then what \<open>c.Hostname()\<close>, \<open>c.Protocol()\<close> and \<open>c.IP()\<close> report to the
  middleware and to \<open>Forward\<close>. Fiber is a library; \<open>IsProxyTrusted\<close>, \<open>Hostname\<close>
  and \<open>Protocol\<close> follow its documented behaviour (Fiber v2 \<open>ctx.go\<close>). A connection is
  the peer address, whether it is TLS, and the host of the request URI; the request
  line and headers are the \<open>ClientRequest\<close> of the proxy theory.
\<close>

section \<open>The application's configuration\<close>

record FiberConfig =
  fc_ReadTimeout :: nanos
  fc_WriteTimeout :: nanos
  fc_IdleTimeout :: nanos
  fc_ErrorHandler :: "ReqCtx \<Rightarrow> GoError \<Rightarrow> LogEvent \<times> HttpResponse"
  fc_AppName :: string
  fc_ServerHeader :: string
  fc_EnableTrustedProxyCheck :: bool
  fc_TrustedProxies :: "string list"

definition main_fiber_config :: "Config \<Rightarrow> FiberConfig" where
  "main_fiber_config cfg =
     \<lparr>fc_ReadTimeout = ReadTimeout (CfgServer cfg), fc_WriteTimeout = WriteTimeout (CfgServer cfg),
      fc_IdleTimeout = IdleTimeout (CfgServer cfg), fc_ErrorHandler = ErrorLogger,
      fc_AppName = ''Minisource Gateway v1.0.0'', fc_ServerHeader = [],
      fc_EnableTrustedProxyCheck = True, fc_TrustedProxies = TrustedProxies (CfgServer cfg)\<rparr>"

section \<open>Trusted proxies\<close>

text \<open>
  At start-up Fiber sorts \<open>TrustedProxies\<close>: an entry with a \<open>/\<close> is a CIDR range
  (kept if \<open>net.ParseCIDR\<close> accepts it), any other entry an exact address. A peer is
  trusted when the check is off, when its address string is an exact entry, or when a
  range contains it; \<open>cidr_contains\<close> is \<open>net.ParseCIDR\<close> followed by
  \<open>IPNet.Contains\<close> (false for an entry that does not parse).
\<close>

type_synonym cidr_test = "string \<Rightarrow> string \<Rightarrow> bool"

definition IsProxyTrusted :: "FiberConfig \<Rightarrow> cidr_test \<Rightarrow> string \<Rightarrow> bool" where
  "IsProxyTrusted fc cidr_contains ip \<longleftrightarrow>
     \<not> fc_EnableTrustedProxyCheck fc \<or>
     ip \<in> set (filter (\<lambda>a. CHR ''/'' \<notin> set a) (fc_TrustedProxies fc)) \<or>
     list_ex (\<lambda>r. cidr_contains r ip) (filter (\<lambda>a. CHR ''/'' \<in> set a) (fc_TrustedProxies fc))"

text \<open>The part of a header value before its first comma (\<open>v[:strings.Index(v, ",")]\<close>).\<close>

definition first_csv :: "string \<Rightarrow> string" where
  "first_csv v = takeWhile (\<lambda>ch. ch \<noteq> CHR '','') v"

text \<open>
  \<open>c.Hostname()\<close>: from a trusted proxy, the first element of a non-empty
  \<open>X-Forwarded-Host\<close>; otherwise the host of the request URI.
\<close>

definition fiber_Hostname :: "FiberConfig \<Rightarrow> cidr_test \<Rightarrow> string \<Rightarrow> headers \<Rightarrow> string \<Rightarrow> string" where
  "fiber_Hostname fc cc ip hs uriHost =
     (let host = hdr_get normalizeHeaderKey ''X-Forwarded-Host'' hs
      in if IsProxyTrusted fc cc ip \<and> host \<noteq> [] then first_csv host else uriHost)"

text \<open>
  \<open>c.Protocol()\<close>: \<open>https\<close> on a TLS connection; \<open>http\<close> from an untrusted peer;
  from a trusted one, the headers are visited in order and the last of
  \<open>X-Forwarded-Proto\<close> or \<open>X-Forwarded-Protocol\<close> (its first element),
  \<open>X-Forwarded-Ssl: on\<close> (\<open>https\<close>) and \<open>X-Url-Scheme\<close> wins, starting from \<open>http\<close>.
  Keys shorter than twelve bytes are skipped; keys are compared in their normalised form.
\<close>

definition proto_visit :: "string \<Rightarrow> header \<Rightarrow> string" where
  "proto_visit scheme h =
     (let k = normalizeHeaderKey (fst h); v = snd h
      in if length k < 12 then scheme
         else if HasPrefix k ''X-Forwarded-'' then
           (if k = ''X-Forwarded-Proto'' \<or> k = ''X-Forwarded-Protocol'' then first_csv v
            else if k = ''X-Forwarded-Ssl'' \<and> v = ''on'' then ''https'' else scheme)
         else if k = ''X-Url-Scheme'' then v else scheme)"

definition fiber_Protocol :: "FiberConfig \<Rightarrow> cidr_test \<Rightarrow> string \<Rightarrow> bool \<Rightarrow> headers \<Rightarrow> string" where
  "fiber_Protocol fc cc ip tls hs =
     (if tls then ''https''
      else if \<not> IsProxyTrusted fc cc ip then ''http''
      else foldl proto_visit ''http'' hs)"

section \<open>The context of a request\<close>

record Conn =
  cn_remote_ip :: string
  cn_tls :: bool
  cn_uri_host :: string

text \<open>
  The \<open>fiber.Ctx\<close> of a request on a connection: \<open>c.IP()\<close> is the peer address (no
  \<open>ProxyHeader\<close> is configured), \<open>c.Request().Host()\<close> the URI host, and the
  hostname and protocol are Fiber's.
\<close>

definition fiber_ctx :: "FiberConfig \<Rightarrow> cidr_test \<Rightarrow> Conn \<Rightarrow> ClientRequest \<Rightarrow> ReqCtx" where
  "fiber_ctx fc cc cn rq =
     new_ctx (rq\<lparr>rq_ip := cn_remote_ip cn, rq_host := cn_uri_host cn,
                 rq_protocol := fiber_Protocol fc cc (cn_remote_ip cn) (cn_tls cn) (rq_headers rq)\<rparr>)
             (fiber_Hostname fc cc (cn_remote_ip cn) (rq_headers rq) (cn_uri_host cn))"


section \<open>The router object\<close>

text \<open>
  \<open>router.New\<close> keeps the proxy, the route table and the configuration; the Fiber
  application it registers on is not modelled. Its \<open>SetupRoutes\<close> registers the
  routes it holds (\<open>Router.SetupRoutes\<close> of the route theory).
\<close>

record GatewayRouter =
  rt_proxy :: ServiceProxy
  rt_routes :: "Route list"
  rt_cfg :: Config

definition router_New :: "ServiceProxy \<Rightarrow> Route list \<Rightarrow> Config \<Rightarrow> GatewayRouter" where
  "router_New p routes cfg = \<lparr>rt_proxy = p, rt_routes = routes, rt_cfg = cfg\<rparr>"

definition router_SetupRoutes :: "GatewayRouter \<Rightarrow> registration list" where
  "router_SetupRoutes r = SetupRoutes (rt_routes r)"

section \<open>Lemmas\<close>

lemma fiber_ctx_sel [simp]:
  "cx_req (fiber_ctx fc cc cn rq) =
     rq\<lparr>rq_ip := cn_remote_ip cn, rq_host := cn_uri_host cn,
        rq_protocol := fiber_Protocol fc cc (cn_remote_ip cn) (cn_tls cn) (rq_headers rq)\<rparr>"
  "cx_hostname (fiber_ctx fc cc cn rq) = fiber_Hostname fc cc (cn_remote_ip cn) (rq_headers rq) (cn_uri_host cn)"
  "cx_tenant_id (fiber_ctx fc cc cn rq) = None"
  by (simp_all add: fiber_ctx_def new_ctx_def)

text \<open>
  From a peer outside the trusted proxies, the forwarding headers the client sends
  change nothing: the hostname is the URI host and the protocol the connection's.
  From a trusted one, the first element of \<open>X-Forwarded-Host\<close> is the hostname.
\<close>

lemma untrusted_peer:
  assumes "\<not> IsProxyTrusted fc cc (cn_remote_ip cn)"
  shows "fiber_Hostname fc cc (cn_remote_ip cn) hs (cn_uri_host cn) = cn_uri_host cn"
    and "fiber_Protocol fc cc (cn_remote_ip cn) (cn_tls cn) hs = (if cn_tls cn then ''https'' else ''http'')"
  using assms by (simp_all add: fiber_Hostname_def fiber_Protocol_def)

lemma trusted_peer_hostname:
  assumes "IsProxyTrusted fc cc ip" and "hdr_get normalizeHeaderKey ''X-Forwarded-Host'' hs = h" and "h \<noteq> []"
  shows "fiber_Hostname fc cc ip hs u = first_csv h"
  using assms by (simp add: fiber_Hostname_def)

lemma TenantExtractor_from_host:
  assumes "cx_tenant_id c = None" and "ctx_get ''X-Tenant-ID'' c = []"
    and "3 \<le> length (Split CHR ''.'' (cx_hostname c))"
  shows "cx_tenant_id (TenantExtractor c) =
           (if hd (Split CHR ''.'' (cx_hostname c)) = [] then None else Some (hd (Split CHR ''.'' (cx_hostname c))))"
  using assms by (simp add: TenantExtractor_def Let_def req_set_def)

text \<open>
  Composed with the middleware: for a request from an untrusted peer that sends no
  \<open>X-Tenant-ID\<close>, the tenant \<open>TenantExtractor\<close> derives is the first label of the
  URI host, whatever \<open>X-Forwarded-Host\<close> says, and the protocol \<open>Forward\<close> passes on
  as \<open>X-Forwarded-Proto\<close> is the connection's. The example: a client at
  \<open>203.0.113.7\<close> under the default configuration claims \<open>evil.gw.example\<close> and
  \<open>https\<close> and gets the tenant \<open>acme\<close> of \<open>acme.gw.example\<close> and \<open>http\<close>.
\<close>

lemma untrusted_peer_tenant_and_proto:
  assumes "\<not> IsProxyTrusted (main_fiber_config cfg) cc (cn_remote_ip cn)"
    and "hdr_get normalizeHeaderKey ''X-Tenant-ID'' (rq_headers rq) = []"
    and "3 \<le> length (Split CHR ''.'' (cn_uri_host cn))"
  shows "cx_tenant_id (TenantExtractor (fiber_ctx (main_fiber_config cfg) cc cn rq)) =
           (if hd (Split CHR ''.'' (cn_uri_host cn)) = [] then None else Some (hd (Split CHR ''.'' (cn_uri_host cn)))) \<and>
         rq_protocol (cx_req (fiber_ctx (main_fiber_config cfg) cc cn rq)) = (if cn_tls cn then ''https'' else ''http'')"
proof -
  let ?c = "fiber_ctx (main_fiber_config cfg) cc cn rq"
  have h: "cx_hostname ?c = cn_uri_host cn" using untrusted_peer(1) [OF assms(1)] by simp
  have t: "ctx_get ''X-Tenant-ID'' ?c = []" using assms(2) by (simp add: ctx_get_def)
  show ?thesis
    using TenantExtractor_from_host [of ?c] h t assms(3) untrusted_peer(2) [OF assms(1)] by simp
qed

lemma untrusted_peer_tenant_and_proto_example:
  "\<not> IsProxyTrusted (main_fiber_config (Load (\<lambda>_. None) (\<lambda>_. None) (\<lambda>_. []))) (\<lambda>_ _. False) ''203.0.113.7'' \<and>
   hdr_get normalizeHeaderKey ''X-Tenant-ID'' [(''X-Forwarded-Host'', ''evil.gw.example''), (''X-Forwarded-Proto'', ''https'')] = [] \<and>
   3 \<le> length (Split CHR ''.'' ''acme.gw.example'') \<and>
   cx_tenant_id (TenantExtractor (fiber_ctx (main_fiber_config (Load (\<lambda>_. None) (\<lambda>_. None) (\<lambda>_. []))) (\<lambda>_ _. False)
      \<lparr>cn_remote_ip = ''203.0.113.7'', cn_tls = False, cn_uri_host = ''acme.gw.example''\<rparr>
      \<lparr>rq_method = ''GET'', rq_path = ''/api/v1/users'', rq_query = [],
       rq_headers = [(''X-Forwarded-Host'', ''evil.gw.example''), (''X-Forwarded-Proto'', ''https'')],
       rq_body = [], rq_ip = [], rq_host = [], rq_protocol = []\<rparr>)) = Some ''acme'' \<and>
   rq_protocol (cx_req (fiber_ctx (main_fiber_config (Load (\<lambda>_. None) (\<lambda>_. None) (\<lambda>_. []))) (\<lambda>_ _. False)
      \<lparr>cn_remote_ip = ''203.0.113.7'', cn_tls = False, cn_uri_host = ''acme.gw.example''\<rparr>
      \<lparr>rq_method = ''GET'', rq_path = ''/api/v1/users'', rq_query = [],
       rq_headers = [(''X-Forwarded-Host'', ''evil.gw.example''), (''X-Forwarded-Proto'', ''https'')],
       rq_body = [], rq_ip = [], rq_host = [], rq_protocol = []\<rparr>)) = ''http''"
proof -
  have u: "\<not> IsProxyTrusted (main_fiber_config (Load (\<lambda>_. None) (\<lambda>_. None) (\<lambda>_. []))) (\<lambda>_ _. False) ''203.0.113.7''"
    by (simp add: IsProxyTrusted_def main_fiber_config_def Load_def getEnvSlice_def)
  have x: "hdr_get normalizeHeaderKey ''X-Tenant-ID'' [(''X-Forwarded-Host'', ''evil.gw.example''), (''X-Forwarded-Proto'', ''https'')] = []"
    by (simp add: hdr_get_def normalizeHeaderKey_def ascii_upper_def ascii_lower_def char_eval)
  have s: "Split CHR ''.'' ''acme.gw.example'' = [''acme'', ''gw'', ''example'']" by simp
  show ?thesis
    using untrusted_peer_tenant_and_proto [of "Load (\<lambda>_. None) (\<lambda>_. None) (\<lambda>_. [])" "\<lambda>_ _. False"
            "\<lparr>cn_remote_ip = ''203.0.113.7'', cn_tls = False, cn_uri_host = ''acme.gw.example''\<rparr>"
            "\<lparr>rq_method = ''GET'', rq_path = ''/api/v1/users'', rq_query = [],
              rq_headers = [(''X-Forwarded-Host'', ''evil.gw.example''), (''X-Forwarded-Proto'', ''https'')],
              rq_body = [], rq_ip = [], rq_host = [], rq_protocol = []\<rparr>"] u x s
    by simp
qed

text \<open>
  \<open>getEnvSlice\<close> splits \<open>TRUSTED_PROXIES\<close> on commas without trimming: in
  \<open>10.0.0.1, 10.0.0.2\<close> the second entry is \<open>" 10.0.0.2"\<close>, and the proxy at
  \<open>10.0.0.2\<close> is not trusted.
\<close>

lemma Load_trusted_proxies_untrimmed:
  assumes "env ''TRUSTED_PROXIES'' = ''10.0.0.1, 10.0.0.2''"
  shows "\<not> IsProxyTrusted (main_fiber_config (Load pd pf env)) cc ''10.0.0.2''"
    and "IsProxyTrusted (main_fiber_config (Load pd pf env)) cc ''10.0.0.1''"
  using assms by (simp_all add: IsProxyTrusted_def main_fiber_config_def Load_def getEnvSlice_def)

text \<open>
  The routes \<open>main\<close>'s router registers are those of the loaded table, or of
  \<open>DefaultRoutes\<close> when loading failed, and the auth middleware's public paths come
  from the same table.
\<close>

lemma main_router_routes:
  "router_SetupRoutes (router_New p (gw_routes (fst (main_setup cfg loaded ok))) cfg) =
     SetupRoutes (case loaded of Inl _ \<Rightarrow> DefaultRoutes | Inr rs \<Rightarrow> rs)"
  "gw_auth (fst (main_setup cfg loaded ok)) =
     NewAuthMiddleware (Secret (CfgJWT cfg)) (case loaded of Inl _ \<Rightarrow> DefaultRoutes | Inr rs \<Rightarrow> rs)"
  by (simp_all add: router_SetupRoutes_def router_New_def main_setup_def Let_def)

end
