(* ===== verification/Spec2Isabelle.thy ===== *)
theory Spec2Isabelle
  imports Pipeline Retry BreakerSpec Logging Config Telemetry Lifecycle FiberApp
begin

text \<open>
  \<^bold>\<open>A verification model of the minisource API gateway.\<close>

  The gateway (\<open>src/\<close>) is a Go/Fiber service: every request runs through a fixed
  middleware chain (\<open>setupMiddleware\<close> in \<open>src/tests/integration/gateway_test.go\<close>,
  which holds \<open>cmd/main.go\<close>): recovery, request id, security headers, CORS,
  tracing, metrics, logging, content type, tenant extraction, authentication, rate
  limiting and circuit breaking; then Fiber dispatches to the health endpoints or to the
  route handlers that \<open>internal/router\<close> (\<open>src/unnamed/part_002\<close>) registered from
  the route table, and these forward to the upstream services through
  \<open>internal/proxy\<close> (\<open>src/unnamed/part_001\<close>), whose health a background prober
  refreshes. The configuration package (\<open>config\<close>) is staged inside
  \<open>src/Dockerfile\<close>.

  \<^bold>\<open>Theories.\<close>
  \<^item> \<open>GW_Prelude\<close>: the Go library functions the sources call (\<open>strings.HasPrefix\<close>,
    \<open>TrimPrefix\<close>, \<open>HasSuffix\<close>, \<open>EqualFold\<close>, \<open>ToUpper\<close>, \<open>Split\<close>, \<open>Join\<close>
    on ASCII, truncating division, \<open>int(float)\<close>, \<open>t.Unix()\<close>, \<open>Itoa\<close>), header lists
    with \<open>Header.Set\<close>/\<open>Get\<close>, and the shared rewrite rules \<open>gw_simps\<close>.
  \<^item> \<open>Router\<close>: \<open>config.Route\<close> and \<open>DefaultRoutes\<close>; \<open>matchesPath\<close>,
    \<open>containsMethod\<close>, \<open>GetRouteForPath\<close>, \<open>IsPublicRoute\<close>, \<open>setupRoute\<close> and
    \<open>SetupRoutes\<close> (the registrations handed to Fiber). Lemmas: path matching is the
    segment-boundary prefix match (C12), the two router loops agree (C13), the default
    table shadows the public login route (C14); lookup is first match and what
    registration produces, as plain lemmas.
  \<^item> \<open>Breaker\<close>: the \<open>sony/gobreaker\<close> state machine, modelled from its documented
    behaviour because the library is not in the repository (\<open>uint32\<close> counters as
    \<open>32 word\<close>, generation as \<open>64 word\<close>, \<open>currentState\<close>, \<open>beforeRequest\<close>,
    \<open>afterRequest\<close>, \<open>Execute\<close>), and from \<open>circuit.go\<close> the \<open>ReadyToTrip\<close>
    predicate, the manager (\<open>GetBreaker\<close>, \<open>GetState\<close>, \<open>GetAllStates\<close>) and the
    middleware. Each breaker operation is a function of the breaker record, so concurrent
    calls are interleavings of the same atomic steps. Lemmas C1 to C11: rejection while
    open, recovery through half-open after the timeout, tripping exactly on the predicate,
    successes never tripping (a divergence from spec 8.3), the invariant of every step,
    closing and reopening from half-open, the probe cap, stale outcomes ignored, lazy
    creation, and the middleware's 503.
  \<^item> \<open>BreakerSpec\<close>: the state table of spec 4.4 as an abstract machine
    (\<open>spec_step\<close>, an inductive relation on state and expiry), the breaker's operations
    as a step relation \<open>cb_step\<close> and the breakers reachable from creation
    (\<open>cb_reach\<close>); the invariant holds on every reachable breaker (rule induction),
    and every concrete step is a sequence of abstract ones (C39, a simulation under the
    abstraction to state and expiry).
  \<^item> \<open>RateLimit\<close>: \<open>ratelimit.go\<close>: the local token bucket (\<open>LocalLimiter.allow\<close>,
    float64 idealised to real), one tick of \<open>cleanup\<close>, the shared-store Lua script with
    its key expiry, the fallback to the local bucket when the store fails, \<open>createKey\<close>
    and the middleware. Lemmas C15 to C18, C20, C21: the bucket stays in
    \<open>[0, burst]\<close>, refills, panics on a zero rate, leaves \<open>[0, burst]\<close> on a zero
    burst, the store's reset time, fallback buckets never swept; keeping tokens on a
    denial, the sweep and the two backends' disagreement on a zero burst as plain lemmas.
  \<^item> \<open>Proxy\<close>: the service registry (a Go map, as an association list), \<open>Forward\<close>
    (target URL, hop-by-hop filtering through \<open>http.CanonicalHeaderKey\<close>, forwarding
    headers, 502/503), \<open>HealthCheck\<close>, \<open>setServiceHealth\<close>, one tick of
    \<open>StartHealthChecks\<close>. The upstream call is a parameter: the outcome of
    \<open>Client.Do\<close> as a function of the request built. Lemmas C22, C23, C25:
    hop-by-hop isolation, forwarding headers, exact prefix stripping; the prober tick
    refreshing every service as a plain lemma; C40: the default route table is well formed for the
    registry (spec invariant I2).
  \<^item> \<open>Health\<close>: all of \<open>handler/health.go\<close>: the handler, \<open>RegisterRoutes\<close>, the
    bodies of \<open>Health\<close> and \<open>Live\<close>, \<open>Ready\<close>, \<open>ServicesHealth\<close> and the memory
    statistics (\<open>bToMb\<close> rounds down and never exceeds its input). Lemma C27:
    readiness is 503 exactly when a service is unhealthy; scenario S6 as a plain lemma.
  \<^item> \<open>Middleware\<close>: \<open>auth.go\<close> (\<open>Auth\<close>, \<open>validateToken\<close> around the JWT library,
    \<open>RequireRoles\<close>, \<open>TenantExtractor\<close>, \<open>NewAuthMiddleware\<close>) and
    \<open>logging.go\<close> (\<open>RequestID\<close>, \<open>SecurityHeaders\<close>, \<open>CORS\<close>, \<open>ContentType\<close>,
    \<open>Recover\<close>, \<open>RequestLogger\<close>'s event, \<open>ErrorLogger\<close>, the level filter), on the
    per-request context record \<open>ReqCtx\<close> (\<open>c.Locals\<close> and the headers). Lemmas:
    what lets a request past authentication (C30) and the client's \<open>X-User-Roles\<close>
    surviving it (C31).
  \<^item> \<open>Logging\<close>: the rest of \<open>logging.go\<close>: the lines \<open>SimpleLogger.log\<close> writes in
    its JSON and text formats, \<open>TransformHeaders\<close> and \<open>RequestTimeout\<close>. Lemma C24: a
    quote in the request path forges fields in the JSON request log; as plain lemmas,
    renaming a header to its own name in another case deletes it, and chained renames
    depend on the map's iteration order.
  \<^item> \<open>Config\<close>: the \<open>config\<close> package (\<open>src/Dockerfile\<close>): its records,
    \<open>Load\<close> over an environment (a function from names to values, \<open>[]\<close> for unset),
    the \<open>getEnv*\<close> helpers with \<open>strconv.Atoi\<close> and \<open>ParseBool\<close> written out
    (\<open>time.ParseDuration\<close> and \<open>ParseFloat\<close> are parameters), \<open>LoadRoutes\<close> (the
    file contents and the YAML decoder are parameters), \<open>NewLogger\<close>, and
    \<open>main_setup\<close>: the gateway and initial state \<open>main\<close> in \<open>cmd/main.go\<close> builds
    before \<open>Listen\<close>. Lemmas: the defaults of an empty environment are the settings
    the other theories assume; \<open>Atoi\<close> reads back \<open>Itoa\<close> on the 64-bit range; a
    negative \<open>CIRCUIT_FAILURE_THRESHOLD\<close> wraps to \<open>2^32 - 1\<close>, so that the breakers
    practically never trip (C19); the default deployment verifies tokens with the secret
    \<open>your-secret-key\<close> written in the source.
  \<^item> \<open>FiberApp\<close>: the \<open>fiber.Config\<close> \<open>main\<close> passes (\<open>main_fiber_config\<close>:
    timeouts, \<open>ErrorLogger\<close> as error handler, the trusted-proxy check on with the
    configured list) and, from Fiber's documentation, \<open>IsProxyTrusted\<close>,
    \<open>Hostname\<close> and \<open>Protocol\<close>, which build the request context (\<open>fiber_ctx\<close>) the
    middleware sees. Lemmas: from an untrusted peer the hostname and protocol ignore the
    forwarding headers, so the host-derived tenant of \<open>TenantExtractor\<close> and the
    \<open>X-Forwarded-Proto\<close> sent upstream cannot be chosen by the client; a
    \<open>TRUSTED_PROXIES\<close> list with a space after a comma leaves that proxy untrusted.
    Also the router object of \<open>router.New\<close>, whose registrations are those of the
    table \<open>main\<close> loaded (or the default table).
  \<^item> \<open>Lifecycle\<close>: the process \<open>main\<close> runs, as an inductive step relation
    \<open>proc_step\<close> over a record of what \<open>main\<close> holds: start-up (\<open>main_boot\<close>:
    \<open>main_setup\<close>, \<open>InitTracer\<close>, the Redis ping, the background goroutines), requests
    accepted while serving on the socket \<open>Listen\<close> bound and completed through
    \<open>serve\<close>, prober and sweeper ticks,
    the signal, the drain that ends empty or at the deadline, and the cleanup sequence
    (\<open>main_cleanup\<close>). Fiber's \<open>ShutdownWithContext\<close> is modelled from its
    documentation. Invariants by rule induction over \<open>proc_reach\<close>: the goroutines
    started at boot run in every reachable state (nothing stops them); after the signal
    no request is accepted; a failed \<open>Listen\<close> (\<open>log.Fatalf\<close>) exits before any request
    and skips the cleanup; C28: the breaker manager stays the empty one \<open>main\<close>
    created in every reachable state; C34: once stopped, Redis is closed and the tracer was
    flushed exactly when a provider was installed and the drain ended in time.
  \<^item> \<open>Metrics\<close>: \<open>metrics.go\<close> (\<open>part_000\<close>): the Prometheus collectors as
    multisets of recorded samples (a counter's value for a label tuple is its
    multiplicity) and an integer gauge, the \<open>Metrics\<close> middleware on a returned or a
    panicking chain, \<open>UpdateCircuitBreakerMetric\<close>, \<open>GetMetricsHandler\<close>. Lemma
    C36: the \<open>upstream_unavailable\<close> branch is dead.
  \<^item> \<open>Tracing\<close>: \<open>tracing.go\<close>: the middleware's span (name, attributes, status,
    recorded error) as a record of what it hands to OpenTelemetry, the injection of the
    trace context through \<open>fiberRequestCarrier\<close>, and the two carriers.
  \<^item> \<open>Telemetry\<close>: \<open>InitTracer\<close> (disabled, failing and installing paths) and what
    the OpenTelemetry SDK does with the provider it installs, from the SDK's
    documentation: the trace-id ratio sampler on \<open>64 word\<close> (exactly
    \<open>2 * uint64(f * 2^63)\<close> of the \<open>2^64\<close> id suffixes are sampled, monotone in the
    rate), the server span's context, the W3C \<open>traceparent\<close> written as fixed-width
    hexadecimal and read back (a round trip), \<open>CreateSpan\<close> (a child stays in its
    parent's trace), and the exporter's URL. Lemma C26: the
    injected header keeps the parent's trace id and takes the gateway sampler's
    decision, whatever the parent's flag; as a plain lemma, the default endpoint makes
    the exporter post to \<open>http://http://localhost:4318/v1/traces\<close>.
  \<^item> \<open>Retry\<close>: \<open>RetryMiddleware\<close> of \<open>circuit.go\<close>: route settings with their
    fallbacks and the retry loop, a \<open>function\<close> whose termination is proved with a
    lexicographic measure over the attempt counter (Go's \<open>int\<close>, with the wrap of
    \<open>attempt++\<close> written out) and whose backoff is \<open>int64\<close> arithmetic on
    \<open>64 word\<close>. Lemmas: the middleware returns after at most \<open>maxAttempts + 1\<close>
    calls (C33), stops at the first answer below 500 (a plain lemma), and its backoff overflows
    (C35).
  \<^item> \<open>Pipeline\<close>: the whole chain \<open>serve\<close> in the order of \<open>setupMiddleware\<close>, with
    optional tracing, metrics, Fiber's dispatch to the health endpoints, the proxy
    handlers and the 404 catch-all; the state one request updates is \<open>GwState\<close>
    (limiter, breaker manager, registry, metrics collectors). Lemmas: the breaker manager
    is never touched by any request and the limiter always uses the global limits
    (C29), because the route handler sets the context values these middlewares read only
    after they ran; request ids propagate to the upstream request and the log (C32); the
    active-connections gauge rises by one for every panicking request (C37); spans never
    carry tenant, user or service and stay unset after a panic (C38); every request is
    recorded under the service label \<open>gateway\<close>.

  \<^bold>\<open>Modelling choices.\<close> Time is the monotonic clock in nanoseconds (\<open>nat\<close> in the
  breaker, \<open>int\<close> where durations can be negative); the zero \<open>time.Time\<close> is
  \<open>None\<close>. Go's \<open>uint32\<close>/\<open>uint64\<close> counters are words and wrap. Strings are byte
  lists; case folding is ASCII, which is what the standard library does on the method
  and header names the gateway handles. Go maps whose iteration order matters are
  association lists; the results proved do not depend on that order. Each stage of the
  pipeline takes the context as it stands and returns it as it leaves it, which is how
  the shared \<open>fiber.Ctx\<close> behaves. Everything the outside world contributes to a
  request (clock readings, the UUID, the JWT library, the store's availability, the
  upstream's answer) is a parameter (\<open>Env\<close>), so a theorem holds for all of them. No
  loop of the model needs fuel: every loop of the code is over a finite list or, for the
  retry loop, bounded by its attempt counter (termination is proved, including the wrap
  of the counter at the largest \<open>int\<close>, after which the shift panics); the background
  loops (cleanup, health probing) are modelled one tick at a time. Fiber's
  \<open>c.Route().Path\<close> after the chain, the response size and the trace context are
  parameters of a request as well.

  \<^bold>\<open>Library code.\<close> The definitions of \<open>gobreaker\<close>, of the Fiber context and
  router, of \<open>http.CanonicalHeaderKey\<close> and of fasthttp's key normalisation are
  modelled from their documentation (marked so in the manifest), since their code is
  not part of the repository.

  \<^bold>\<open>Not modelled.\<close> \<open>GetSpanFromContext\<close> (it returns the span handle the middleware stored,
  whose later updates alias the middleware's span; nothing calls it), the SDK's batching, export and baggage, the parsing of an incoming
  \<open>traceparent\<close> (the extracted parent is a parameter) and the Prometheus exporter
  only call external libraries; the JWT signature check is the
  \<open>golang-jwt\<close> library; reading the environment and the route file, the Redis
  ping, the signal and the socket are I/O (their results are parameters of \<open>Load\<close>,
  \<open>LoadRoutes\<close>, \<open>main_setup\<close> and \<open>main_boot\<close>, or steps of \<open>proc_step\<close>); the unused
  \<open>AccessLog\<close> and \<open>CircuitBreakerStats\<close> structs and the integration tests (which build their own Fiber apps
  with inline handlers and run no gateway code) are not modelled; of the logger, the text of each line is modelled,
  not the write to standard output; floating-point rounding of the token bucket is
  idealised to real arithmetic; the clock readings formatted by \<open>time.Format\<close> and
  \<open>Duration.String\<close> are parameters. \<open>RetryMiddleware\<close> and \<open>TransformHeaders\<close>
  are modelled although \<open>main\<close> does not install them; each \<open>c.Next()\<close> call of the
  retry middleware is a parameter, because Fiber's \<open>Next\<close> advances to the next handler
  rather than re-running the one that failed.
\<close>

end
